theory Spec2Isabelle
  imports Complex_Main
begin

section \<open>Numbers\<close>

text \<open>
  A JavaScript number is \<^verbatim>\<open>NaN\<close>, one of the two infinities, or a finite double. In
  \<open>Fin r\<close> the rational \<open>r\<close> is the value of the double. The two zeros are one: no
  handler divides, \<^verbatim>\<open>-0 < 0\<close> is false, and both are sent to the database as \<^verbatim>\<open>0\<close>.
\<close>

datatype number = NaN | NegInf | Fin rat | PosInf

definition isNaN :: "number \<Rightarrow> bool" where
  "isNaN n = (n = NaN)"

text \<open>\<^verbatim>\<open>x < 0\<close> on numbers: every comparison with \<^verbatim>\<open>NaN\<close> is false.\<close>

fun lt0 :: "number \<Rightarrow> bool" where
  "lt0 NaN = False"
| "lt0 NegInf = True"
| "lt0 (Fin r) = (r < 0)"
| "lt0 PosInf = False"

fun neg :: "number \<Rightarrow> number" where
  "neg NaN = NaN"
| "neg NegInf = PosInf"
| "neg (Fin r) = Fin (- r)"
| "neg PosInf = NegInf"

subsection \<open>Rounding to the nearest double\<close>

text \<open>
  The result of an arithmetic operation on doubles, and the number read from a decimal
  text, is the exact result rounded to the nearest double, ties to the even significand
  (IEEE 754 binary64). A double is \<open>m * 2 ^ e\<close> with \<open>m < 2 ^ 53\<close> and
  \<open>- 1074 \<le> e \<le> 971\<close>; what rounds to \<open>2 ^ 1024\<close> or beyond is infinite.
\<close>

fun bitlen :: "nat \<Rightarrow> nat" where
  "bitlen n = (if n = 0 then 0 else Suc (bitlen (n div 2)))"

declare bitlen.simps [simp del]

definition pow2 :: "int \<Rightarrow> rat" where
  "pow2 e = (if 0 \<le> e then 2 ^ nat e else 1 / 2 ^ nat (- e))"

text \<open>The exponent \<open>k\<close> with \<open>2 ^ k \<le> x < 2 ^ (k + 1)\<close>, for a positive \<open>x\<close>.\<close>

definition floor_log2 :: "rat \<Rightarrow> int" where
  "floor_log2 x =
     (if 1 \<le> x then int (bitlen (nat \<lfloor>x\<rfloor>)) - 1
      else - int (bitlen (nat \<lceil>1 / x\<rceil> - 1)))"

text \<open>The nearest integer, the even one of two that are equally near.\<close>

definition round_even :: "rat \<Rightarrow> int" where
  "round_even t =
     (let f = \<lfloor>t\<rfloor>; r = t - of_int f
      in if r < 1 / 2 then f
         else if 1 / 2 < r then f + 1
         else if even f then f else f + 1)"

definition round_pos :: "rat \<Rightarrow> number" where
  "round_pos x =
     (let e = max (floor_log2 x - 52) (- 1074);
          m = round_even (x / pow2 e)
      in if 971 < e \<or> (e = 971 \<and> 2 ^ 53 \<le> m) then PosInf
         else Fin (of_int m * pow2 e))"

definition round_double :: "rat \<Rightarrow> number" where
  "round_double x =
     (if x = 0 then Fin 0
      else if x < 0 then neg (round_pos (- x))
      else round_pos x)"

text \<open>\<^verbatim>\<open>a - b\<close> and \<^verbatim>\<open>a + b\<close> on numbers.\<close>

fun sub :: "number \<Rightarrow> number \<Rightarrow> number" where
  "sub NaN _ = NaN"
| "sub _ NaN = NaN"
| "sub PosInf PosInf = NaN"
| "sub NegInf NegInf = NaN"
| "sub PosInf _ = PosInf"
| "sub NegInf _ = NegInf"
| "sub (Fin a) PosInf = NegInf"
| "sub (Fin a) NegInf = PosInf"
| "sub (Fin a) (Fin b) = round_double (a - b)"

fun add :: "number \<Rightarrow> number \<Rightarrow> number" where
  "add NaN _ = NaN"
| "add _ NaN = NaN"
| "add PosInf NegInf = NaN"
| "add NegInf PosInf = NaN"
| "add PosInf _ = PosInf"
| "add NegInf _ = NegInf"
| "add (Fin a) PosInf = PosInf"
| "add (Fin a) NegInf = NegInf"
| "add (Fin a) (Fin b) = round_double (a + b)"

section \<open>Values of the request body\<close>

text \<open>
  The handlers of \<^verbatim>\<open>Backend/routes/students.js\<close> read the monetary fields of
  \<^verbatim>\<open>req.body\<close> as untyped JSON values: they test them against \<^verbatim>\<open>undefined\<close>,
  \<^verbatim>\<open>null\<close> and \<^verbatim>\<open>''\<close>, use them in \<^verbatim>\<open>||\<close> and hand them to \<^verbatim>\<open>parseFloat\<close>.
  A monetary field is absent (\<^verbatim>\<open>undefined\<close>), \<^verbatim>\<open>null\<close>, a number or a string;
  booleans, arrays and objects in its place are left out. A number of the body is the
  double that \<^verbatim>\<open>JSON.parse\<close> has made of its literal, so the literal \<^verbatim>\<open>0.3\<close> is
  \<open>Num (round_double (3 / 10))\<close>. A string is the list of its UTF-16 code units.
\<close>

datatype jsval = Undefined | Null | Num number | Str "nat list"

text \<open>The code units of a text written in ASCII.\<close>

definition units :: "string \<Rightarrow> nat list" where
  "units s = map of_char s"

text \<open>JavaScript truthiness, as \<^verbatim>\<open>a || b\<close> and \<^verbatim>\<open>!a\<close> use it.\<close>

fun truthy :: "jsval \<Rightarrow> bool" where
  "truthy Undefined = False"
| "truthy Null = False"
| "truthy (Num NaN) = False"
| "truthy (Num (Fin r)) = (r \<noteq> 0)"
| "truthy (Num NegInf) = True"
| "truthy (Num PosInf) = True"
| "truthy (Str s) = (s \<noteq> [])"

definition or_js :: "jsval \<Rightarrow> jsval \<Rightarrow> jsval" where
  "or_js a b = (if truthy a then a else b)"

subsection \<open>parseFloat\<close>

text \<open>
  \<^verbatim>\<open>parseFloat\<close> converts its argument to a string, skips leading white space and line
  terminators and reads the longest prefix that is a decimal literal: an optional sign,
  then \<^verbatim>\<open>Infinity\<close>, or digits with an optional fraction (or a fraction alone) and an
  optional exponent. With no such prefix the result is \<^verbatim>\<open>NaN\<close>; otherwise it is the
  value of the prefix, rounded to the nearest double. A number is converted to a text
  that reads back as the same number.
\<close>

text \<open>
  The white space of the language: TAB, LF, VT, FF, CR, SP, NBSP, U+1680, U+2000 to
  U+200A, LS, PS, U+202F, U+205F, U+3000 and U+FEFF.
\<close>

definition is_ws :: "nat \<Rightarrow> bool" where
  "is_ws c = (c \<in> set [9, 10, 11, 12, 13, 32, 160, 5760, 8192, 8193, 8194, 8195, 8196, 8197,
                        8198, 8199, 8200, 8201, 8202, 8232, 8233, 8239, 8287, 12288, 65279])"

definition is_digit :: "nat \<Rightarrow> bool" where
  "is_digit c = (48 \<le> c \<and> c \<le> 57)"

definition digit_val :: "nat \<Rightarrow> nat" where
  "digit_val c = c - 48"

definition digits_val :: "nat list \<Rightarrow> nat" where
  "digits_val ds = foldl (\<lambda>a c. 10 * a + digit_val c) 0 ds"

text \<open>
  The exponent part: \<^verbatim>\<open>e\<close> (101) or \<^verbatim>\<open>E\<close> (69), an optional sign (\<^verbatim>\<open>-\<close> is 45,
  \<^verbatim>\<open>+\<close> is 43), at least one digit.
\<close>

definition exponent :: "nat list \<Rightarrow> int" where
  "exponent r =
     (case r of
        [] \<Rightarrow> 0
      | c # r1 \<Rightarrow>
          if c = 101 \<or> c = 69 then
            (case r1 of
               [] \<Rightarrow> 0
             | d # r2 \<Rightarrow>
                 if d = 45 then
                   (if takeWhile is_digit r2 = [] then 0
                    else - int (digits_val (takeWhile is_digit r2)))
                 else if d = 43 then int (digits_val (takeWhile is_digit r2))
                 else int (digits_val (takeWhile is_digit r1)))
          else 0)"

definition scale10 :: "rat \<Rightarrow> int \<Rightarrow> rat" where
  "scale10 x e = (if 0 \<le> e then x * 10 ^ nat e else x / 10 ^ nat (- e))"

text \<open>The literal without its sign; the decimal point is the code unit 46.\<close>

definition parse_unsigned :: "nat list \<Rightarrow> number" where
  "parse_unsigned u =
     (if take 8 u = units ''Infinity'' then PosInf
      else
        let ip = takeWhile is_digit u;
            r1 = dropWhile is_digit u;
            fp = (case r1 of [] \<Rightarrow> [] | c # r \<Rightarrow> if c = 46 then takeWhile is_digit r else []);
            r2 = (case r1 of [] \<Rightarrow> [] | c # r \<Rightarrow> if c = 46 then dropWhile is_digit r else r1)
        in if ip = [] \<and> fp = [] then NaN
           else round_double
                  (scale10 (of_nat (digits_val ip) + of_nat (digits_val fp) / 10 ^ length fp)
                     (exponent r2)))"

definition parseFloat_str :: "nat list \<Rightarrow> number" where
  "parseFloat_str s =
     (case dropWhile is_ws s of
        [] \<Rightarrow> NaN
      | c # r \<Rightarrow>
          if c = 45 then neg (parse_unsigned r)
          else if c = 43 then parse_unsigned r
          else parse_unsigned (c # r))"

fun parseFloat :: "jsval \<Rightarrow> number" where
  "parseFloat Undefined = NaN"
| "parseFloat Null = NaN"
| "parseFloat (Num n) = n"
| "parseFloat (Str s) = parseFloat_str s"

section \<open>Tables\<close>

text \<open>
  Dates are day numbers (days since 1970-01-01), instants are milliseconds since the same
  epoch, both in UTC. A column that the statements of the file can leave without a value
  is an \<open>option\<close>, with \<open>None\<close> for SQL \<^verbatim>\<open>NULL\<close>. Only the columns that the write handlers
  name are kept. A monetary column holds the number that the handler has sent for it:
  the schema is not part of the source file, so neither a rounding of the column to a
  fixed scale nor its constraints (keys, references) are modelled; a statement that the
  database rejects is a fault of the session, see below.
\<close>

type_synonym date = int
type_synonym instant = int

datatype status = Active | Expired

record student =
  s_id :: int
  s_name :: "string option"
  s_email :: "string option"
  s_phone :: "string option"
  s_address :: "string option"
  s_branch_id :: "int option"
  s_membership_start :: "date option"
  s_membership_end :: "date option"
  s_total_fee :: "number option"
  s_amount_paid :: "number option"
  s_due_amount :: "number option"
  s_cash :: "number option"
  s_online :: "number option"
  s_security_money :: "number option"
  s_remark :: "string option"
  s_profile_image_url :: "string option"
  s_status :: "status option"

record seat_assignment =
  sa_seat_id :: int
  sa_shift_id :: int
  sa_student_id :: int

record history =
  h_id :: int
  h_student_id :: int
  h_name :: "string option"
  h_email :: "string option"
  h_phone :: "string option"
  h_address :: "string option"
  h_membership_start :: "date option"
  h_membership_end :: "date option"
  h_status :: "status option"
  h_total_fee :: "number option"
  h_amount_paid :: "number option"
  h_due_amount :: "number option"
  h_cash :: "number option"
  h_online :: "number option"
  h_security_money :: "number option"
  h_remark :: "string option"
  h_seat_id :: "int option"
  h_shift_id :: "int option"
  h_branch_id :: "int option"
  h_changed_at :: instant

text \<open>
  The two \<^verbatim>\<open>id\<close> sequences are part of the database but not of a transaction: a
  \<^verbatim>\<open>ROLLBACK\<close> does not give a drawn number back.
\<close>

record db =
  students :: "student list"
  seats :: "int list"
  schedules :: "int list"
  seat_assignments :: "seat_assignment list"
  student_membership_history :: "history list"
  students_id_seq :: int
  history_id_seq :: int

text \<open>Two states of the database hold the same rows, in every table.\<close>

definition same_rows :: "db \<Rightarrow> db \<Rightarrow> bool" where
  "same_rows d d' =
     (students d' = students d \<and> seats d' = seats d \<and> schedules d' = schedules d
      \<and> seat_assignments d' = seat_assignments d
      \<and> student_membership_history d' = student_membership_history d)"

section \<open>Sessions, faults and transactions\<close>

text \<open>
  A handler talks to the database through \<^verbatim>\<open>pool.query\<close> or through a client taken
  from the pool. Every call of \<^verbatim>\<open>query\<close> is one step; a step either runs its statement
  or rejects (the \<^verbatim>\<open>await\<close> throws). The session carries the number of an optional
  faulty step: the step with that number, counted from 0 in the order of issue, rejects and
  leaves the tables as they are. \<open>snapshot\<close> holds the tables as they were at \<^verbatim>\<open>BEGIN\<close>
  while a transaction is open. The log lists what was sent, in order. One handler runs at a
  time: what two requests do to each other when they interleave is outside this model.
\<close>

datatype conn = Pool | Client

datatype stmt = BEGIN | COMMIT | ROLLBACK | SELECT | INSERT | UPDATE | DELETE

datatype event = Connect | Sql conn stmt | Release

datatype exn = DbError | TypeError

record session =
  tables :: db
  snapshot :: "db option"
  issued :: nat
  fault :: "nat option"
  log :: "event list"

type_synonym 'a io = "session \<Rightarrow> (exn + 'a) \<times> session"

definition ret :: "'a \<Rightarrow> 'a io" where
  "ret x = (\<lambda>s. (Inr x, s))"

definition throw :: "exn \<Rightarrow> 'a io" where
  "throw e = (\<lambda>s. (Inl e, s))"

definition bnd :: "'a io \<Rightarrow> ('a \<Rightarrow> 'b io) \<Rightarrow> 'b io" where
  "bnd m f = (\<lambda>s. case m s of (Inl e, s') \<Rightarrow> (Inl e, s') | (Inr x, s') \<Rightarrow> f x s')"

text \<open>One call of \<^verbatim>\<open>query\<close> with a data statement \<open>f\<close>, on the pool or on the client.\<close>

definition query :: "conn \<Rightarrow> stmt \<Rightarrow> (db \<Rightarrow> 'a \<times> db) \<Rightarrow> 'a io" where
  "query c k f =
     (\<lambda>s. let s' = s\<lparr>issued := Suc (issued s), log := log s @ [Sql c k]\<rparr>
          in if fault s = Some (issued s) then (Inl DbError, s')
             else (case f (tables s) of (r, t) \<Rightarrow> (Inr r, s'\<lparr>tables := t\<rparr>)))"

text \<open>
  \<^verbatim>\<open>client.query('BEGIN')\<close>, \<^verbatim>\<open>'COMMIT'\<close> and \<^verbatim>\<open>'ROLLBACK'\<close>. A rollback puts the
  rows back as they were at \<^verbatim>\<open>BEGIN\<close> and keeps the sequences; with no transaction open
  it changes nothing.
\<close>

definition begin_tx :: "unit io" where
  "begin_tx =
     (\<lambda>s. let s' = s\<lparr>issued := Suc (issued s), log := log s @ [Sql Client BEGIN]\<rparr>
          in if fault s = Some (issued s) then (Inl DbError, s')
             else (Inr (), s'\<lparr>snapshot := Some (tables s)\<rparr>))"

definition commit_tx :: "unit io" where
  "commit_tx =
     (\<lambda>s. let s' = s\<lparr>issued := Suc (issued s), log := log s @ [Sql Client COMMIT]\<rparr>
          in if fault s = Some (issued s) then (Inl DbError, s')
             else (Inr (), s'\<lparr>snapshot := None\<rparr>))"

definition restore :: "db \<Rightarrow> db option \<Rightarrow> db" where
  "restore cur snap =
     (case snap of
        None \<Rightarrow> cur
      | Some t \<Rightarrow> t\<lparr>students_id_seq := students_id_seq cur, history_id_seq := history_id_seq cur\<rparr>)"

definition rollback_tx :: "unit io" where
  "rollback_tx =
     (\<lambda>s. let s' = s\<lparr>issued := Suc (issued s), log := log s @ [Sql Client ROLLBACK]\<rparr>
          in if fault s = Some (issued s) then (Inl DbError, s')
             else (Inr (), s'\<lparr>tables := restore (tables s) (snapshot s), snapshot := None\<rparr>))"

section \<open>The statements\<close>

text \<open>Each SQL statement of the write handlers, as a function on the tables.\<close>

text \<open>\<^verbatim>\<open>SELECT 1 FROM seats WHERE id = $1\<close>\<close>

definition select_seat :: "int \<Rightarrow> db \<Rightarrow> int list \<times> db" where
  "select_seat seatId d = (filter (\<lambda>x. x = seatId) (seats d), d)"

text \<open>\<^verbatim>\<open>SELECT 1 FROM schedules WHERE id = $1\<close>\<close>

definition select_schedule :: "int \<Rightarrow> db \<Rightarrow> int list \<times> db" where
  "select_schedule shiftId d = (filter (\<lambda>x. x = shiftId) (schedules d), d)"

text \<open>\<^verbatim>\<open>SELECT 1 FROM seat_assignments WHERE seat_id = $1 AND shift_id = $2\<close>\<close>

definition select_assignment :: "int \<Rightarrow> int \<Rightarrow> db \<Rightarrow> seat_assignment list \<times> db" where
  "select_assignment seatId shiftId d =
     (filter (\<lambda>a. sa_seat_id a = seatId \<and> sa_shift_id a = shiftId) (seat_assignments d), d)"

text \<open>The same with \<^verbatim>\<open>AND student_id != $3\<close>, as update and renew send it.\<close>

definition select_assignment_other ::
  "int \<Rightarrow> int \<Rightarrow> int \<Rightarrow> db \<Rightarrow> seat_assignment list \<times> db" where
  "select_assignment_other seatId shiftId sid d =
     (filter (\<lambda>a. sa_seat_id a = seatId \<and> sa_shift_id a = shiftId \<and> sa_student_id a \<noteq> sid)
        (seat_assignments d), d)"

text \<open>
  \<^verbatim>\<open>INSERT INTO students (...) VALUES (...) RETURNING *\<close>: the row gets the next number
  of the sequence and is returned.
\<close>

definition insert_student :: "student \<Rightarrow> db \<Rightarrow> student \<times> db" where
  "insert_student v d =
     (let r = v\<lparr>s_id := students_id_seq d\<rparr>
      in (r, d\<lparr>students := students d @ [r], students_id_seq := students_id_seq d + 1\<rparr>))"

text \<open>\<^verbatim>\<open>INSERT INTO seat_assignments (seat_id, shift_id, student_id) VALUES ($1, $2, $3)\<close>\<close>

definition insert_seat_assignment :: "int \<Rightarrow> int \<Rightarrow> int \<Rightarrow> db \<Rightarrow> unit \<times> db" where
  "insert_seat_assignment seatId shiftId sid d =
     ((), d\<lparr>seat_assignments := seat_assignments d @
              [\<lparr>sa_seat_id = seatId, sa_shift_id = shiftId, sa_student_id = sid\<rparr>]\<rparr>)"

text \<open>\<^verbatim>\<open>INSERT INTO student_membership_history (...) VALUES (..., NOW())\<close>\<close>

definition insert_history :: "instant \<Rightarrow> history \<Rightarrow> db \<Rightarrow> unit \<times> db" where
  "insert_history now v d =
     ((), d\<lparr>student_membership_history := student_membership_history d @
              [v\<lparr>h_id := history_id_seq d, h_changed_at := now\<rparr>],
            history_id_seq := history_id_seq d + 1\<rparr>)"

text \<open>\<^verbatim>\<open>SELECT ... FROM students WHERE id = $1\<close>\<close>

definition select_student :: "int \<Rightarrow> db \<Rightarrow> student list \<times> db" where
  "select_student sid d = (filter (\<lambda>r. s_id r = sid) (students d), d)"

text \<open>\<^verbatim>\<open>UPDATE students SET ... WHERE id = $n RETURNING *\<close>, with \<open>f\<close> for the \<^verbatim>\<open>SET\<close> list.\<close>

definition update_student :: "int \<Rightarrow> (student \<Rightarrow> student) \<Rightarrow> db \<Rightarrow> student list \<times> db" where
  "update_student sid f d =
     (map f (filter (\<lambda>r. s_id r = sid) (students d)),
      d\<lparr>students := map (\<lambda>r. if s_id r = sid then f r else r) (students d)\<rparr>)"

text \<open>\<^verbatim>\<open>DELETE FROM seat_assignments WHERE student_id = $1\<close>\<close>

definition delete_seat_assignments :: "int \<Rightarrow> db \<Rightarrow> unit \<times> db" where
  "delete_seat_assignments sid d =
     ((), d\<lparr>seat_assignments := filter (\<lambda>a. sa_student_id a \<noteq> sid) (seat_assignments d)\<rparr>)"

text \<open>
  \<^verbatim>\<open>SELECT id FROM student_membership_history WHERE student_id = $1
  ORDER BY changed_at DESC LIMIT 1\<close>: a row of the student with the greatest
  \<^verbatim>\<open>changed_at\<close>; among equal ones the database may pick any, the model picks the
  first in table order.
\<close>

fun latest :: "history list \<Rightarrow> history option" where
  "latest [] = None"
| "latest (h # hs) =
     (case latest hs of
        None \<Rightarrow> Some h
      | Some g \<Rightarrow> if h_changed_at h < h_changed_at g then Some g else Some h)"

definition select_latest_history :: "int \<Rightarrow> db \<Rightarrow> int list \<times> db" where
  "select_latest_history sid d =
     (case latest (filter (\<lambda>h. h_student_id h = sid) (student_membership_history d)) of
        None \<Rightarrow> ([], d)
      | Some h \<Rightarrow> ([h_id h], d))"

text \<open>\<^verbatim>\<open>UPDATE student_membership_history SET ..., changed_at = NOW() WHERE id = $18\<close>\<close>

definition update_history :: "int \<Rightarrow> (history \<Rightarrow> history) \<Rightarrow> db \<Rightarrow> unit \<times> db" where
  "update_history hid f d =
     ((), d\<lparr>student_membership_history :=
              map (\<lambda>h. if h_id h = hid then f h else h) (student_membership_history d)\<rparr>)"

text \<open>\<^verbatim>\<open>DELETE FROM student_membership_history WHERE student_id = $1\<close>\<close>

definition delete_history :: "int \<Rightarrow> db \<Rightarrow> unit \<times> db" where
  "delete_history sid d =
     ((), d\<lparr>student_membership_history :=
              filter (\<lambda>h. h_student_id h \<noteq> sid) (student_membership_history d)\<rparr>)"

text \<open>\<^verbatim>\<open>DELETE FROM students WHERE id = $1 RETURNING *\<close>\<close>

definition delete_student :: "int \<Rightarrow> db \<Rightarrow> student list \<times> db" where
  "delete_student sid d =
     (filter (\<lambda>r. s_id r = sid) (students d),
      d\<lparr>students := filter (\<lambda>r. s_id r \<noteq> sid) (students d)\<rparr>)"

section \<open>Requests and responses\<close>

text \<open>
  The fields of \<^verbatim>\<open>req.body\<close>. Text fields are a string or absent (\<^verbatim>\<open>undefined\<close> or
  \<^verbatim>\<open>null\<close>); identifiers are JSON integers or absent, so \<^verbatim>\<open>parseInt(x, 10)\<close> returns
  them as they are; \<^verbatim>\<open>shift_ids\<close> is an array of such identifiers, or \<open>None\<close> when it is
  absent or not an array; the two dates are valid \<^verbatim>\<open>YYYY-MM-DD\<close> dates or absent. The
  monetary fields stay untyped.
\<close>

record body =
  name :: "string option"
  email :: "string option"
  phone :: "string option"
  address :: "string option"
  branch_id :: "int option"
  membership_start :: "date option"
  membership_end :: "date option"
  total_fee :: jsval
  amount_paid :: jsval
  shift_ids :: "int list option"
  seat_id :: "int option"
  cash :: jsval
  online :: jsval
  security_money :: jsval
  remark :: "string option"
  profile_image_url :: "string option"

datatype message =
    RequiredMissing
  | DatesRequired
  | TotalFeeInvalid
  | AmountPaidInvalid
  | CashInvalid
  | OnlineInvalid
  | SecurityMoneyInvalid
  | SeatNotExist int
  | ShiftNotExist int
  | SeatAssigned int
  | StudentNotFound
  | NoHistory
  | ServerError
  | StudentBody student
  | Renewed student
  | Deleted student

text \<open>
  What the handler sends: a status code with a body, or nothing at all when the handler's
  promise rejects outside its \<^verbatim>\<open>try\<close>.
\<close>

datatype response = Response nat message | Unanswered

text \<open>The status code of a response; 0 when nothing is sent.\<close>

fun status_of :: "response \<Rightarrow> nat" where
  "status_of (Response code m) = code"
| "status_of Unanswered = 0"

text \<open>Truthiness of the typed fields: an absent value, the number 0 and \<^verbatim>\<open>''\<close> are falsy.\<close>

definition truthy_str :: "string option \<Rightarrow> bool" where
  "truthy_str x = (case x of None \<Rightarrow> False | Some s \<Rightarrow> s \<noteq> [])"

definition truthy_int :: "int option \<Rightarrow> bool" where
  "truthy_int x = (case x of None \<Rightarrow> False | Some n \<Rightarrow> n \<noteq> 0)"

definition truthy_date :: "date option \<Rightarrow> bool" where
  "truthy_date x = (x \<noteq> None)"

text \<open>\<^verbatim>\<open>x || null\<close> and \<^verbatim>\<open>x || ''\<close> on text.\<close>

definition or_null :: "string option \<Rightarrow> string option" where
  "or_null x = (if truthy_str x then x else None)"

definition or_empty :: "string option \<Rightarrow> string option" where
  "or_empty x = (if truthy_str x then x else Some [])"

text \<open>
  A numeric column as the driver hands it over. The driver returns the decimal text of the
  number; for a finite number the model returns the number itself, which
  \<^verbatim>\<open>parseFloat(x || 0)\<close> reads to the same result (they differ in truthiness at zero
  only, where both readings give 0).
\<close>

fun col_js :: "number option \<Rightarrow> jsval" where
  "col_js None = Null"
| "col_js (Some NaN) = Str (units ''NaN'')"
| "col_js (Some NegInf) = Str (units ''-Infinity'')"
| "col_js (Some (Fin r)) = Num (Fin r)"
| "col_js (Some PosInf) = Str (units ''Infinity'')"

definition zero_js :: jsval where
  "zero_js = Num (Fin 0)"

text \<open>\<^verbatim>\<open>seat_id ? parseInt(seat_id, 10) : null\<close>, the same for \<^verbatim>\<open>branch_id\<close>.\<close>

definition int_or_null :: "int option \<Rightarrow> int option" where
  "int_or_null x = (if truthy_int x then x else None)"

text \<open>\<^verbatim>\<open>shift_ids && Array.isArray(shift_ids) ? shift_ids.map(id => parseInt(id, 10)) : []\<close>\<close>

definition shift_list :: "int list option \<Rightarrow> int list" where
  "shift_list x = (case x of None \<Rightarrow> [] | Some xs \<Rightarrow> xs)"

section \<open>Status, at write time and at read time\<close>

definition ms_per_day :: int where
  "ms_per_day = 86400000"

text \<open>
  \<^verbatim>\<open>new Date(membership_end) < new Date() ? 'expired' : 'active'\<close>: the date is read as
  its midnight and compared with the current instant. The handlers reach this line with a
  date only.
\<close>

definition write_status :: "instant \<Rightarrow> date option \<Rightarrow> status" where
  "write_status now e =
     (case e of None \<Rightarrow> Active
      | Some d \<Rightarrow> if d * ms_per_day < now then Expired else Active)"

text \<open>\<^verbatim>\<open>CURRENT_DATE\<close>\<close>

definition current_date :: "instant \<Rightarrow> date" where
  "current_date now = now div ms_per_day"

text \<open>
  \<^verbatim>\<open>CASE WHEN s.membership_end < CURRENT_DATE THEN 'expired' ELSE 'active' END\<close>, the
  expression of \<^verbatim>\<open>withCalculatedStatus\<close> and of the other read queries. A comparison with
  \<^verbatim>\<open>NULL\<close> is not true, so the \<^verbatim>\<open>ELSE\<close> branch answers.
\<close>

definition calculated_status :: "instant \<Rightarrow> student \<Rightarrow> status" where
  "calculated_status now s =
     (case s_membership_end s of None \<Rightarrow> Active
      | Some d \<Rightarrow> if d < current_date now then Expired else Active)"

text \<open>
  The rows of \<^verbatim>\<open>withCalculatedStatus()\<close>: all columns of the student, the calculated
  status under the name \<^verbatim>\<open>status\<close>.
\<close>

definition withCalculatedStatus :: "instant \<Rightarrow> db \<Rightarrow> student list" where
  "withCalculatedStatus now d =
     map (\<lambda>s. s\<lparr>s_status := Some (calculated_status now s)\<rparr>) (students d)"

section \<open>The student of a response\<close>

text \<open>\<^verbatim>\<open>parseFloat(student.total_fee || 0)\<close> and its siblings, \<^verbatim>\<open>student.remark || ''\<close>.\<close>

definition num0 :: "number option \<Rightarrow> number option" where
  "num0 c = Some (parseFloat (or_js (col_js c) zero_js))"

definition present :: "student \<Rightarrow> student" where
  "present s =
     s\<lparr>s_total_fee := num0 (s_total_fee s),
       s_amount_paid := num0 (s_amount_paid s),
       s_due_amount := num0 (s_due_amount s),
       s_cash := num0 (s_cash s),
       s_online := num0 (s_online s),
       s_security_money := num0 (s_security_money s),
       s_remark := or_empty (s_remark s)\<rparr>"

section \<open>POST /students\<close>

text \<open>The two loops over \<^verbatim>\<open>shiftIdsNum\<close> that check, and the one that inserts.\<close>

primrec check_shifts_exist :: "int list \<Rightarrow> response option io" where
  "check_shifts_exist [] = ret None"
| "check_shifts_exist (shiftId # rest) =
     bnd (query Client SELECT (select_schedule shiftId)) (\<lambda>shiftCheck.
       if length shiftCheck = 0
       then bnd rollback_tx (\<lambda>_. ret (Some (Response 400 (ShiftNotExist shiftId))))
       else check_shifts_exist rest)"

primrec check_unassigned :: "int list \<Rightarrow> int \<Rightarrow> response option io" where
  "check_unassigned [] seatIdNum = ret None"
| "check_unassigned (shiftId # rest) seatIdNum =
     bnd (query Client SELECT (select_assignment seatIdNum shiftId)) (\<lambda>checkAssignment.
       if length checkAssignment > 0
       then bnd rollback_tx (\<lambda>_. ret (Some (Response 400 (SeatAssigned shiftId))))
       else check_unassigned rest seatIdNum)"

text \<open>
  The insert loop keeps \<^verbatim>\<open>firstShiftId\<close>: \<^verbatim>\<open>if (!firstShiftId) firstShiftId = shiftId\<close>.
\<close>

primrec insert_assignments :: "int list \<Rightarrow> conn \<Rightarrow> int \<Rightarrow> int \<Rightarrow> int option \<Rightarrow> int option io" where
  "insert_assignments [] c seatIdNum sid firstShiftId = ret firstShiftId"
| "insert_assignments (shiftId # rest) c seatIdNum sid firstShiftId =
     bnd (query c INSERT (insert_seat_assignment seatIdNum shiftId sid)) (\<lambda>_.
       insert_assignments rest c seatIdNum sid
         (if \<not> truthy_int firstShiftId then Some shiftId else firstShiftId))"

text \<open>The block \<^verbatim>\<open>if (seatIdNum && shiftIdsNum.length > 0) { ... }\<close> of the checks.\<close>

definition create_checks :: "int option \<Rightarrow> int list \<Rightarrow> response option io" where
  "create_checks seatIdNum shiftIdsNum =
     (case seatIdNum of
        None \<Rightarrow> ret None
      | Some seat \<Rightarrow>
          if length shiftIdsNum > 0 then
            bnd (query Client SELECT (select_seat seat)) (\<lambda>seatCheck.
              if length seatCheck = 0
              then bnd rollback_tx (\<lambda>_. ret (Some (Response 400 (SeatNotExist seat))))
              else
                bnd (check_shifts_exist shiftIdsNum) (\<lambda>r.
                  case r of
                    Some resp \<Rightarrow> ret (Some resp)
                  | None \<Rightarrow> check_unassigned shiftIdsNum seat))
          else ret None)"

text \<open>The history row that create and renew insert from the row of the student.\<close>

definition history_of :: "student \<Rightarrow> int option \<Rightarrow> int option \<Rightarrow> int option \<Rightarrow> history" where
  "history_of student seatIdNum firstShiftId branchIdNum =
     \<lparr>h_id = 0, h_student_id = s_id student, h_name = s_name student,
      h_email = s_email student, h_phone = s_phone student, h_address = s_address student,
      h_membership_start = s_membership_start student,
      h_membership_end = s_membership_end student, h_status = s_status student,
      h_total_fee = s_total_fee student, h_amount_paid = s_amount_paid student,
      h_due_amount = s_due_amount student, h_cash = s_cash student,
      h_online = s_online student, h_security_money = s_security_money student,
      h_remark = or_empty (s_remark student),
      h_seat_id = seatIdNum, h_shift_id = firstShiftId, h_branch_id = branchIdNum,
      h_changed_at = 0\<rparr>"

text \<open>The \<^verbatim>\<open>VALUES\<close> of the \<^verbatim>\<open>INSERT INTO students\<close> of create.\<close>

definition create_values ::
  "instant \<Rightarrow> body \<Rightarrow> number \<Rightarrow> number \<Rightarrow> number \<Rightarrow> number \<Rightarrow> number \<Rightarrow> number \<Rightarrow> student" where
  "create_values now b feeValue paidValue dueAmount cashValue onlineValue securityMoneyValue =
     (let status = write_status now (membership_end b) in
      \<lparr>s_id = 0, s_name = name b, s_email = email b, s_phone = phone b,
       s_address = address b, s_branch_id = branch_id b,
       s_membership_start = membership_start b, s_membership_end = membership_end b,
       s_total_fee = Some feeValue, s_amount_paid = Some paidValue,
       s_due_amount = Some dueAmount, s_cash = Some cashValue,
       s_online = Some onlineValue, s_security_money = Some securityMoneyValue,
       s_remark = or_null (remark b),
       s_profile_image_url = or_null (profile_image_url b),
       s_status = Some status\<rparr>)"

text \<open>The block that inserts the seat assignments of the new student.\<close>

definition create_assignments :: "int \<Rightarrow> int option \<Rightarrow> int list \<Rightarrow> int option io" where
  "create_assignments sid seatIdNum shiftIdsNum =
     (case seatIdNum of
        None \<Rightarrow> ret None
      | Some seat \<Rightarrow>
          if length shiftIdsNum > 0
          then insert_assignments shiftIdsNum Client seat sid None
          else ret None)"

text \<open>The writes of create, from the \<^verbatim>\<open>INSERT INTO students\<close> to the response.\<close>

definition create_writes ::
  "instant \<Rightarrow> body \<Rightarrow> int option \<Rightarrow> int list \<Rightarrow> number \<Rightarrow> number \<Rightarrow> number \<Rightarrow> number \<Rightarrow> number
     \<Rightarrow> number \<Rightarrow> response io" where
  "create_writes now b seatIdNum shiftIdsNum feeValue paidValue dueAmount cashValue onlineValue
     securityMoneyValue =
     bnd (query Client INSERT (insert_student
            (create_values now b feeValue paidValue dueAmount cashValue onlineValue
               securityMoneyValue))) (\<lambda>student.
     bnd (create_assignments (s_id student) seatIdNum shiftIdsNum) (\<lambda>firstShiftId.
     bnd (query Client INSERT
            (insert_history now (history_of student seatIdNum firstShiftId (branch_id b)))) (\<lambda>_.
     bnd commit_tx (\<lambda>_.
     ret (Response 201 (StudentBody
            ((present student)\<lparr>s_profile_image_url := or_empty (s_profile_image_url student)\<rparr>)))))))"

text \<open>The body of the \<^verbatim>\<open>try\<close> block.\<close>

definition create_try :: "instant \<Rightarrow> body \<Rightarrow> response io" where
  "create_try now b =
     bnd begin_tx (\<lambda>_.
       if \<not> truthy_str (name b) \<or> \<not> truthy_int (branch_id b)
          \<or> \<not> truthy_date (membership_start b) \<or> \<not> truthy_date (membership_end b)
       then bnd rollback_tx (\<lambda>_. ret (Response 400 RequiredMissing))
       else
         let seatIdNum = int_or_null (seat_id b);
             shiftIdsNum = shift_list (shift_ids b);
             feeValue = parseFloat (or_js (total_fee b) zero_js);
             paidValue = parseFloat (or_js (amount_paid b) zero_js)
         in
         if isNaN feeValue \<or> lt0 feeValue
         then bnd rollback_tx (\<lambda>_. ret (Response 400 TotalFeeInvalid))
         else if isNaN paidValue \<or> lt0 paidValue
         then bnd rollback_tx (\<lambda>_. ret (Response 400 AmountPaidInvalid))
         else
           let cashValue = (if cash b \<noteq> Undefined then parseFloat (cash b) else Fin 0);
               onlineValue = (if online b \<noteq> Undefined then parseFloat (online b) else Fin 0);
               securityMoneyValue =
                 (if security_money b \<noteq> Undefined then parseFloat (security_money b) else Fin 0)
           in
           if isNaN cashValue \<or> lt0 cashValue
           then bnd rollback_tx (\<lambda>_. ret (Response 400 CashInvalid))
           else if isNaN onlineValue \<or> lt0 onlineValue
           then bnd rollback_tx (\<lambda>_. ret (Response 400 OnlineInvalid))
           else if isNaN securityMoneyValue \<or> lt0 securityMoneyValue
           then bnd rollback_tx (\<lambda>_. ret (Response 400 SecurityMoneyInvalid))
           else
             let dueAmount = sub feeValue paidValue in
             bnd (create_checks seatIdNum shiftIdsNum) (\<lambda>early.
               case early of
                 Some resp \<Rightarrow> ret resp
               | None \<Rightarrow>
                   create_writes now b seatIdNum shiftIdsNum feeValue paidValue dueAmount
                     cashValue onlineValue securityMoneyValue))"

text \<open>
  A handler that works on a client of its own: \<^verbatim>\<open>pool.connect()\<close>, the \<^verbatim>\<open>try\<close> block,
  the \<^verbatim>\<open>catch\<close> with its \<^verbatim>\<open>ROLLBACK\<close> and the status 500, and \<^verbatim>\<open>client.release()\<close> in
  \<^verbatim>\<open>finally\<close>. When the \<^verbatim>\<open>ROLLBACK\<close> of the \<^verbatim>\<open>catch\<close> rejects as well, nothing is sent.
  The result is the response, the database afterwards and the log.
\<close>

definition with_client :: "nat option \<Rightarrow> db \<Rightarrow> response io \<Rightarrow> response \<times> db \<times> event list" where
  "with_client flt d try_block =
     (let s0 = \<lparr>tables = d, snapshot = None, issued = 0, fault = flt, log = [Connect]\<rparr>;
          (res, s2) =
            (case try_block s0 of
               (Inr resp, s1) \<Rightarrow> (resp, s1)
             | (Inl err, s1) \<Rightarrow>
                 (case rollback_tx s1 of
                    (Inr _, s2) \<Rightarrow> (Response 500 ServerError, s2)
                  | (Inl _, s2) \<Rightarrow> (Unanswered, s2)))
      in (res, tables s2, log s2 @ [Release]))"

definition post_students :: "instant \<Rightarrow> nat option \<Rightarrow> body \<Rightarrow> db \<Rightarrow> response \<times> db \<times> event list" where
  "post_students now flt b d = with_client flt d (create_try now b)"

section \<open>PUT /students/:id\<close>

text \<open>\<^verbatim>\<open>x !== undefined && x !== null && x !== ''\<close>\<close>

definition supplied :: "jsval \<Rightarrow> bool" where
  "supplied x = (x \<noteq> Undefined \<and> x \<noteq> Null \<and> x \<noteq> Str [])"

text \<open>A monetary field of the request, or else the stored one: \<^verbatim>\<open>parseFloat(cur.f || 0)\<close>.\<close>

definition money_or_stored :: "jsval \<Rightarrow> number option \<Rightarrow> number" where
  "money_or_stored x stored =
     (if supplied x then parseFloat x else parseFloat (or_js (col_js stored) zero_js))"

primrec check_unassigned_other :: "int list \<Rightarrow> int \<Rightarrow> int \<Rightarrow> response option io" where
  "check_unassigned_other [] seatIdNum sid = ret None"
| "check_unassigned_other (shiftId # rest) seatIdNum sid =
     bnd (query Client SELECT (select_assignment_other seatIdNum shiftId sid)) (\<lambda>checkAssignment.
       if length checkAssignment > 0
       then bnd rollback_tx (\<lambda>_. ret (Some (Response 400 (SeatAssigned shiftId))))
       else check_unassigned_other rest seatIdNum sid)"

definition update_checks :: "int \<Rightarrow> int option \<Rightarrow> int list \<Rightarrow> response option io" where
  "update_checks sid seatIdNum shiftIdsNum =
     (case seatIdNum of
        None \<Rightarrow> ret None
      | Some seat \<Rightarrow>
          if length shiftIdsNum > 0 then
            bnd (query Client SELECT (select_seat seat)) (\<lambda>seatCheck.
              if length seatCheck = 0
              then bnd rollback_tx (\<lambda>_. ret (Some (Response 400 (SeatNotExist seat))))
              else
                bnd (check_shifts_exist shiftIdsNum) (\<lambda>r.
                  case r of
                    Some resp \<Rightarrow> ret (Some resp)
                  | None \<Rightarrow> check_unassigned_other shiftIdsNum seat sid))
          else ret None)"

text \<open>
  \<^verbatim>\<open>new Date(d).toISOString().split('T')[0]\<close> on a date column: the date itself, and
  the epoch for \<^verbatim>\<open>NULL\<close>.
\<close>

definition iso_date :: "date option \<Rightarrow> date option" where
  "iso_date x = (case x of None \<Rightarrow> Some 0 | Some d \<Rightarrow> Some d)"

text \<open>
  The \<^verbatim>\<open>SET\<close> lists of \<^verbatim>\<open>UPDATE students\<close> and of
  \<^verbatim>\<open>UPDATE student_membership_history\<close> in update.
\<close>

definition update_set ::
  "instant \<Rightarrow> body \<Rightarrow> int option \<Rightarrow> number \<Rightarrow> number \<Rightarrow> number \<Rightarrow> number \<Rightarrow> number \<Rightarrow> number
     \<Rightarrow> student \<Rightarrow> student" where
  "update_set now b branchIdNum totalFeeValue amountPaidValue dueAmountValue cashValue onlineValue
     securityMoneyValue r =
     (let status = write_status now (membership_end b) in
      r\<lparr>s_name := name b, s_email := email b, s_phone := phone b,
        s_address := address b, s_branch_id := branchIdNum,
        s_membership_start := membership_start b,
        s_membership_end := membership_end b,
        s_total_fee := Some totalFeeValue, s_amount_paid := Some amountPaidValue,
        s_due_amount := Some dueAmountValue, s_cash := Some cashValue,
        s_online := Some onlineValue, s_security_money := Some securityMoneyValue,
        s_remark := or_null (remark b), s_status := Some status\<rparr>)"

definition update_history_set ::
  "instant \<Rightarrow> body \<Rightarrow> int option \<Rightarrow> int option \<Rightarrow> int option \<Rightarrow> number \<Rightarrow> number \<Rightarrow> number
     \<Rightarrow> number \<Rightarrow> number \<Rightarrow> number \<Rightarrow> history \<Rightarrow> history" where
  "update_history_set now b branchIdNum seatIdNum firstShiftId totalFeeValue amountPaidValue
     dueAmountValue cashValue onlineValue securityMoneyValue h =
     (let status = write_status now (membership_end b) in
      h\<lparr>h_name := name b, h_email := email b, h_phone := phone b,
        h_address := address b,
        h_membership_start := membership_start b,
        h_membership_end := membership_end b, h_status := Some status,
        h_total_fee := Some totalFeeValue,
        h_amount_paid := Some amountPaidValue,
        h_due_amount := Some dueAmountValue, h_cash := Some cashValue,
        h_online := Some onlineValue,
        h_security_money := Some securityMoneyValue,
        h_remark := or_empty (remark b),
        h_seat_id := seatIdNum, h_shift_id := firstShiftId,
        h_branch_id := branchIdNum, h_changed_at := now\<rparr>)"

text \<open>
  The block that replaces the seat assignments of the student: both branches of the
  \<^verbatim>\<open>if\<close> delete, the first inserts as well.
\<close>

definition update_assignments :: "int \<Rightarrow> int option \<Rightarrow> int list \<Rightarrow> int option io" where
  "update_assignments sid seatIdNum shiftIdsNum =
     (case seatIdNum of
        None \<Rightarrow> bnd (query Client DELETE (delete_seat_assignments sid)) (\<lambda>_. ret None)
      | Some seat \<Rightarrow>
          if length shiftIdsNum > 0
          then bnd (query Client DELETE (delete_seat_assignments sid)) (\<lambda>_.
                 insert_assignments shiftIdsNum Client seat sid None)
          else bnd (query Client DELETE (delete_seat_assignments sid)) (\<lambda>_. ret None))"

text \<open>The writes of update, from \<^verbatim>\<open>UPDATE students\<close> to the response.\<close>

definition update_writes ::
  "instant \<Rightarrow> int \<Rightarrow> body \<Rightarrow> int option \<Rightarrow> int option \<Rightarrow> int list \<Rightarrow> number \<Rightarrow> number \<Rightarrow> number
     \<Rightarrow> number \<Rightarrow> number \<Rightarrow> number \<Rightarrow> response io" where
  "update_writes now sid b branchIdNum seatIdNum shiftIdsNum totalFeeValue amountPaidValue
     dueAmountValue cashValue onlineValue securityMoneyValue =
     bnd (query Client UPDATE (update_student sid
            (update_set now b branchIdNum totalFeeValue amountPaidValue dueAmountValue cashValue
               onlineValue securityMoneyValue))) (\<lambda>result.
     case result of
       [] \<Rightarrow> bnd rollback_tx (\<lambda>_. ret (Response 404 StudentNotFound))
     | updatedStudent # _ \<Rightarrow>
         bnd (update_assignments sid seatIdNum shiftIdsNum) (\<lambda>firstShiftId.
         bnd (query Client SELECT (select_latest_history sid)) (\<lambda>historyRes.
         case historyRes of
           [] \<Rightarrow> bnd rollback_tx (\<lambda>_. ret (Response 404 NoHistory))
         | historyId # _ \<Rightarrow>
             bnd (query Client UPDATE (update_history historyId
                    (update_history_set now b branchIdNum seatIdNum firstShiftId totalFeeValue
                       amountPaidValue dueAmountValue cashValue onlineValue
                       securityMoneyValue))) (\<lambda>_.
             bnd commit_tx (\<lambda>_.
             ret (Response 200 (StudentBody
                    ((present updatedStudent)
                       \<lparr>s_membership_start := iso_date (s_membership_start updatedStudent),
                        s_membership_end := iso_date (s_membership_end updatedStudent)\<rparr>))))))))"

text \<open>
  The handler from the stored row of the student on: the monetary fields, their checks,
  the checks of the seat block, the writes.
\<close>

definition update_current :: "instant \<Rightarrow> int \<Rightarrow> body \<Rightarrow> student \<Rightarrow> response io" where
  "update_current now sid b currentStudent =
     (let branchIdNum = int_or_null (branch_id b);
          seatIdNum = int_or_null (seat_id b);
          shiftIdsNum = shift_list (shift_ids b);
          totalFeeValue = money_or_stored (total_fee b) (s_total_fee currentStudent);
          amountPaidValue = money_or_stored (amount_paid b) (s_amount_paid currentStudent);
          cashValue = money_or_stored (cash b) (s_cash currentStudent);
          onlineValue = money_or_stored (online b) (s_online currentStudent);
          securityMoneyValue =
            money_or_stored (security_money b) (s_security_money currentStudent)
      in
      if isNaN totalFeeValue \<or> lt0 totalFeeValue
      then bnd rollback_tx (\<lambda>_. ret (Response 400 TotalFeeInvalid))
      else if isNaN amountPaidValue \<or> lt0 amountPaidValue
      then bnd rollback_tx (\<lambda>_. ret (Response 400 AmountPaidInvalid))
      else if isNaN cashValue \<or> lt0 cashValue
      then bnd rollback_tx (\<lambda>_. ret (Response 400 CashInvalid))
      else if isNaN onlineValue \<or> lt0 onlineValue
      then bnd rollback_tx (\<lambda>_. ret (Response 400 OnlineInvalid))
      else if isNaN securityMoneyValue \<or> lt0 securityMoneyValue
      then bnd rollback_tx (\<lambda>_. ret (Response 400 SecurityMoneyInvalid))
      else
        let dueAmountValue = sub totalFeeValue amountPaidValue in
        bnd (update_checks sid seatIdNum shiftIdsNum) (\<lambda>early.
          case early of
            Some resp \<Rightarrow> ret resp
          | None \<Rightarrow>
              update_writes now sid b branchIdNum seatIdNum shiftIdsNum totalFeeValue
                amountPaidValue dueAmountValue cashValue onlineValue securityMoneyValue))"

text \<open>The body of the \<^verbatim>\<open>try\<close> block.\<close>

definition update_try :: "instant \<Rightarrow> int \<Rightarrow> body \<Rightarrow> response io" where
  "update_try now sid b =
     bnd begin_tx (\<lambda>_.
       if \<not> truthy_str (name b) \<or> \<not> truthy_str (email b) \<or> \<not> truthy_str (phone b)
          \<or> \<not> truthy_str (address b) \<or> \<not> truthy_int (branch_id b)
          \<or> \<not> truthy_date (membership_start b) \<or> \<not> truthy_date (membership_end b)
       then bnd rollback_tx (\<lambda>_. ret (Response 400 RequiredMissing))
       else
         bnd (query Client SELECT (select_student sid)) (\<lambda>currentStudentRes.
         case currentStudentRes of
           [] \<Rightarrow> bnd rollback_tx (\<lambda>_. ret (Response 404 StudentNotFound))
         | currentStudent # _ \<Rightarrow> update_current now sid b currentStudent))"

definition put_student ::
  "instant \<Rightarrow> nat option \<Rightarrow> int \<Rightarrow> body \<Rightarrow> db \<Rightarrow> response \<times> db \<times> event list" where
  "put_student now flt sid b d = with_client flt d (update_try now sid b)"

section \<open>DELETE /students/:id and POST /students/:id/renew\<close>

text \<open>
  These two handlers send every statement through \<^verbatim>\<open>pool.query\<close>; their \<^verbatim>\<open>catch\<close>
  answers 500 and sends nothing to the database.
\<close>

definition with_pool :: "nat option \<Rightarrow> db \<Rightarrow> response io \<Rightarrow> response \<times> db \<times> event list" where
  "with_pool flt d try_block =
     (let s0 = \<lparr>tables = d, snapshot = None, issued = 0, fault = flt, log = []\<rparr>;
          (res, s2) =
            (case try_block s0 of
               (Inr resp, s1) \<Rightarrow> (resp, s1)
             | (Inl err, s1) \<Rightarrow> (Response 500 ServerError, s1))
      in (res, tables s2, log s2))"

definition delete_try :: "int \<Rightarrow> response io" where
  "delete_try sid =
     bnd (query Pool DELETE (delete_seat_assignments sid)) (\<lambda>_.
     bnd (query Pool DELETE (delete_history sid)) (\<lambda>_.
     bnd (query Pool DELETE (delete_student sid)) (\<lambda>del.
     case del of
       [] \<Rightarrow> ret (Response 404 StudentNotFound)
     | r # _ \<Rightarrow> ret (Response 200 (Deleted r)))))"

definition delete_student_route ::
  "nat option \<Rightarrow> int \<Rightarrow> db \<Rightarrow> response \<times> db \<times> event list" where
  "delete_student_route flt sid d = with_pool flt d (delete_try sid)"

text \<open>\<^verbatim>\<open>COALESCE($n, column)\<close>\<close>

definition coalesce :: "'a option \<Rightarrow> 'a option \<Rightarrow> 'a option" where
  "coalesce a b = (case a of None \<Rightarrow> b | Some x \<Rightarrow> Some x)"

primrec renew_check_unassigned :: "int list \<Rightarrow> int \<Rightarrow> int \<Rightarrow> response option io" where
  "renew_check_unassigned [] seatIdNum sid = ret None"
| "renew_check_unassigned (shiftId # rest) seatIdNum sid =
     bnd (query Pool SELECT (select_assignment_other seatIdNum shiftId sid)) (\<lambda>checkAssignment.
       if length checkAssignment > 0
       then ret (Some (Response 400 (SeatAssigned shiftId)))
       else renew_check_unassigned rest seatIdNum sid)"

text \<open>The \<^verbatim>\<open>SET\<close> list of the \<^verbatim>\<open>UPDATE students\<close> of renew.\<close>

definition renew_set ::
  "body \<Rightarrow> int option \<Rightarrow> number \<Rightarrow> number \<Rightarrow> number \<Rightarrow> number \<Rightarrow> number \<Rightarrow> number
     \<Rightarrow> student \<Rightarrow> student" where
  "renew_set b branchIdNum feeValue amount_paid' due cashValue onlineValue securityMoneyValue r =
     r\<lparr>s_membership_start := membership_start b,
       s_membership_end := membership_end b,
       s_status := Some Active,
       s_email := coalesce (email b) (s_email r),
       s_phone := coalesce (phone b) (s_phone r),
       s_branch_id := coalesce branchIdNum (s_branch_id r),
       s_total_fee := Some feeValue, s_amount_paid := Some amount_paid',
       s_due_amount := Some due, s_cash := Some cashValue,
       s_online := Some onlineValue, s_security_money := Some securityMoneyValue,
       s_remark := or_null (remark b)\<rparr>"

text \<open>The seat block of renew: it deletes and inserts only under its \<^verbatim>\<open>if\<close>.\<close>

definition renew_assignments :: "int \<Rightarrow> int option \<Rightarrow> int list \<Rightarrow> int option io" where
  "renew_assignments sid seatIdNum shiftIdsNum =
     (case seatIdNum of
        None \<Rightarrow> ret None
      | Some seat \<Rightarrow>
          if length shiftIdsNum > 0
          then bnd (query Pool DELETE (delete_seat_assignments sid)) (\<lambda>_.
                 insert_assignments shiftIdsNum Pool seat sid None)
          else ret None)"

text \<open>
  The writes of renew. \<^verbatim>\<open>updated\<close> is \<^verbatim>\<open>upd.rows[0]\<close>; were it \<^verbatim>\<open>undefined\<close>, the
  first read of one of its fields, in the arguments of the last \<^verbatim>\<open>INSERT\<close>, would throw.
\<close>

definition renew_writes ::
  "instant \<Rightarrow> int \<Rightarrow> body \<Rightarrow> int option \<Rightarrow> int option \<Rightarrow> int list \<Rightarrow> number \<Rightarrow> number \<Rightarrow> number
     \<Rightarrow> number \<Rightarrow> number \<Rightarrow> number \<Rightarrow> response io" where
  "renew_writes now sid b branchIdNum seatIdNum shiftIdsNum feeValue amount_paid' due cashValue
     onlineValue securityMoneyValue =
     bnd (query Pool UPDATE (update_student sid
            (renew_set b branchIdNum feeValue amount_paid' due cashValue onlineValue
               securityMoneyValue))) (\<lambda>upd.
     bnd (renew_assignments sid seatIdNum shiftIdsNum) (\<lambda>firstShiftId.
     case upd of
       [] \<Rightarrow> throw TypeError
     | updated # _ \<Rightarrow>
         bnd (query Pool INSERT
                (insert_history now (history_of updated seatIdNum firstShiftId branchIdNum))) (\<lambda>_.
         ret (Response 200 (Renewed (present updated))))))"

text \<open>The conflict check of renew, the only check of its seat block.\<close>

definition renew_checks :: "int \<Rightarrow> int option \<Rightarrow> int list \<Rightarrow> response option io" where
  "renew_checks sid seatIdNum shiftIdsNum =
     (case seatIdNum of
        None \<Rightarrow> ret None
      | Some seat \<Rightarrow>
          if length shiftIdsNum > 0
          then renew_check_unassigned shiftIdsNum seat sid
          else ret None)"

text \<open>The handler from the stored row \<^verbatim>\<open>old\<close> of the student on.\<close>

definition renew_current :: "instant \<Rightarrow> int \<Rightarrow> body \<Rightarrow> student \<Rightarrow> response io" where
  "renew_current now sid b old =
     (let branchIdNum = int_or_null (branch_id b);
          seatIdNum = int_or_null (seat_id b);
          shiftIdsNum = shift_list (shift_ids b);
          feeValue = parseFloat (or_js (or_js (total_fee b) (col_js (s_total_fee old))) zero_js)
      in
      if isNaN feeValue \<or> lt0 feeValue
      then ret (Response 400 TotalFeeInvalid)
      else
        let cashValue = parseFloat (or_js (cash b) zero_js);
            onlineValue = parseFloat (or_js (online b) zero_js);
            securityMoneyValue =
              parseFloat (or_js (or_js (security_money b) (col_js (s_security_money old)))
                            zero_js)
        in
        if isNaN cashValue \<or> lt0 cashValue
        then ret (Response 400 CashInvalid)
        else if isNaN onlineValue \<or> lt0 onlineValue
        then ret (Response 400 OnlineInvalid)
        else if isNaN securityMoneyValue \<or> lt0 securityMoneyValue
        then ret (Response 400 SecurityMoneyInvalid)
        else
          let amount_paid' = add cashValue onlineValue;
              due = sub feeValue amount_paid'
          in
          bnd (renew_checks sid seatIdNum shiftIdsNum) (\<lambda>early.
            case early of
              Some resp \<Rightarrow> ret resp
            | None \<Rightarrow>
                renew_writes now sid b branchIdNum seatIdNum shiftIdsNum feeValue
                  amount_paid' due cashValue onlineValue securityMoneyValue))"

text \<open>The body of the \<^verbatim>\<open>try\<close> block.\<close>

definition renew_try :: "instant \<Rightarrow> int \<Rightarrow> body \<Rightarrow> response io" where
  "renew_try now sid b =
     (if \<not> truthy_date (membership_start b) \<or> \<not> truthy_date (membership_end b)
      then ret (Response 400 DatesRequired)
      else
        bnd (query Pool SELECT (select_student sid)) (\<lambda>cur.
        case cur of
          [] \<Rightarrow> ret (Response 404 StudentNotFound)
        | old # _ \<Rightarrow> renew_current now sid b old))"

definition renew_student ::
  "instant \<Rightarrow> nat option \<Rightarrow> int \<Rightarrow> body \<Rightarrow> db \<Rightarrow> response \<times> db \<times> event list" where
  "renew_student now flt sid b d = with_pool flt d (renew_try now sid b)"

section \<open>Notions for the properties\<close>

text \<open>
  The seat assignments that a handler inserts for a student: one per shift, all with the
  same seat; none without a seat.
\<close>

definition new_assignments :: "int \<Rightarrow> int option \<Rightarrow> int list \<Rightarrow> seat_assignment list" where
  "new_assignments sid seatIdNum shiftIdsNum =
     (case seatIdNum of
        None \<Rightarrow> []
      | Some seat \<Rightarrow>
          map (\<lambda>x. \<lparr>sa_seat_id = seat, sa_shift_id = x, sa_student_id = sid\<rparr>) shiftIdsNum)"

text \<open>The first row of a student in the table, as \<^verbatim>\<open>rows[0]\<close> of a select by \<^verbatim>\<open>id\<close>.\<close>

definition student_row :: "db \<Rightarrow> int \<Rightarrow> student option" where
  "student_row d sid = find (\<lambda>r. s_id r = sid) (students d)"

text \<open>
  Why the seat block of the checks rejects, when a seat and at least one shift are given:
  the seat does not exist, a shift does not exist, or the seat is taken for a shift by an
  assignment that counts (any assignment for create, one of another student for update
  and renew).
\<close>

definition check_failure ::
  "db \<Rightarrow> int option \<Rightarrow> int list \<Rightarrow> (seat_assignment \<Rightarrow> bool) \<Rightarrow> message \<Rightarrow> bool" where
  "check_failure d seatIdNum shiftIdsNum counts m =
     (\<exists>seat. seatIdNum = Some seat \<and> shiftIdsNum \<noteq> [] \<and>
        (m = SeatNotExist seat \<and> seat \<notin> set (seats d)
         \<or> (\<exists>x \<in> set shiftIdsNum. m = ShiftNotExist x \<and> x \<notin> set (schedules d))
         \<or> (\<exists>x \<in> set shiftIdsNum. m = SeatAssigned x \<and>
               (\<exists>a \<in> set (seat_assignments d).
                  sa_seat_id a = seat \<and> sa_shift_id a = x \<and> counts a))))"

text \<open>The checks of create on the body alone, all passed.\<close>

definition create_valid :: "body \<Rightarrow> bool" where
  "create_valid b =
     (let feeValue = parseFloat (or_js (total_fee b) zero_js);
          paidValue = parseFloat (or_js (amount_paid b) zero_js);
          cashValue = (if cash b \<noteq> Undefined then parseFloat (cash b) else Fin 0);
          onlineValue = (if online b \<noteq> Undefined then parseFloat (online b) else Fin 0);
          securityMoneyValue =
            (if security_money b \<noteq> Undefined then parseFloat (security_money b) else Fin 0)
      in truthy_str (name b) \<and> truthy_int (branch_id b)
         \<and> truthy_date (membership_start b) \<and> truthy_date (membership_end b)
         \<and> \<not> isNaN feeValue \<and> \<not> lt0 feeValue \<and> \<not> isNaN paidValue \<and> \<not> lt0 paidValue
         \<and> \<not> isNaN cashValue \<and> \<not> lt0 cashValue \<and> \<not> isNaN onlineValue \<and> \<not> lt0 onlineValue
         \<and> \<not> isNaN securityMoneyValue \<and> \<not> lt0 securityMoneyValue)"

text \<open>
  What a create that answers 201 has found and done, from the database \<open>d\<close> before to the
  database \<open>d'\<close> after: the values it has read from the body are valid, the seat and the
  shifts exist and are free whenever both are given, and each table has got its rows.
\<close>

definition created :: "instant \<Rightarrow> body \<Rightarrow> db \<Rightarrow> db \<Rightarrow> bool" where
  "created now b d d' =
     (let seatIdNum = int_or_null (seat_id b);
          shiftIdsNum = shift_list (shift_ids b);
          feeValue = parseFloat (or_js (total_fee b) zero_js);
          paidValue = parseFloat (or_js (amount_paid b) zero_js);
          cashValue = (if cash b \<noteq> Undefined then parseFloat (cash b) else Fin 0);
          onlineValue = (if online b \<noteq> Undefined then parseFloat (online b) else Fin 0);
          securityMoneyValue =
            (if security_money b \<noteq> Undefined then parseFloat (security_money b) else Fin 0)
      in \<not> isNaN feeValue \<and> \<not> lt0 feeValue \<and> \<not> isNaN paidValue \<and> \<not> lt0 paidValue
         \<and> (\<forall>seat. seatIdNum = Some seat \<longrightarrow> shiftIdsNum \<noteq> [] \<longrightarrow>
               seat \<in> set (seats d) \<and> set shiftIdsNum \<subseteq> set (schedules d) \<and>
               (\<forall>x \<in> set shiftIdsNum. \<forall>a \<in> set (seat_assignments d).
                  \<not> (sa_seat_id a = seat \<and> sa_shift_id a = x)))
         \<and> students d' = students d @
               [(create_values now b feeValue paidValue (sub feeValue paidValue) cashValue
                   onlineValue securityMoneyValue)\<lparr>s_id := students_id_seq d\<rparr>]
         \<and> seats d' = seats d \<and> schedules d' = schedules d
         \<and> seat_assignments d' = seat_assignments d @
               new_assignments (students_id_seq d) seatIdNum shiftIdsNum
         \<and> (\<exists>h. student_membership_history d' = student_membership_history d @ [h]
                  \<and> h_student_id h = students_id_seq d))"

text \<open>
  The checks of update on the body and on the stored row \<open>cur\<close> of the student, all
  passed.
\<close>

definition update_valid :: "body \<Rightarrow> student \<Rightarrow> bool" where
  "update_valid b cur =
     (let totalFeeValue = money_or_stored (total_fee b) (s_total_fee cur);
          amountPaidValue = money_or_stored (amount_paid b) (s_amount_paid cur);
          cashValue = money_or_stored (cash b) (s_cash cur);
          onlineValue = money_or_stored (online b) (s_online cur);
          securityMoneyValue = money_or_stored (security_money b) (s_security_money cur)
      in truthy_str (name b) \<and> truthy_str (email b) \<and> truthy_str (phone b)
         \<and> truthy_str (address b) \<and> truthy_int (branch_id b)
         \<and> truthy_date (membership_start b) \<and> truthy_date (membership_end b)
         \<and> \<not> isNaN totalFeeValue \<and> \<not> lt0 totalFeeValue
         \<and> \<not> isNaN amountPaidValue \<and> \<not> lt0 amountPaidValue
         \<and> \<not> isNaN cashValue \<and> \<not> lt0 cashValue \<and> \<not> isNaN onlineValue \<and> \<not> lt0 onlineValue
         \<and> \<not> isNaN securityMoneyValue \<and> \<not> lt0 securityMoneyValue)"

text \<open>The rows of the history of one student.\<close>

definition history_rows :: "db \<Rightarrow> int \<Rightarrow> history list" where
  "history_rows d sid = filter (\<lambda>h. h_student_id h = sid) (student_membership_history d)"

text \<open>
  What the writes of update do when they run to the end, from the tables \<open>d\<close> to the
  tables \<open>d'\<close>: the rows of the student take the values of the \<^verbatim>\<open>SET\<close> list, the seat
  assignments of the student are replaced, and the latest history row is overwritten.
\<close>

definition update_written ::
  "instant \<Rightarrow> int \<Rightarrow> body \<Rightarrow> int option \<Rightarrow> int option \<Rightarrow> int list \<Rightarrow> number \<Rightarrow> number \<Rightarrow> number
     \<Rightarrow> number \<Rightarrow> number \<Rightarrow> number \<Rightarrow> db \<Rightarrow> db \<Rightarrow> bool" where
  "update_written now sid b branchIdNum seatIdNum shiftIdsNum totalFeeValue amountPaidValue
     dueAmountValue cashValue onlineValue securityMoneyValue d d' =
     (students d' =
        map (\<lambda>r. if s_id r = sid
                  then update_set now b branchIdNum totalFeeValue amountPaidValue dueAmountValue
                         cashValue onlineValue securityMoneyValue r
                  else r) (students d)
      \<and> seats d' = seats d \<and> schedules d' = schedules d
      \<and> seat_assignments d' =
          filter (\<lambda>a. sa_student_id a \<noteq> sid) (seat_assignments d) @
          new_assignments sid seatIdNum shiftIdsNum
      \<and> (\<exists>hrow firstShiftId.
            latest (history_rows d sid) = Some hrow
            \<and> student_membership_history d' =
                map (\<lambda>h. if h_id h = h_id hrow
                          then update_history_set now b branchIdNum seatIdNum firstShiftId
                                 totalFeeValue amountPaidValue dueAmountValue cashValue
                                 onlineValue securityMoneyValue h
                          else h) (student_membership_history d)))"

text \<open>What an update that answers 200 has found and done.\<close>

definition updated :: "instant \<Rightarrow> int \<Rightarrow> body \<Rightarrow> db \<Rightarrow> db \<Rightarrow> bool" where
  "updated now sid b d d' =
     (\<exists>cur. student_row d sid = Some cur \<and> update_valid b cur
        \<and> (\<forall>m. \<not> check_failure d (int_or_null (seat_id b)) (shift_list (shift_ids b))
                   (\<lambda>a. sa_student_id a \<noteq> sid) m)
        \<and> (let totalFeeValue = money_or_stored (total_fee b) (s_total_fee cur);
                amountPaidValue = money_or_stored (amount_paid b) (s_amount_paid cur)
            in update_written now sid b (int_or_null (branch_id b)) (int_or_null (seat_id b))
                 (shift_list (shift_ids b)) totalFeeValue amountPaidValue
                 (sub totalFeeValue amountPaidValue)
                 (money_or_stored (cash b) (s_cash cur))
                 (money_or_stored (online b) (s_online cur))
                 (money_or_stored (security_money b) (s_security_money cur)) d d'))"

text \<open>
  What a renew that answers 200 has found and done: the values are valid, the rows of the
  student take the values of the \<^verbatim>\<open>SET\<close> list, the seat assignments of the student are
  replaced when a seat and shifts are given and stay otherwise, and the history has one
  more row.
\<close>

definition renewed :: "instant \<Rightarrow> int \<Rightarrow> body \<Rightarrow> db \<Rightarrow> db \<Rightarrow> bool" where
  "renewed now sid b d d' =
     (\<exists>old. student_row d sid = Some old \<and>
        (let branchIdNum = int_or_null (branch_id b);
             seatIdNum = int_or_null (seat_id b);
             shiftIdsNum = shift_list (shift_ids b);
             feeValue = parseFloat (or_js (or_js (total_fee b) (col_js (s_total_fee old))) zero_js);
             cashValue = parseFloat (or_js (cash b) zero_js);
             onlineValue = parseFloat (or_js (online b) zero_js);
             securityMoneyValue =
               parseFloat (or_js (or_js (security_money b) (col_js (s_security_money old)))
                             zero_js)
         in \<not> isNaN feeValue \<and> \<not> lt0 feeValue
            \<and> students d' =
                 map (\<lambda>r. if s_id r = sid
                           then renew_set b branchIdNum feeValue (add cashValue onlineValue)
                                  (sub feeValue (add cashValue onlineValue)) cashValue
                                  onlineValue securityMoneyValue r
                           else r) (students d)
            \<and> seats d' = seats d \<and> schedules d' = schedules d
            \<and> seat_assignments d' =
                 (if seatIdNum \<noteq> None \<and> shiftIdsNum \<noteq> []
                  then filter (\<lambda>a. sa_student_id a \<noteq> sid) (seat_assignments d) @
                       new_assignments sid seatIdNum shiftIdsNum
                  else seat_assignments d)
            \<and> (\<exists>h. student_membership_history d' = student_membership_history d @ [h]
                     \<and> h_student_id h = sid \<and> h_status h = Some Active)))"

section \<open>A small database\<close>

text \<open>
  One student with a seat for one shift and one history row, two seats, two shifts; and a
  request body that names the free shift of the same seat. The properties below are tried
  on them.
\<close>

definition sample_student :: student where
  "sample_student =
     \<lparr>s_id = 1, s_name = Some ''Asha'', s_email = Some ''asha@example.org'',
      s_phone = Some ''5550101'', s_address = Some ''12 Hill Road'', s_branch_id = Some 1,
      s_membership_start = Some 19000, s_membership_end = Some 19030,
      s_total_fee = Some (Fin 500), s_amount_paid = Some (Fin 300),
      s_due_amount = Some (Fin 200), s_cash = Some (Fin 300), s_online = Some (Fin 0),
      s_security_money = Some (Fin 100), s_remark = None, s_profile_image_url = None,
      s_status = Some Active\<rparr>"

definition sample_db :: db where
  "sample_db =
     \<lparr>students = [sample_student], seats = [1, 2], schedules = [10, 11],
      seat_assignments = [\<lparr>sa_seat_id = 1, sa_shift_id = 10, sa_student_id = 1\<rparr>],
      student_membership_history =
        [(history_of sample_student (Some 1) (Some 10) (Some 1))\<lparr>h_id := 1\<rparr>],
      students_id_seq = 2, history_id_seq = 2\<rparr>"

definition sample_body :: body where
  "sample_body =
     \<lparr>name = Some ''Ravi'', email = Some ''ravi@example.org'', phone = Some ''5550102'',
      address = Some ''3 Lake View'', branch_id = Some 1, membership_start = Some 19000,
      membership_end = Some 19030, total_fee = Num (Fin 500), amount_paid = Str (units ''600.50''),
      shift_ids = Some [11], seat_id = Some 1, cash = Undefined, online = Undefined,
      security_money = Undefined, remark = None, profile_image_url = None\<rparr>"

text \<open>
  The same request with a fee and a payment that have no exact double: \<^verbatim>\<open>'100.1'\<close> and
  \<^verbatim>\<open>'0.2'\<close>.
\<close>

definition fraction_body :: body where
  "fraction_body =
     sample_body\<lparr>total_fee := Str (units ''100.1''), amount_paid := Str (units ''0.2'')\<rparr>"

text \<open>The database with no value in the \<^verbatim>\<open>total_fee\<close> column of the student.\<close>

definition unpriced_db :: db where
  "unpriced_db = sample_db\<lparr>students := [sample_student\<lparr>s_total_fee := None\<rparr>]\<rparr>"

text \<open>
  The database with the membership of the student over: it ended on day 18000 and the
  stored status is \<^verbatim>\<open>expired\<close>.
\<close>

definition lapsed_student :: student where
  "lapsed_student =
     sample_student\<lparr>s_membership_start := Some 17970, s_membership_end := Some 18000,
                    s_status := Some Expired\<rparr>"

definition lapsed_db :: db where
  "lapsed_db = sample_db\<lparr>students := [lapsed_student]\<rparr>"

section \<open>Properties of the steps\<close>

text \<open>The fault of the session has struck: its step has been issued.\<close>

definition consumed :: "session \<Rightarrow> bool" where
  "consumed s = (\<exists>k. fault s = Some k \<and> k < issued s)"

lemma restore_None: "restore cur None = cur"
  by (simp add: restore_def)

lemma restore_same: "restore t (Some t) = t"
  by (simp add: restore_def)

lemma same_rows_restore: "same_rows t (restore cur (Some t))"
  by (simp add: restore_def same_rows_def)

lemma same_rows_refl: "same_rows d d"
  by (simp add: same_rows_def)

lemma query_cases:
  assumes "query c k f s = (r, s')"
  shows "fault s' = fault s \<and> issued s' = Suc (issued s) \<and> snapshot s' = snapshot s \<and>
         (if fault s = Some (issued s)
          then r = Inl DbError \<and> tables s' = tables s
          else r = Inr (fst (f (tables s))) \<and> tables s' = snd (f (tables s)))"
  using assms by (auto simp: query_def Let_def split: prod.splits if_splits)

lemma rollback_cases:
  assumes "rollback_tx s = (r, s')"
  shows "fault s' = fault s \<and> issued s' = Suc (issued s) \<and>
         (if fault s = Some (issued s)
          then r = Inl DbError \<and> tables s' = tables s \<and> snapshot s' = snapshot s
          else r = Inr () \<and> tables s' = restore (tables s) (snapshot s) \<and> snapshot s' = None)"
  using assms by (auto simp: rollback_tx_def Let_def split: if_splits)

lemma begin_cases:
  assumes "begin_tx s = (r, s')"
  shows "fault s' = fault s \<and> issued s' = Suc (issued s) \<and> tables s' = tables s \<and>
         (if fault s = Some (issued s)
          then r = Inl DbError \<and> snapshot s' = snapshot s
          else r = Inr () \<and> snapshot s' = Some (tables s))"
  using assms by (auto simp: begin_tx_def Let_def split: if_splits)

lemma commit_cases:
  assumes "commit_tx s = (r, s')"
  shows "fault s' = fault s \<and> issued s' = Suc (issued s) \<and> tables s' = tables s \<and>
         (if fault s = Some (issued s)
          then r = Inl DbError \<and> snapshot s' = snapshot s
          else r = Inr () \<and> snapshot s' = None)"
  using assms by (auto simp: commit_tx_def Let_def split: if_splits)

lemma bnd_cases:
  assumes "bnd m f s = (r, s')"
  obtains e where "m s = (Inl e, s')" "r = Inl e"
  | x s1 where "m s = (Inr x, s1)" "f x s1 = (r, s')"
  using assms by (auto simp: bnd_def split: prod.splits sum.splits)

text \<open>An early return: \<^verbatim>\<open>ROLLBACK\<close>, then the response.\<close>

lemma reject_cases:
  assumes "bnd rollback_tx (\<lambda>_. ret x) s = (r, s')"
  shows "fault s' = fault s \<and> issued s' = Suc (issued s) \<and>
         (if fault s = Some (issued s)
          then r = Inl DbError \<and> tables s' = tables s \<and> snapshot s' = snapshot s
          else r = Inr x \<and> tables s' = restore (tables s) (snapshot s) \<and> snapshot s' = None)"
  using assms
  by (auto simp: bnd_def ret_def rollback_tx_def Let_def split: if_splits)

section \<open>Properties of the loops\<close>

lemma check_shifts_exist_spec:
  "check_shifts_exist xs s = (r, s') \<Longrightarrow>
    fault s' = fault s \<and> issued s \<le> issued s' \<and>
    (case r of
       Inl e \<Rightarrow> tables s' = tables s \<and> snapshot s' = snapshot s \<and> consumed s'
     | Inr None \<Rightarrow> tables s' = tables s \<and> snapshot s' = snapshot s \<and>
                  set xs \<subseteq> set (schedules (tables s))
     | Inr (Some resp) \<Rightarrow> tables s' = restore (tables s) (snapshot s) \<and> snapshot s' = None \<and>
          (\<exists>x \<in> set xs. resp = Response 400 (ShiftNotExist x) \<and>
             x \<notin> set (schedules (tables s))))"
proof (induction xs arbitrary: s)
  case Nil
  then show ?case by (auto simp: ret_def)
next
  case (Cons x xs)
  from Cons.prems have "bnd (query Client SELECT (select_schedule x)) (\<lambda>shiftCheck.
       if length shiftCheck = 0
       then bnd rollback_tx (\<lambda>_. ret (Some (Response 400 (ShiftNotExist x))))
       else check_shifts_exist xs) s = (r, s')" by simp
  then show ?case
  proof (cases rule: bnd_cases)
    case (1 e)
    from query_cases[OF 1(1)] 1(2) show ?thesis
      by (auto simp: consumed_def split: if_splits)
  next
    case (2 rows s1)
    note q = query_cases[OF 2(1)]
    show ?thesis
    proof (cases "length rows = 0")
      case True
      with 2(2) have "bnd rollback_tx (\<lambda>_. ret (Some (Response 400 (ShiftNotExist x)))) s1 = (r, s')"
        by simp
      from reject_cases[OF this] q True show ?thesis
        by (auto simp: consumed_def select_schedule_def filter_empty_conv empty_filter_conv
                 split: if_splits)
    next
      case False
      with 2(2) have "check_shifts_exist xs s1 = (r, s')" by simp
      from Cons.IH[OF this] q False show ?thesis
        by (auto simp: select_schedule_def filter_empty_conv empty_filter_conv split: if_splits sum.splits option.splits)
    qed
  qed
qed

lemma check_unassigned_spec:
  "check_unassigned xs seat s = (r, s') \<Longrightarrow>
    fault s' = fault s \<and> issued s \<le> issued s' \<and>
    (case r of
       Inl e \<Rightarrow> tables s' = tables s \<and> snapshot s' = snapshot s \<and> consumed s'
     | Inr None \<Rightarrow> tables s' = tables s \<and> snapshot s' = snapshot s \<and>
          (\<forall>x \<in> set xs. \<forall>a \<in> set (seat_assignments (tables s)).
              \<not> (sa_seat_id a = seat \<and> sa_shift_id a = x))
     | Inr (Some resp) \<Rightarrow> tables s' = restore (tables s) (snapshot s) \<and> snapshot s' = None \<and>
          (\<exists>x \<in> set xs. resp = Response 400 (SeatAssigned x) \<and>
             (\<exists>a \<in> set (seat_assignments (tables s)). sa_seat_id a = seat \<and> sa_shift_id a = x)))"
proof (induction xs arbitrary: s)
  case Nil
  then show ?case by (auto simp: ret_def)
next
  case (Cons x xs)
  from Cons.prems have "bnd (query Client SELECT (select_assignment seat x)) (\<lambda>checkAssignment.
       if length checkAssignment > 0
       then bnd rollback_tx (\<lambda>_. ret (Some (Response 400 (SeatAssigned x))))
       else check_unassigned xs seat) s = (r, s')" by simp
  then show ?case
  proof (cases rule: bnd_cases)
    case (1 e)
    from query_cases[OF 1(1)] 1(2) show ?thesis
      by (auto simp: consumed_def split: if_splits)
  next
    case (2 rows s1)
    note q = query_cases[OF 2(1)]
    show ?thesis
    proof (cases "length rows > 0")
      case True
      with 2(2) have "bnd rollback_tx (\<lambda>_. ret (Some (Response 400 (SeatAssigned x)))) s1 = (r, s')"
        by simp
      from reject_cases[OF this] q True show ?thesis
        by (auto simp: consumed_def select_assignment_def filter_empty_conv empty_filter_conv
                 split: if_splits)
    next
      case False
      with 2(2) have "check_unassigned xs seat s1 = (r, s')" by simp
      from Cons.IH[OF this] q False show ?thesis
        by (auto simp: select_assignment_def filter_empty_conv empty_filter_conv split: if_splits sum.splits option.splits)
    qed
  qed
qed

lemma insert_assignments_spec:
  "insert_assignments xs c seat sid first s = (r, s') \<Longrightarrow>
    fault s' = fault s \<and> issued s \<le> issued s' \<and> snapshot s' = snapshot s \<and>
    (case r of
       Inl e \<Rightarrow> consumed s'
     | Inr f \<Rightarrow> tables s' = (tables s)\<lparr>seat_assignments := seat_assignments (tables s) @
          map (\<lambda>x. \<lparr>sa_seat_id = seat, sa_shift_id = x, sa_student_id = sid\<rparr>) xs\<rparr>)"
proof (induction xs arbitrary: s first)
  case Nil
  then show ?case by (auto simp: ret_def)
next
  case (Cons x xs)
  from Cons.prems have "bnd (query c INSERT (insert_seat_assignment seat x sid)) (\<lambda>_.
       insert_assignments xs c seat sid
         (if \<not> truthy_int first then Some x else first)) s = (r, s')" by simp
  then show ?case
  proof (cases rule: bnd_cases)
    case (1 e)
    from query_cases[OF 1(1)] 1(2) show ?thesis
      by (auto simp: consumed_def split: if_splits)
  next
    case (2 u s1)
    from Cons.IH[OF 2(2)] query_cases[OF 2(1)] show ?thesis
      by (auto simp: insert_seat_assignment_def split: if_splits sum.splits)
  qed
qed

section \<open>Properties of create\<close>

lemma create_checks_spec:
  "create_checks seatIdNum shifts s = (r, s') \<Longrightarrow>
    fault s' = fault s \<and> issued s \<le> issued s' \<and>
    (case r of
       Inl e \<Rightarrow> tables s' = tables s \<and> snapshot s' = snapshot s \<and> consumed s'
     | Inr None \<Rightarrow> tables s' = tables s \<and> snapshot s' = snapshot s \<and>
          (\<forall>seat. seatIdNum = Some seat \<longrightarrow> shifts \<noteq> [] \<longrightarrow>
             seat \<in> set (seats (tables s)) \<and> set shifts \<subseteq> set (schedules (tables s)) \<and>
             (\<forall>x \<in> set shifts. \<forall>a \<in> set (seat_assignments (tables s)).
                \<not> (sa_seat_id a = seat \<and> sa_shift_id a = x)))
     | Inr (Some resp) \<Rightarrow> tables s' = restore (tables s) (snapshot s) \<and> snapshot s' = None \<and>
          (\<exists>m. resp = Response 400 m \<and>
               check_failure (tables s) seatIdNum shifts (\<lambda>a. True) m))"
proof (cases seatIdNum)
  case None
  assume "create_checks seatIdNum shifts s = (r, s')"
  with None show ?thesis by (auto simp: create_checks_def ret_def)
next
  case (Some seat)
  assume a: "create_checks seatIdNum shifts s = (r, s')"
  show ?thesis
  proof (cases "shifts = []")
    case True
    with a Some show ?thesis by (auto simp: create_checks_def ret_def)
  next
    case ne: False
    with a Some have "bnd (query Client SELECT (select_seat seat)) (\<lambda>seatCheck.
              if length seatCheck = 0
              then bnd rollback_tx (\<lambda>_. ret (Some (Response 400 (SeatNotExist seat))))
              else
                bnd (check_shifts_exist shifts) (\<lambda>r.
                  case r of
                    Some resp \<Rightarrow> ret (Some resp)
                  | None \<Rightarrow> check_unassigned shifts seat)) s = (r, s')"
      by (simp add: create_checks_def)
    then show ?thesis
    proof (cases rule: bnd_cases)
      case (1 e)
      from query_cases[OF 1(1)] 1(2) show ?thesis
        by (auto simp: consumed_def split: if_splits)
    next
      case (2 rows s1)
      note q = query_cases[OF 2(1)]
      show ?thesis
      proof (cases "length rows = 0")
        case True
        with 2(2) have "bnd rollback_tx (\<lambda>_. ret (Some (Response 400 (SeatNotExist seat)))) s1 = (r, s')"
          by simp
        from reject_cases[OF this] q True Some ne show ?thesis
          by (auto simp: consumed_def select_seat_def check_failure_def filter_empty_conv
                     empty_filter_conv split: if_splits)
      next
        case nonempty: False
        with 2(2) have "bnd (check_shifts_exist shifts) (\<lambda>r.
                  case r of
                    Some resp \<Rightarrow> ret (Some resp)
                  | None \<Rightarrow> check_unassigned shifts seat) s1 = (r, s')" by simp
        then show ?thesis
        proof (cases rule: bnd_cases)
          case (1 e)
          from check_shifts_exist_spec[OF 1(1)] q 1(2) show ?thesis
            by (auto simp: select_seat_def split: if_splits)
        next
          case (2 early s2)
          note c = check_shifts_exist_spec[OF 2(1)]
          show ?thesis
          proof (cases early)
            case None
            with 2(2) have "check_unassigned shifts seat s2 = (r, s')" by simp
            from check_unassigned_spec[OF this] c q None nonempty Some ne show ?thesis
              by (auto simp: select_seat_def check_failure_def filter_empty_conv empty_filter_conv
                       split: if_splits sum.splits option.splits)
          next
            case early_resp: (Some resp)
            with 2(2) c q Some ne show ?thesis
              by (auto simp: ret_def select_seat_def check_failure_def split: if_splits)
          qed
        qed
      qed
    qed
  qed
qed

lemma create_assignments_spec:
  "create_assignments sid seatIdNum shifts s = (r, s') \<Longrightarrow>
    fault s' = fault s \<and> issued s \<le> issued s' \<and> snapshot s' = snapshot s \<and>
    (case r of
       Inl e \<Rightarrow> consumed s'
     | Inr f \<Rightarrow> tables s' = (tables s)\<lparr>seat_assignments := seat_assignments (tables s) @
          new_assignments sid seatIdNum shifts\<rparr>)"
proof (cases seatIdNum)
  case None
  assume "create_assignments sid seatIdNum shifts s = (r, s')"
  with None show ?thesis by (auto simp: create_assignments_def ret_def new_assignments_def)
next
  case (Some seat)
  assume a: "create_assignments sid seatIdNum shifts s = (r, s')"
  show ?thesis
  proof (cases "shifts = []")
    case True
    with a Some show ?thesis by (auto simp: create_assignments_def ret_def new_assignments_def)
  next
    case False
    with a Some have "insert_assignments shifts Client seat sid None s = (r, s')"
      by (simp add: create_assignments_def)
    from insert_assignments_spec[OF this] Some show ?thesis
      by (auto simp: new_assignments_def split: sum.splits)
  qed
qed

lemma create_writes_spec:
  assumes "create_writes now b seatIdNum shifts fee paid due cashV onlineV secV s = (r, s')"
  shows "fault s' = fault s \<and> issued s \<le> issued s' \<and>
    (case r of
       Inl e \<Rightarrow> snapshot s' = snapshot s \<and> consumed s'
     | Inr resp \<Rightarrow> snapshot s' = None \<and> (\<exists>m. resp = Response 201 m) \<and>
         students (tables s') = students (tables s) @
           [(create_values now b fee paid due cashV onlineV secV)\<lparr>s_id := students_id_seq (tables s)\<rparr>] \<and>
         seats (tables s') = seats (tables s) \<and> schedules (tables s') = schedules (tables s) \<and>
         seat_assignments (tables s') = seat_assignments (tables s) @
           new_assignments (students_id_seq (tables s)) seatIdNum shifts \<and>
         (\<exists>h. student_membership_history (tables s') =
                student_membership_history (tables s) @ [h] \<and>
              h_student_id h = students_id_seq (tables s)))"
proof -
  from assms[unfolded create_writes_def] show ?thesis
  proof (cases rule: bnd_cases)
    case (1 e)
    from query_cases[OF 1(1)] 1(2) show ?thesis
      by (auto simp: consumed_def split: if_splits)
  next
    case (2 student s1)
    note q1 = query_cases[OF 2(1)]
    from 2(2) show ?thesis
    proof (cases rule: bnd_cases)
      case (1 e)
      from create_assignments_spec[OF 1(1)] q1 1(2) show ?thesis
        by (auto split: if_splits)
    next
      case (2 firstShiftId s2)
      note a = create_assignments_spec[OF 2(1)]
      from 2(2) show ?thesis
      proof (cases rule: bnd_cases)
        case (1 e)
        from query_cases[OF 1(1)] a q1 1(2) show ?thesis
          by (auto simp: consumed_def split: if_splits)
      next
        case (2 u s3)
        note q3 = query_cases[OF 2(1)]
        from 2(2) show ?thesis
        proof (cases rule: bnd_cases)
          case (1 e)
          from commit_cases[OF 1(1)] q3 a q1 1(2) show ?thesis
            by (auto simp: consumed_def split: if_splits)
        next
          case (2 v s4)
          from commit_cases[OF 2(1)] q3 a q1 2(2) show ?thesis
            by (auto simp: ret_def insert_student_def insert_history_def history_of_def Let_def
                     split: if_splits)
        qed
      qed
    qed
  qed
qed

lemma create_try_spec:
  assumes run: "create_try now b s = (r, s')" and fresh: "snapshot s = None"
  shows "fault s' = fault s \<and>
    (case r of
       Inl e \<Rightarrow> consumed s' \<and>
         (snapshot s' = Some (tables s) \<or> snapshot s' = None \<and> tables s' = tables s)
     | Inr resp \<Rightarrow> snapshot s' = None \<and>
         ((\<exists>m. resp = Response 400 m \<and>
               (create_valid b \<longrightarrow>
                  check_failure (tables s) (int_or_null (seat_id b)) (shift_list (shift_ids b))
                    (\<lambda>a. True) m)) \<and> tables s' = tables s \<or>
          (\<exists>m. resp = Response 201 m) \<and> created now b (tables s) (tables s')))"
proof -
  from run[unfolded create_try_def] show ?thesis
  proof (cases rule: bnd_cases)
    case (1 e)
    from begin_cases[OF 1(1)] 1(2) fresh show ?thesis
      by (auto simp: consumed_def split: if_splits)
  next
    case (2 u s1)
    from begin_cases[OF 2(1)] have s1: "fault s1 = fault s" "issued s1 = Suc (issued s)"
      "tables s1 = tables s" "snapshot s1 = Some (tables s)"
      by (auto split: if_splits)
    define feeValue where "feeValue = parseFloat (or_js (total_fee b) zero_js)"
    define paidValue where "paidValue = parseFloat (or_js (amount_paid b) zero_js)"
    define cashValue where "cashValue = (if cash b \<noteq> Undefined then parseFloat (cash b) else Fin 0)"
    define onlineValue where "onlineValue = (if online b \<noteq> Undefined then parseFloat (online b) else Fin 0)"
    define securityMoneyValue where
      "securityMoneyValue = (if security_money b \<noteq> Undefined then parseFloat (security_money b) else Fin 0)"
    note vals = feeValue_def paidValue_def cashValue_def onlineValue_def securityMoneyValue_def
    from 2(2) consider
      (reject) m where "\<not> create_valid b" "bnd rollback_tx (\<lambda>_. ret (Response 400 m)) s1 = (r, s')"
    | (go) "\<not> isNaN feeValue" "\<not> lt0 feeValue" "\<not> isNaN paidValue" "\<not> lt0 paidValue"
        "bnd (create_checks (int_or_null (seat_id b)) (shift_list (shift_ids b))) (\<lambda>early.
               case early of
                 Some resp \<Rightarrow> ret resp
               | None \<Rightarrow>
                   create_writes now b (int_or_null (seat_id b)) (shift_list (shift_ids b))
                     feeValue paidValue (sub feeValue paidValue)
                     cashValue onlineValue securityMoneyValue) s1 = (r, s')"
      unfolding vals Let_def create_valid_def by (auto split: if_splits)
    then show ?thesis
    proof cases
      case reject
      from reject_cases[OF reject(2)] reject(1) s1 show ?thesis
        by (auto simp: consumed_def restore_same split: if_splits)
    next
      case go
      from go(5) show ?thesis
      proof (cases rule: bnd_cases)
        case (1 e)
        from create_checks_spec[OF 1(1)] 1(2) s1 show ?thesis by auto
      next
        case (2 early s2)
        note c = create_checks_spec[OF 2(1)]
        show ?thesis
        proof (cases early)
          case (Some resp)
          with 2(2) c s1 show ?thesis
            by (auto simp: ret_def restore_same)
        next
          case None
          with 2(2) have w: "create_writes now b (int_or_null (seat_id b)) (shift_list (shift_ids b))
                     feeValue paidValue (sub feeValue paidValue)
                     cashValue onlineValue securityMoneyValue s2 = (r, s')" by simp
          from c None s1 have s2: "fault s2 = fault s" "tables s2 = tables s"
            "snapshot s2 = Some (tables s)"
            and chk: "\<forall>seat. int_or_null (seat_id b) = Some seat \<longrightarrow> shift_list (shift_ids b) \<noteq> [] \<longrightarrow>
             seat \<in> set (seats (tables s)) \<and> set (shift_list (shift_ids b)) \<subseteq> set (schedules (tables s)) \<and>
             (\<forall>x \<in> set (shift_list (shift_ids b)). \<forall>a \<in> set (seat_assignments (tables s)).
                \<not> (sa_seat_id a = seat \<and> sa_shift_id a = x))"
            by auto
          show ?thesis
          proof (cases r)
            case (Inl e)
            with create_writes_spec[OF w] s2 show ?thesis by auto
          next
            case (Inr resp)
            with create_writes_spec[OF w] s2 have
              "snapshot s' = None" "\<exists>m. resp = Response 201 m" "fault s' = fault s"
              "students (tables s') = students (tables s) @
                 [(create_values now b feeValue paidValue (sub feeValue paidValue) cashValue
                   onlineValue securityMoneyValue)\<lparr>s_id := students_id_seq (tables s)\<rparr>]"
              "seats (tables s') = seats (tables s)" "schedules (tables s') = schedules (tables s)"
              "seat_assignments (tables s') = seat_assignments (tables s) @
                 new_assignments (students_id_seq (tables s)) (int_or_null (seat_id b)) (shift_list (shift_ids b))"
              "\<exists>h. student_membership_history (tables s') =
                student_membership_history (tables s) @ [h] \<and>
                h_student_id h = students_id_seq (tables s)"
              by auto
            with go(1-4) chk have "created now b (tables s) (tables s')"
              unfolding created_def Let_def vals by blast
            with Inr \<open>snapshot s' = None\<close> \<open>\<exists>m. resp = Response 201 m\<close> \<open>fault s' = fault s\<close>
            show ?thesis by auto
          qed
        qed
      qed
    qed
  qed
qed

text \<open>The handler as a whole.\<close>

lemma post_students_cases:
  assumes "post_students now flt b d = (resp, d', lg)"
  shows "(\<exists>m. resp = Response 400 m \<and>
               (create_valid b \<longrightarrow>
                  check_failure d (int_or_null (seat_id b)) (shift_list (shift_ids b))
                    (\<lambda>a. True) m)) \<and> d' = d
       \<or> resp = Response 500 ServerError \<and> flt \<noteq> None \<and> same_rows d d'
       \<or> (\<exists>m. resp = Response 201 m) \<and> created now b d d'"
proof -
  define s0 where "s0 = \<lparr>tables = d, snapshot = None, issued = 0, fault = flt, log = [Connect]\<rparr>"
  obtain r s1 where run: "create_try now b s0 = (r, s1)" by (cases "create_try now b s0")
  have fresh: "snapshot s0 = None" by (simp add: s0_def)
  note spec = create_try_spec[OF run fresh]
  show ?thesis
  proof (cases r)
    case (Inr x)
    with assms run spec show ?thesis
      by (auto simp: post_students_def with_client_def s0_def Let_def)
  next
    case (Inl e)
    obtain r2 s2 where rb: "rollback_tx s1 = (r2, s2)" by (cases "rollback_tx s1")
    from spec Inl have c: "consumed s1" "fault s1 = flt"
      and snap: "snapshot s1 = Some d \<or> snapshot s1 = None \<and> tables s1 = d"
      by (auto simp: s0_def)
    from c have nf: "fault s1 \<noteq> Some (issued s1)" "flt \<noteq> None" by (auto simp: consumed_def)
    from rollback_cases[OF rb] nf have r2: "r2 = Inr ()" "tables s2 = restore (tables s1) (snapshot s1)"
      by auto
    from snap r2 have "same_rows d (tables s2)"
      by (auto simp: same_rows_restore restore_None same_rows_refl)
    with assms run Inl rb r2 nf show ?thesis
      by (auto simp: post_students_def with_client_def s0_def[symmetric] Let_def)
  qed
qed

section \<open>Properties of update\<close>

lemma find_filter: "find P xs = (case filter P xs of [] \<Rightarrow> None | x # _ \<Rightarrow> Some x)"
  by (induction xs) auto

lemma check_unassigned_other_spec:
  "check_unassigned_other xs seat sid s = (r, s') \<Longrightarrow>
    fault s' = fault s \<and> issued s \<le> issued s' \<and>
    (case r of
       Inl e \<Rightarrow> tables s' = tables s \<and> snapshot s' = snapshot s \<and> consumed s'
     | Inr None \<Rightarrow> tables s' = tables s \<and> snapshot s' = snapshot s \<and>
          (\<forall>x \<in> set xs. \<forall>a \<in> set (seat_assignments (tables s)).
              \<not> (sa_seat_id a = seat \<and> sa_shift_id a = x \<and> sa_student_id a \<noteq> sid))
     | Inr (Some resp) \<Rightarrow> tables s' = restore (tables s) (snapshot s) \<and> snapshot s' = None \<and>
          (\<exists>x \<in> set xs. resp = Response 400 (SeatAssigned x) \<and>
             (\<exists>a \<in> set (seat_assignments (tables s)).
                sa_seat_id a = seat \<and> sa_shift_id a = x \<and> sa_student_id a \<noteq> sid)))"
proof (induction xs arbitrary: s)
  case Nil
  then show ?case by (auto simp: ret_def)
next
  case (Cons x xs)
  from Cons.prems have "bnd (query Client SELECT (select_assignment_other seat x sid)) (\<lambda>checkAssignment.
       if length checkAssignment > 0
       then bnd rollback_tx (\<lambda>_. ret (Some (Response 400 (SeatAssigned x))))
       else check_unassigned_other xs seat sid) s = (r, s')" by simp
  then show ?case
  proof (cases rule: bnd_cases)
    case (1 e)
    from query_cases[OF 1(1)] 1(2) show ?thesis
      by (auto simp: consumed_def split: if_splits)
  next
    case (2 rows s1)
    note q = query_cases[OF 2(1)]
    show ?thesis
    proof (cases "length rows > 0")
      case True
      with 2(2) have "bnd rollback_tx (\<lambda>_. ret (Some (Response 400 (SeatAssigned x)))) s1 = (r, s')"
        by simp
      from reject_cases[OF this] q True show ?thesis
        by (auto simp: consumed_def select_assignment_other_def filter_empty_conv empty_filter_conv
                 split: if_splits)
    next
      case False
      with 2(2) have "check_unassigned_other xs seat sid s1 = (r, s')" by simp
      from Cons.IH[OF this] q False show ?thesis
        by (auto simp: select_assignment_other_def filter_empty_conv empty_filter_conv
                 split: if_splits sum.splits option.splits)
    qed
  qed
qed

lemma update_checks_spec:
  "update_checks sid seatIdNum shifts s = (r, s') \<Longrightarrow>
    fault s' = fault s \<and> issued s \<le> issued s' \<and>
    (case r of
       Inl e \<Rightarrow> tables s' = tables s \<and> snapshot s' = snapshot s \<and> consumed s'
     | Inr None \<Rightarrow> tables s' = tables s \<and> snapshot s' = snapshot s \<and>
          (\<forall>m. \<not> check_failure (tables s) seatIdNum shifts (\<lambda>a. sa_student_id a \<noteq> sid) m)
     | Inr (Some resp) \<Rightarrow> tables s' = restore (tables s) (snapshot s) \<and> snapshot s' = None \<and>
          (\<exists>m. resp = Response 400 m \<and>
               check_failure (tables s) seatIdNum shifts (\<lambda>a. sa_student_id a \<noteq> sid) m))"
proof (cases seatIdNum)
  case None
  assume "update_checks sid seatIdNum shifts s = (r, s')"
  with None show ?thesis by (auto simp: update_checks_def ret_def check_failure_def)
next
  case (Some seat)
  assume a: "update_checks sid seatIdNum shifts s = (r, s')"
  show ?thesis
  proof (cases "shifts = []")
    case True
    with a Some show ?thesis by (auto simp: update_checks_def ret_def check_failure_def)
  next
    case ne: False
    with a Some have "bnd (query Client SELECT (select_seat seat)) (\<lambda>seatCheck.
              if length seatCheck = 0
              then bnd rollback_tx (\<lambda>_. ret (Some (Response 400 (SeatNotExist seat))))
              else
                bnd (check_shifts_exist shifts) (\<lambda>r.
                  case r of
                    Some resp \<Rightarrow> ret (Some resp)
                  | None \<Rightarrow> check_unassigned_other shifts seat sid)) s = (r, s')"
      by (simp add: update_checks_def)
    then show ?thesis
    proof (cases rule: bnd_cases)
      case (1 e)
      from query_cases[OF 1(1)] 1(2) show ?thesis
        by (auto simp: consumed_def split: if_splits)
    next
      case (2 rows s1)
      note q = query_cases[OF 2(1)]
      show ?thesis
      proof (cases "length rows = 0")
        case True
        with 2(2) have "bnd rollback_tx (\<lambda>_. ret (Some (Response 400 (SeatNotExist seat)))) s1 = (r, s')"
          by simp
        from reject_cases[OF this] q True Some ne show ?thesis
          by (auto simp: consumed_def select_seat_def check_failure_def filter_empty_conv
                     empty_filter_conv split: if_splits)
      next
        case nonempty: False
        with 2(2) have "bnd (check_shifts_exist shifts) (\<lambda>r.
                  case r of
                    Some resp \<Rightarrow> ret (Some resp)
                  | None \<Rightarrow> check_unassigned_other shifts seat sid) s1 = (r, s')" by simp
        then show ?thesis
        proof (cases rule: bnd_cases)
          case (1 e)
          from check_shifts_exist_spec[OF 1(1)] q 1(2) show ?thesis
            by (auto simp: select_seat_def split: if_splits)
        next
          case (2 early s2)
          note c = check_shifts_exist_spec[OF 2(1)]
          show ?thesis
          proof (cases early)
            case None
            with 2(2) have "check_unassigned_other shifts seat sid s2 = (r, s')" by simp
            from check_unassigned_other_spec[OF this] c q None nonempty Some ne show ?thesis
              by (auto simp: select_seat_def check_failure_def filter_empty_conv empty_filter_conv
                       split: if_splits sum.splits option.splits)
          next
            case early_resp: (Some resp)
            with 2(2) c q Some ne show ?thesis
              by (auto simp: ret_def select_seat_def check_failure_def split: if_splits)
          qed
        qed
      qed
    qed
  qed
qed

lemma update_assignments_spec:
  "update_assignments sid seatIdNum shifts s = (r, s') \<Longrightarrow>
    fault s' = fault s \<and> issued s \<le> issued s' \<and> snapshot s' = snapshot s \<and>
    (case r of
       Inl e \<Rightarrow> consumed s'
     | Inr f \<Rightarrow> tables s' = (tables s)\<lparr>seat_assignments :=
          filter (\<lambda>a. sa_student_id a \<noteq> sid) (seat_assignments (tables s)) @
          new_assignments sid seatIdNum shifts\<rparr>)"
proof -
  assume a: "update_assignments sid seatIdNum shifts s = (r, s')"
  have del: "fault s' = fault s \<and> issued s \<le> issued s' \<and> snapshot s' = snapshot s \<and>
    (case r of
       Inl e \<Rightarrow> consumed s'
     | Inr f \<Rightarrow> tables s' = (tables s)\<lparr>seat_assignments :=
          filter (\<lambda>a. sa_student_id a \<noteq> sid) (seat_assignments (tables s))\<rparr>)"
    if "bnd (query Client DELETE (delete_seat_assignments sid)) (\<lambda>_. ret None) s = (r, s')"
    using that
  proof (cases rule: bnd_cases)
    case (1 e)
    from query_cases[OF 1(1)] 1(2) show ?thesis
      by (auto simp: consumed_def split: if_splits)
  next
    case (2 u s1)
    from query_cases[OF 2(1)] 2(2) show ?thesis
      by (auto simp: ret_def delete_seat_assignments_def split: if_splits)
  qed
  show ?thesis
  proof (cases seatIdNum)
    case None
    with a del show ?thesis
      by (auto simp: update_assignments_def new_assignments_def split: sum.splits)
  next
    case (Some seat)
    show ?thesis
    proof (cases "shifts = []")
      case True
      with a Some del show ?thesis
        by (auto simp: update_assignments_def new_assignments_def split: sum.splits)
    next
      case False
      with a Some have "bnd (query Client DELETE (delete_seat_assignments sid)) (\<lambda>_.
                 insert_assignments shifts Client seat sid None) s = (r, s')"
        by (simp add: update_assignments_def)
      then show ?thesis
      proof (cases rule: bnd_cases)
        case (1 e)
        from query_cases[OF 1(1)] 1(2) show ?thesis
          by (auto simp: consumed_def split: if_splits)
      next
        case (2 u s1)
        from insert_assignments_spec[OF 2(2)] query_cases[OF 2(1)] Some show ?thesis
          by (auto simp: delete_seat_assignments_def new_assignments_def
                   split: if_splits sum.splits)
      qed
    qed
  qed
qed

lemma update_writes_spec:
  assumes run: "update_writes now sid b branchIdNum seatIdNum shifts fee paid due cashV onlineV secV s
                 = (r, s')"
    and tx: "snapshot s = Some t"
  shows "fault s' = fault s \<and> issued s \<le> issued s' \<and>
    (case r of
       Inl e \<Rightarrow> snapshot s' = Some t \<and> consumed s'
     | Inr resp \<Rightarrow> snapshot s' = None \<and>
         (resp = Response 404 StudentNotFound \<and> tables s' = restore (tables s) (Some t)
            \<and> filter (\<lambda>r. s_id r = sid) (students (tables s)) = []
          \<or> resp = Response 404 NoHistory \<and> tables s' = restore (tables s) (Some t)
            \<and> latest (history_rows (tables s) sid) = None
          \<or> (\<exists>m. resp = Response 200 m)
            \<and> update_written now sid b branchIdNum seatIdNum shifts fee paid due cashV onlineV secV
                (tables s) (tables s')))"
proof -
  from run[unfolded update_writes_def] show ?thesis
  proof (cases rule: bnd_cases)
    case (1 e)
    from query_cases[OF 1(1)] 1(2) tx show ?thesis
      by (auto simp: consumed_def split: if_splits)
  next
    case (2 result s1)
    note q1 = query_cases[OF 2(1)]
    from q1 have nf1: "fault s \<noteq> Some (issued s)" by (auto split: if_splits)
    with q1 have s1: "fault s1 = fault s" "issued s1 = Suc (issued s)" "snapshot s1 = Some t"
      "result = map (update_set now b branchIdNum fee paid due cashV onlineV secV)
                  (filter (\<lambda>r. s_id r = sid) (students (tables s)))"
      "tables s1 = (tables s)\<lparr>students := map (\<lambda>r. if s_id r = sid
                  then update_set now b branchIdNum fee paid due cashV onlineV secV r
                  else r) (students (tables s))\<rparr>"
      using tx by (auto simp: update_student_def)
    show ?thesis
    proof (cases result)
      case Nil
      with 2(2) have "bnd rollback_tx (\<lambda>_. ret (Response 404 StudentNotFound)) s1 = (r, s')"
        by simp
      from reject_cases[OF this] s1 Nil show ?thesis
        by (auto simp: consumed_def restore_def split: if_splits)
    next
      case (Cons updatedStudent rest)
      with 2(2) have "bnd (update_assignments sid seatIdNum shifts) (\<lambda>firstShiftId.
         bnd (query Client SELECT (select_latest_history sid)) (\<lambda>historyRes.
         case historyRes of
           [] \<Rightarrow> bnd rollback_tx (\<lambda>_. ret (Response 404 NoHistory))
         | historyId # _ \<Rightarrow>
             bnd (query Client UPDATE (update_history historyId
                    (update_history_set now b branchIdNum seatIdNum firstShiftId fee
                       paid due cashV onlineV secV))) (\<lambda>_.
             bnd commit_tx (\<lambda>_.
             ret (Response 200 (StudentBody
                    ((present updatedStudent)
                       \<lparr>s_membership_start := iso_date (s_membership_start updatedStudent),
                        s_membership_end := iso_date (s_membership_end updatedStudent)\<rparr>))))))) s1
           = (r, s')" by simp
      then show ?thesis
      proof (cases rule: bnd_cases)
        case (1 e)
        from update_assignments_spec[OF 1(1)] s1 1(2) show ?thesis by auto
      next
        case (2 firstShiftId s2)
        from update_assignments_spec[OF 2(1)] s1 have s2: "fault s2 = fault s"
          "issued s \<le> issued s2" "snapshot s2 = Some t"
          "tables s2 = (tables s)\<lparr>students := map (\<lambda>r. if s_id r = sid
                  then update_set now b branchIdNum fee paid due cashV onlineV secV r
                  else r) (students (tables s)),
             seat_assignments := filter (\<lambda>a. sa_student_id a \<noteq> sid) (seat_assignments (tables s)) @
               new_assignments sid seatIdNum shifts\<rparr>"
          by auto
        from 2(2) show ?thesis
        proof (cases rule: bnd_cases)
          case (1 e)
          from query_cases[OF 1(1)] s2 1(2) show ?thesis
            by (auto simp: consumed_def split: if_splits)
        next
          case (2 historyRes s3)
          note q3 = query_cases[OF 2(1)]
          from q3 have nf3: "fault s2 \<noteq> Some (issued s2)" by (auto split: if_splits)
          with q3 s2 have s3: "fault s3 = fault s" "issued s \<le> issued s3" "snapshot s3 = Some t"
            "tables s3 = tables s2"
            "historyRes = (case latest (history_rows (tables s) sid) of None \<Rightarrow> []
                           | Some h \<Rightarrow> [h_id h])"
            by (auto simp: select_latest_history_def history_rows_def split: option.splits)
          show ?thesis
          proof (cases "latest (history_rows (tables s) sid)")
            case None
            with s3 2(2) have "bnd rollback_tx (\<lambda>_. ret (Response 404 NoHistory)) s3 = (r, s')"
              by simp
            from reject_cases[OF this] s3 s2 None show ?thesis
              by (auto simp: consumed_def restore_def split: if_splits)
          next
            case (Some hrow)
            with s3 2(2) have "bnd (query Client UPDATE (update_history (h_id hrow)
                    (update_history_set now b branchIdNum seatIdNum firstShiftId fee
                       paid due cashV onlineV secV))) (\<lambda>_.
             bnd commit_tx (\<lambda>_.
             ret (Response 200 (StudentBody
                    ((present updatedStudent)
                       \<lparr>s_membership_start := iso_date (s_membership_start updatedStudent),
                        s_membership_end := iso_date (s_membership_end updatedStudent)\<rparr>))))) s3
               = (r, s')" by simp
            then show ?thesis
            proof (cases rule: bnd_cases)
              case (1 e)
              from query_cases[OF 1(1)] s3 1(2) show ?thesis
                by (auto simp: consumed_def split: if_splits)
            next
              case (2 u s4)
              note q4 = query_cases[OF 2(1)]
              from q4 have nf4: "fault s3 \<noteq> Some (issued s3)" by (auto split: if_splits)
              with q4 s3 s2 have s4: "fault s4 = fault s" "issued s \<le> issued s4"
                "snapshot s4 = Some t"
                "tables s4 = (tables s2)\<lparr>student_membership_history :=
                   map (\<lambda>h. if h_id h = h_id hrow
                          then update_history_set now b branchIdNum seatIdNum firstShiftId
                                 fee paid due cashV onlineV secV h
                          else h) (student_membership_history (tables s))\<rparr>"
                by (auto simp: update_history_def)
              from 2(2) show ?thesis
              proof (cases rule: bnd_cases)
                case (1 e)
                from commit_cases[OF 1(1)] s4 1(2) show ?thesis
                  by (auto simp: consumed_def split: if_splits)
              next
                case (2 v s5)
                from commit_cases[OF 2(1)] have "fault s5 = fault s4" "issued s5 = Suc (issued s4)"
                  "tables s5 = tables s4" "snapshot s5 = None"
                  by (auto split: if_splits)
                with 2(2) s4 s2 Some show ?thesis
                  by (auto simp: ret_def update_written_def)
              qed
            qed
          qed
        qed
      qed
    qed
  qed
qed

lemma update_current_spec:
  assumes run: "update_current now sid b cur s = (r, s')" and tx: "snapshot s = Some (tables s)"
    and cur: "filter (\<lambda>r. s_id r = sid) (students (tables s)) = cur # rest"
    and req: "truthy_str (name b) \<and> truthy_str (email b)
      \<and> truthy_str (phone b) \<and> truthy_str (address b) \<and> truthy_int (branch_id b)
      \<and> truthy_date (membership_start b) \<and> truthy_date (membership_end b)"
  shows "fault s' = fault s \<and>
    (case r of
       Inl e \<Rightarrow> consumed s' \<and> snapshot s' = Some (tables s)
     | Inr resp \<Rightarrow> snapshot s' = None \<and>
         ((\<exists>m. resp = Response 400 m \<and>
               (update_valid b cur \<longrightarrow>
                  check_failure (tables s) (int_or_null (seat_id b)) (shift_list (shift_ids b))
                    (\<lambda>a. sa_student_id a \<noteq> sid) m)) \<and> tables s' = tables s
          \<or> resp = Response 404 NoHistory \<and> tables s' = tables s
            \<and> latest (history_rows (tables s) sid) = None
          \<or> (\<exists>m. resp = Response 200 m) \<and> updated now sid b (tables s) (tables s')))"
proof -
  from cur have row: "student_row (tables s) sid = Some cur"
    by (simp add: student_row_def find_filter)
  define fee where "fee = money_or_stored (total_fee b) (s_total_fee cur)"
  define paid where "paid = money_or_stored (amount_paid b) (s_amount_paid cur)"
  define cashV where "cashV = money_or_stored (cash b) (s_cash cur)"
  define onlineV where "onlineV = money_or_stored (online b) (s_online cur)"
  define secV where "secV = money_or_stored (security_money b) (s_security_money cur)"
  note vals = fee_def paid_def cashV_def onlineV_def secV_def
  define required where "required \<longleftrightarrow> truthy_str (name b) \<and> truthy_str (email b)
      \<and> truthy_str (phone b) \<and> truthy_str (address b) \<and> truthy_int (branch_id b)
      \<and> truthy_date (membership_start b) \<and> truthy_date (membership_end b)"
  define money where "money \<longleftrightarrow> \<not> isNaN fee \<and> \<not> lt0 fee \<and> \<not> isNaN paid \<and> \<not> lt0 paid
      \<and> \<not> isNaN cashV \<and> \<not> lt0 cashV \<and> \<not> isNaN onlineV \<and> \<not> lt0 onlineV
      \<and> \<not> isNaN secV \<and> \<not> lt0 secV"
  have valid: "update_valid b cur \<longleftrightarrow> required \<and> money"
    unfolding update_valid_def Let_def required_def money_def vals by blast
  from run consider
    (reject) m where "\<not> money" "bnd rollback_tx (\<lambda>_. ret (Response 400 m)) s = (r, s')"
  | (go) "money"
      "bnd (update_checks sid (int_or_null (seat_id b)) (shift_list (shift_ids b))) (\<lambda>early.
         case early of
           Some resp \<Rightarrow> ret resp
         | None \<Rightarrow>
             update_writes now sid b (int_or_null (branch_id b)) (int_or_null (seat_id b))
               (shift_list (shift_ids b)) fee paid (sub fee paid) cashV onlineV secV) s
       = (r, s')"
    unfolding update_current_def vals Let_def money_def
    by (auto split: if_splits)
  then show ?thesis
  proof cases
    case reject
    from reject_cases[OF reject(2)] reject(1) tx valid show ?thesis
      by (auto simp: consumed_def restore_same split: if_splits)
  next
    case go
    from go(2) show ?thesis
    proof (cases rule: bnd_cases)
      case (1 e)
      from update_checks_spec[OF 1(1)] 1(2) tx show ?thesis by auto
    next
      case (2 early s3)
      note c = update_checks_spec[OF 2(1)]
      show ?thesis
      proof (cases early)
        case (Some resp)
        with 2(2) c tx show ?thesis
          by (auto simp: ret_def restore_same)
      next
        case None
        with 2(2) have w: "update_writes now sid b (int_or_null (branch_id b))
            (int_or_null (seat_id b)) (shift_list (shift_ids b)) fee paid (sub fee paid)
            cashV onlineV secV s3 = (r, s')" by simp
        from c None tx have s3: "fault s3 = fault s" "tables s3 = tables s"
          "snapshot s3 = Some (tables s)"
          and chk: "\<forall>m. \<not> check_failure (tables s) (int_or_null (seat_id b))
            (shift_list (shift_ids b)) (\<lambda>a. sa_student_id a \<noteq> sid) m"
          by auto
        note ws = update_writes_spec[OF w s3(3)]
        show ?thesis
        proof (cases r)
          case (Inl e)
          with ws s3 show ?thesis by auto
        next
          case (Inr resp)
          with ws s3 consider
            (nostudent) "filter (\<lambda>r. s_id r = sid) (students (tables s)) = []"
          | (nohistory) "resp = Response 404 NoHistory" "tables s' = tables s"
              "latest (history_rows (tables s) sid) = None"
          | (ok) "\<exists>m. resp = Response 200 m"
              "update_written now sid b (int_or_null (branch_id b))
                (int_or_null (seat_id b)) (shift_list (shift_ids b)) fee paid (sub fee paid)
                cashV onlineV secV (tables s) (tables s')"
            by (auto simp: restore_same)
          then show ?thesis
          proof cases
            case nostudent
            with cur show ?thesis by simp
          next
            case nohistory
            with Inr ws s3 show ?thesis by auto
          next
            case ok
            from req go(1) valid have "update_valid b cur" by (simp add: required_def)
            with row chk ok(2) have "updated now sid b (tables s) (tables s')"
              unfolding updated_def Let_def vals by blast
            with Inr ws s3 ok(1) show ?thesis by auto
          qed
        qed
      qed
    qed
  qed
qed

lemma update_try_spec:
  assumes run: "update_try now sid b s = (r, s')" and fresh: "snapshot s = None"
  shows "fault s' = fault s \<and>
    (case r of
       Inl e \<Rightarrow> consumed s' \<and>
         (snapshot s' = Some (tables s) \<or> snapshot s' = None \<and> tables s' = tables s)
     | Inr resp \<Rightarrow> snapshot s' = None \<and>
         ((\<exists>m. resp = Response 400 m \<and>
               (\<forall>cur. student_row (tables s) sid = Some cur \<longrightarrow> update_valid b cur \<longrightarrow>
                  check_failure (tables s) (int_or_null (seat_id b)) (shift_list (shift_ids b))
                    (\<lambda>a. sa_student_id a \<noteq> sid) m)) \<and> tables s' = tables s
          \<or> resp = Response 404 StudentNotFound \<and> tables s' = tables s
            \<and> student_row (tables s) sid = None
          \<or> resp = Response 404 NoHistory \<and> tables s' = tables s
            \<and> latest (history_rows (tables s) sid) = None
          \<or> (\<exists>m. resp = Response 200 m) \<and> updated now sid b (tables s) (tables s')))"
proof -
  from run[unfolded update_try_def] show ?thesis
  proof (cases rule: bnd_cases)
    case (1 e)
    from begin_cases[OF 1(1)] 1(2) fresh show ?thesis
      by (auto simp: consumed_def split: if_splits)
  next
    case (2 u s1)
    from begin_cases[OF 2(1)] have s1: "fault s1 = fault s" "issued s1 = Suc (issued s)"
      "tables s1 = tables s" "snapshot s1 = Some (tables s)"
      by (auto split: if_splits)
    define required where "required \<longleftrightarrow> truthy_str (name b) \<and> truthy_str (email b)
      \<and> truthy_str (phone b) \<and> truthy_str (address b) \<and> truthy_int (branch_id b)
      \<and> truthy_date (membership_start b) \<and> truthy_date (membership_end b)"
    show ?thesis
    proof (cases required)
      case False
      with 2(2) have "bnd rollback_tx (\<lambda>_. ret (Response 400 RequiredMissing)) s1 = (r, s')"
        unfolding required_def by (auto split: if_splits)
      from reject_cases[OF this] s1 False show ?thesis
        by (auto simp: consumed_def restore_same required_def update_valid_def Let_def
                 split: if_splits)
    next
      case True
      with 2(2) have "bnd (query Client SELECT (select_student sid)) (\<lambda>currentStudentRes.
         case currentStudentRes of
           [] \<Rightarrow> bnd rollback_tx (\<lambda>_. ret (Response 404 StudentNotFound))
         | currentStudent # _ \<Rightarrow> update_current now sid b currentStudent) s1 = (r, s')"
        unfolding required_def by simp
      then show ?thesis
      proof (cases rule: bnd_cases)
        case (1 e)
        from query_cases[OF 1(1)] s1 1(2) show ?thesis
          by (auto simp: consumed_def split: if_splits)
      next
        case (2 rows s2)
        note q = query_cases[OF 2(1)]
        from q have "fault s1 \<noteq> Some (issued s1)" by (auto split: if_splits)
        with q s1 have s2: "fault s2 = fault s" "issued s2 = Suc (Suc (issued s))"
          "tables s2 = tables s" "snapshot s2 = Some (tables s)"
          "rows = filter (\<lambda>r. s_id r = sid) (students (tables s))"
          by (auto simp: select_student_def)
        show ?thesis
        proof (cases rows)
          case Nil
          with 2(2) have "bnd rollback_tx (\<lambda>_. ret (Response 404 StudentNotFound)) s2 = (r, s')"
            by simp
          moreover from Nil s2 have "student_row (tables s) sid = None"
            by (simp add: student_row_def find_filter)
          ultimately show ?thesis using reject_cases[of "Response 404 StudentNotFound" s2 r s'] s2
            by (auto simp: consumed_def restore_same split: if_splits)
        next
          case (Cons cur rest)
          with s2(5) have f: "filter (\<lambda>r. s_id r = sid) (students (tables s)) = cur # rest"
            by metis
          then have row: "student_row (tables s) sid = Some cur"
            by (simp add: student_row_def find_filter)
          from Cons 2(2) have c: "update_current now sid b cur s2 = (r, s')" by simp
          from s2 f have "snapshot s2 = Some (tables s2)"
            "filter (\<lambda>r. s_id r = sid) (students (tables s2)) = cur # rest" by simp_all
          from update_current_spec[OF c this] True s2 row show ?thesis
            unfolding required_def by (auto split: sum.splits)
        qed
      qed
    qed
  qed
qed

lemma put_student_cases:
  assumes "put_student now flt sid b d = (resp, d', lg)"
  shows "(\<exists>m. resp = Response 400 m \<and>
               (\<forall>cur. student_row d sid = Some cur \<longrightarrow> update_valid b cur \<longrightarrow>
                  check_failure d (int_or_null (seat_id b)) (shift_list (shift_ids b))
                    (\<lambda>a. sa_student_id a \<noteq> sid) m)) \<and> d' = d
       \<or> resp = Response 404 StudentNotFound \<and> d' = d \<and> student_row d sid = None
       \<or> resp = Response 404 NoHistory \<and> d' = d \<and> latest (history_rows d sid) = None
       \<or> resp = Response 500 ServerError \<and> flt \<noteq> None \<and> same_rows d d'
       \<or> (\<exists>m. resp = Response 200 m) \<and> updated now sid b d d'"
proof -
  define s0 where "s0 = \<lparr>tables = d, snapshot = None, issued = 0, fault = flt, log = [Connect]\<rparr>"
  obtain r s1 where run: "update_try now sid b s0 = (r, s1)" by (cases "update_try now sid b s0")
  have fresh: "snapshot s0 = None" by (simp add: s0_def)
  note spec = update_try_spec[OF run fresh]
  show ?thesis
  proof (cases r)
    case (Inr x)
    with assms run spec show ?thesis
      by (auto simp: put_student_def with_client_def s0_def Let_def)
  next
    case (Inl e)
    obtain r2 s2 where rb: "rollback_tx s1 = (r2, s2)" by (cases "rollback_tx s1")
    from spec Inl have c: "consumed s1" "fault s1 = flt"
      and snap: "snapshot s1 = Some d \<or> snapshot s1 = None \<and> tables s1 = d"
      by (auto simp: s0_def)
    from c have nf: "fault s1 \<noteq> Some (issued s1)" "flt \<noteq> None" by (auto simp: consumed_def)
    from rollback_cases[OF rb] nf have r2: "r2 = Inr ()" "tables s2 = restore (tables s1) (snapshot s1)"
      by auto
    from snap r2 have "same_rows d (tables s2)"
      by (auto simp: same_rows_restore restore_None same_rows_refl)
    with assms run Inl rb r2 nf show ?thesis
      by (auto simp: put_student_def with_client_def s0_def[symmetric] Let_def)
  qed
qed

section \<open>Properties of renew\<close>

lemma renew_check_unassigned_spec:
  "renew_check_unassigned xs seat sid s = (r, s') \<Longrightarrow>
    fault s' = fault s \<and> issued s \<le> issued s' \<and> tables s' = tables s \<and>
    (case r of
       Inl e \<Rightarrow> consumed s'
     | Inr None \<Rightarrow> True
     | Inr (Some resp) \<Rightarrow> (\<exists>x \<in> set xs. resp = Response 400 (SeatAssigned x)))"
proof (induction xs arbitrary: s)
  case Nil
  then show ?case by (auto simp: ret_def)
next
  case (Cons x xs)
  from Cons.prems have "bnd (query Pool SELECT (select_assignment_other seat x sid)) (\<lambda>checkAssignment.
       if length checkAssignment > 0
       then ret (Some (Response 400 (SeatAssigned x)))
       else renew_check_unassigned xs seat sid) s = (r, s')" by simp
  then show ?case
  proof (cases rule: bnd_cases)
    case (1 e)
    from query_cases[OF 1(1)] 1(2) show ?thesis
      by (auto simp: consumed_def split: if_splits)
  next
    case (2 rows s1)
    note q = query_cases[OF 2(1)]
    show ?thesis
    proof (cases "length rows > 0")
      case True
      with 2(2) q show ?thesis
        by (auto simp: ret_def select_assignment_other_def split: if_splits)
    next
      case False
      with 2(2) have "renew_check_unassigned xs seat sid s1 = (r, s')" by simp
      from Cons.IH[OF this] q show ?thesis
        by (auto simp: select_assignment_other_def split: if_splits sum.splits option.splits)
    qed
  qed
qed

lemma renew_checks_spec:
  "renew_checks sid seatIdNum shifts s = (r, s') \<Longrightarrow>
    fault s' = fault s \<and> issued s \<le> issued s' \<and> tables s' = tables s \<and>
    (case r of
       Inl e \<Rightarrow> consumed s'
     | Inr None \<Rightarrow> True
     | Inr (Some resp) \<Rightarrow> (\<exists>m. resp = Response 400 m))"
proof (cases seatIdNum)
  case None
  assume "renew_checks sid seatIdNum shifts s = (r, s')"
  with None show ?thesis by (auto simp: renew_checks_def ret_def)
next
  case (Some seat)
  assume a: "renew_checks sid seatIdNum shifts s = (r, s')"
  show ?thesis
  proof (cases "shifts = []")
    case True
    with a Some show ?thesis by (auto simp: renew_checks_def ret_def)
  next
    case False
    with a Some have "renew_check_unassigned shifts seat sid s = (r, s')"
      by (simp add: renew_checks_def)
    from renew_check_unassigned_spec[OF this] show ?thesis
      by (auto split: sum.splits option.splits)
  qed
qed

lemma renew_assignments_spec:
  "renew_assignments sid seatIdNum shifts s = (r, s') \<Longrightarrow>
    fault s' = fault s \<and> issued s \<le> issued s' \<and>
    (case r of
       Inl e \<Rightarrow> consumed s'
     | Inr f \<Rightarrow> tables s' = (tables s)\<lparr>seat_assignments :=
          (if seatIdNum \<noteq> None \<and> shifts \<noteq> []
           then filter (\<lambda>a. sa_student_id a \<noteq> sid) (seat_assignments (tables s)) @
                new_assignments sid seatIdNum shifts
           else seat_assignments (tables s))\<rparr>)"
proof (cases seatIdNum)
  case None
  assume "renew_assignments sid seatIdNum shifts s = (r, s')"
  with None show ?thesis by (auto simp: renew_assignments_def ret_def)
next
  case (Some seat)
  assume a: "renew_assignments sid seatIdNum shifts s = (r, s')"
  show ?thesis
  proof (cases "shifts = []")
    case True
    with a Some show ?thesis by (auto simp: renew_assignments_def ret_def)
  next
    case False
    with a Some have "bnd (query Pool DELETE (delete_seat_assignments sid)) (\<lambda>_.
                     insert_assignments shifts Pool seat sid None) s = (r, s')"
      by (simp add: renew_assignments_def)
    then show ?thesis
    proof (cases rule: bnd_cases)
      case (1 e)
      from query_cases[OF 1(1)] 1(2) show ?thesis
        by (auto simp: consumed_def split: if_splits)
    next
      case (2 u s1)
      from insert_assignments_spec[OF 2(2)] query_cases[OF 2(1)] Some False show ?thesis
        by (auto simp: delete_seat_assignments_def new_assignments_def
                 split: if_splits sum.splits)
    qed
  qed
qed

lemma renew_writes_spec:
  assumes run: "renew_writes now sid b branchIdNum seatIdNum shifts fee paid due cashV onlineV secV s
                 = (r, s')"
    and found: "filter (\<lambda>r. s_id r = sid) (students (tables s)) \<noteq> []"
  shows "fault s' = fault s \<and> issued s \<le> issued s' \<and>
    (case r of
       Inl e \<Rightarrow> consumed s'
     | Inr resp \<Rightarrow> (\<exists>m. resp = Response 200 m) \<and>
         students (tables s') =
           map (\<lambda>r. if s_id r = sid
                     then renew_set b branchIdNum fee paid due cashV onlineV secV r
                     else r) (students (tables s)) \<and>
         seats (tables s') = seats (tables s) \<and> schedules (tables s') = schedules (tables s) \<and>
         seat_assignments (tables s') =
           (if seatIdNum \<noteq> None \<and> shifts \<noteq> []
            then filter (\<lambda>a. sa_student_id a \<noteq> sid) (seat_assignments (tables s)) @
                 new_assignments sid seatIdNum shifts
            else seat_assignments (tables s)) \<and>
         (\<exists>h. student_membership_history (tables s') =
                student_membership_history (tables s) @ [h]
              \<and> h_student_id h = sid \<and> h_status h = Some Active))"
proof -
  from run[unfolded renew_writes_def] show ?thesis
  proof (cases rule: bnd_cases)
    case (1 e)
    from query_cases[OF 1(1)] 1(2) show ?thesis
      by (auto simp: consumed_def split: if_splits)
  next
    case (2 upd s1)
    note q1 = query_cases[OF 2(1)]
    from q1 have nf1: "fault s \<noteq> Some (issued s)" by (auto split: if_splits)
    with q1 have s1: "fault s1 = fault s" "issued s1 = Suc (issued s)"
      "upd = map (renew_set b branchIdNum fee paid due cashV onlineV secV)
                  (filter (\<lambda>r. s_id r = sid) (students (tables s)))"
      "tables s1 = (tables s)\<lparr>students := map (\<lambda>r. if s_id r = sid
                  then renew_set b branchIdNum fee paid due cashV onlineV secV r
                  else r) (students (tables s))\<rparr>"
      by (auto simp: update_student_def)
    from found obtain old0 rest0 where
      f: "filter (\<lambda>r. s_id r = sid) (students (tables s)) = old0 # rest0"
      by (cases "filter (\<lambda>r. s_id r = sid) (students (tables s))") auto
    then have "old0 \<in> set (filter (\<lambda>r. s_id r = sid) (students (tables s)))" by simp
    then have id0: "s_id old0 = sid" by simp
    define updated where "updated = renew_set b branchIdNum fee paid due cashV onlineV secV old0"
    define rest where "rest = map (renew_set b branchIdNum fee paid due cashV onlineV secV) rest0"
    from s1(3) f have upd: "upd = updated # rest" by (simp add: updated_def rest_def)
    from id0 have u: "s_id updated = sid" "s_status updated = Some Active"
      by (simp_all add: updated_def renew_set_def)
    from 2(2) show ?thesis
    proof (cases rule: bnd_cases)
      case (1 e)
      from renew_assignments_spec[OF 1(1)] s1 1(2) show ?thesis by auto
    next
      case (2 firstShiftId s2)
      note a = renew_assignments_spec[OF 2(1)]
      from 2(2) upd have "bnd (query Pool INSERT
                (insert_history now (history_of updated seatIdNum firstShiftId branchIdNum))) (\<lambda>_.
         ret (Response 200 (Renewed (present updated)))) s2 = (r, s')" by simp
      then show ?thesis
      proof (cases rule: bnd_cases)
        case (1 e)
        from query_cases[OF 1(1)] a s1 1(2) show ?thesis
          by (auto simp: consumed_def split: if_splits)
      next
        case (2 v s3)
        from query_cases[OF 2(1)] 2(2) a s1 u show ?thesis
          by (auto simp: ret_def insert_history_def history_of_def split: if_splits)
      qed
    qed
  qed
qed

lemma renew_current_spec:
  assumes run: "renew_current now sid b old s = (r, s')"
    and old: "filter (\<lambda>r. s_id r = sid) (students (tables s)) = old # rest"
  shows "fault s' = fault s \<and> issued s \<le> issued s' \<and>
    (case r of
       Inl e \<Rightarrow> consumed s'
     | Inr resp \<Rightarrow>
         (\<exists>m. resp = Response 400 m) \<and> tables s' = tables s
         \<or> (\<exists>m. resp = Response 200 m) \<and> renewed now sid b (tables s) (tables s'))"
proof -
  from old have row: "student_row (tables s) sid = Some old"
    by (simp add: student_row_def find_filter)
  from old have found: "filter (\<lambda>r. s_id r = sid) (students (tables s)) \<noteq> []" by simp
  define fee where "fee = parseFloat (or_js (or_js (total_fee b) (col_js (s_total_fee old))) zero_js)"
  define cashV where "cashV = parseFloat (or_js (cash b) zero_js)"
  define onlineV where "onlineV = parseFloat (or_js (online b) zero_js)"
  define secV where "secV = parseFloat (or_js (or_js (security_money b) (col_js (s_security_money old))) zero_js)"
  note vals = fee_def cashV_def onlineV_def secV_def
  from run consider
    (reject) m where "ret (Response 400 m) s = (r, s')"
  | (go) "\<not> isNaN fee" "\<not> lt0 fee"
      "bnd (renew_checks sid (int_or_null (seat_id b)) (shift_list (shift_ids b))) (\<lambda>early.
         case early of
           Some resp \<Rightarrow> ret resp
         | None \<Rightarrow>
             renew_writes now sid b (int_or_null (branch_id b)) (int_or_null (seat_id b))
               (shift_list (shift_ids b)) fee (add cashV onlineV) (sub fee (add cashV onlineV))
               cashV onlineV secV) s
       = (r, s')"
    unfolding renew_current_def vals Let_def
    by (auto split: if_splits)
  then show ?thesis
  proof cases
    case reject
    then show ?thesis by (auto simp: ret_def)
  next
    case go
    from go(3) show ?thesis
    proof (cases rule: bnd_cases)
      case (1 e)
      from renew_checks_spec[OF 1(1)] 1(2) show ?thesis by auto
    next
      case (2 early s2)
      note c = renew_checks_spec[OF 2(1)]
      show ?thesis
      proof (cases early)
        case (Some resp)
        with 2(2) c show ?thesis by (auto simp: ret_def)
      next
        case None
        with 2(2) have w: "renew_writes now sid b (int_or_null (branch_id b))
            (int_or_null (seat_id b)) (shift_list (shift_ids b)) fee (add cashV onlineV)
            (sub fee (add cashV onlineV)) cashV onlineV secV s2 = (r, s')" by simp
        from c have s2: "fault s2 = fault s" "issued s \<le> issued s2" "tables s2 = tables s"
          by auto
        from found s2 have "filter (\<lambda>r. s_id r = sid) (students (tables s2)) \<noteq> []" by simp
        note ws = renew_writes_spec[OF w this]
        show ?thesis
        proof (cases r)
          case (Inl e)
          with ws s2 show ?thesis by auto
        next
          case (Inr resp)
          with ws s2 have facts: "\<exists>m. resp = Response 200 m"
            "students (tables s') =
               map (\<lambda>r. if s_id r = sid
                     then renew_set b (int_or_null (branch_id b)) fee (add cashV onlineV)
                            (sub fee (add cashV onlineV)) cashV onlineV secV r
                     else r) (students (tables s))"
            "seats (tables s') = seats (tables s)" "schedules (tables s') = schedules (tables s)"
            "seat_assignments (tables s') =
               (if int_or_null (seat_id b) \<noteq> None \<and> shift_list (shift_ids b) \<noteq> []
                then filter (\<lambda>a. sa_student_id a \<noteq> sid) (seat_assignments (tables s)) @
                     new_assignments sid (int_or_null (seat_id b)) (shift_list (shift_ids b))
                else seat_assignments (tables s))"
            "\<exists>h. student_membership_history (tables s') =
                student_membership_history (tables s) @ [h]
              \<and> h_student_id h = sid \<and> h_status h = Some Active"
            by auto
          with row go(1,2) have "renewed now sid b (tables s) (tables s')"
            unfolding renewed_def Let_def vals by blast
          with Inr ws s2 facts(1) show ?thesis by auto
        qed
      qed
    qed
  qed
qed

lemma renew_student_cases:
  assumes "renew_student now flt sid b d = (resp, d', lg)"
  shows "(\<exists>m. resp = Response 400 m) \<and> d' = d
       \<or> resp = Response 404 StudentNotFound \<and> d' = d \<and> student_row d sid = None
       \<or> resp = Response 500 ServerError \<and> flt \<noteq> None
       \<or> (\<exists>m. resp = Response 200 m) \<and> renewed now sid b d d'"
proof -
  define s0 where "s0 = \<lparr>tables = d, snapshot = None, issued = 0, fault = flt, log = []\<rparr>"
  obtain r s1 where run: "renew_try now sid b s0 = (r, s1)" by (cases "renew_try now sid b s0")
  from assms run have out: "resp = (case r of Inr x \<Rightarrow> x | Inl e \<Rightarrow> Response 500 ServerError)"
    "d' = tables s1"
    by (auto simp: renew_student_def with_pool_def s0_def Let_def split: sum.splits)
  have s0: "tables s0 = d" "fault s0 = flt" by (simp_all add: s0_def)
  show ?thesis
  proof (cases "\<not> truthy_date (membership_start b) \<or> \<not> truthy_date (membership_end b)")
    case True
    with run out s0 show ?thesis by (auto simp: renew_try_def ret_def)
  next
    case False
    with run have "bnd (query Pool SELECT (select_student sid)) (\<lambda>cur.
        case cur of
          [] \<Rightarrow> ret (Response 404 StudentNotFound)
        | old # _ \<Rightarrow> renew_current now sid b old) s0 = (r, s1)"
      by (simp add: renew_try_def)
    then show ?thesis
    proof (cases rule: bnd_cases)
      case (1 e)
      from query_cases[OF 1(1)] 1(2) out s0 show ?thesis
        by (auto split: if_splits)
    next
      case (2 rows s2)
      note q = query_cases[OF 2(1)]
      from q have "fault s0 \<noteq> Some (issued s0)" by (auto split: if_splits)
      with q s0 have s2: "fault s2 = flt" "tables s2 = d"
        "rows = filter (\<lambda>r. s_id r = sid) (students d)"
        by (auto simp: select_student_def)
      show ?thesis
      proof (cases rows)
        case Nil
        with s2 have "student_row d sid = None" by (simp add: student_row_def find_filter)
        with Nil 2(2) out s2 show ?thesis by (auto simp: ret_def)
      next
        case (Cons old rest)
        with s2(3) have f: "filter (\<lambda>r. s_id r = sid) (students (tables s2)) = old # rest"
          using s2(2) by metis
        from Cons 2(2) have c: "renew_current now sid b old s2 = (r, s1)" by simp
        note spec = renew_current_spec[OF c f]
        show ?thesis
        proof (cases r)
          case (Inl e)
          with spec have "consumed s1" "fault s1 = fault s2" by auto
          then obtain k where "fault s2 = Some k" unfolding consumed_def by metis
          with s2(1) have "flt \<noteq> None" by auto
          with Inl out show ?thesis by simp
        next
          case (Inr x)
          with spec out s2 show ?thesis by auto
        qed
      qed
    qed
  qed
qed

section \<open>Properties of rounding\<close>

text \<open>
  The positive doubles start at \<open>2 ^ - 1074\<close>: a positive number that is not smaller
  than that rounds to a positive double or to infinity, never to zero.
\<close>

lemma bitlen_upper: "n < 2 ^ bitlen n"
proof (induction n rule: bitlen.induct)
  case (1 n)
  show ?case
  proof (cases "n = 0")
    case True
    then show ?thesis by (simp add: bitlen.simps)
  next
    case False
    with 1 have "n div 2 < 2 ^ bitlen (n div 2)" by simp
    then have "n < 2 * 2 ^ bitlen (n div 2)" by linarith
    with False show ?thesis by (subst bitlen.simps) simp
  qed
qed

lemma bitlen_lower: "0 < n \<Longrightarrow> 2 ^ (bitlen n - 1) \<le> n"
proof (induction n rule: bitlen.induct)
  case (1 n)
  show ?case
  proof (cases "n div 2 = 0")
    case True
    with 1(2) have "bitlen n = 1" by (simp add: bitlen.simps)
    with 1(2) show ?thesis by simp
  next
    case False
    with 1 have ih: "2 ^ (bitlen (n div 2) - 1) \<le> n div 2" by simp
    from False have "0 < bitlen (n div 2)" by (subst bitlen.simps) simp
    then have "2 ^ bitlen (n div 2) = (2::nat) * 2 ^ (bitlen (n div 2) - 1)"
      by (cases "bitlen (n div 2)") simp_all
    with ih have "2 ^ bitlen (n div 2) \<le> n" by linarith
    with 1(2) show ?thesis by (subst bitlen.simps) simp
  qed
qed

lemma pow2_pos: "0 < pow2 e"
  by (simp add: pow2_def)

lemma pow2_mono: "a \<le> b \<Longrightarrow> pow2 a \<le> pow2 b"
proof -
  have p: "pow2 e = 2 powi e" for e
    by (simp add: pow2_def power_int_def field_simps)
  show "a \<le> b \<Longrightarrow> pow2 a \<le> pow2 b"
    unfolding p by (rule power_int_increasing) simp_all
qed

lemma floor_log2_le:
  assumes "0 < x"
  shows "pow2 (floor_log2 x) \<le> x"
proof (cases "1 \<le> x")
  case True
  define n where "n = nat \<lfloor>x\<rfloor>"
  from True have n: "0 < n" by (simp add: n_def)
  from True have nx: "of_nat n \<le> x" by (simp add: n_def)
  from n have "0 < bitlen n" by (subst bitlen.simps) simp
  then have "pow2 (int (bitlen n) - 1) = 2 ^ (bitlen n - 1)"
    by (simp add: pow2_def nat_diff_distrib')
  also have "\<dots> = of_nat (2 ^ (bitlen n - 1))" by simp
  also from bitlen_lower[OF n] have "\<dots> \<le> of_nat n" by (subst of_nat_le_iff)
  finally have "pow2 (int (bitlen n) - 1) \<le> x" using nx by linarith
  with True show ?thesis by (simp add: floor_log2_def n_def)
next
  case False
  define c where "c = nat \<lceil>1 / x\<rceil>"
  define k where "k = bitlen (c - 1)"
  from False assms have "1 < 1 / x" by simp
  then have c2: "2 \<le> c" unfolding c_def by linarith
  from assms have "1 / x \<le> of_int \<lceil>1 / x\<rceil>" by simp
  also have "\<dots> = of_nat c" using c2 by (simp add: c_def)
  finally have cx: "1 / x \<le> of_nat c" .
  from bitlen_upper[of "c - 1"] have "c \<le> 2 ^ k" by (simp add: k_def)
  then have "(of_nat c :: rat) \<le> 2 ^ k"
    by (metis of_nat_le_iff of_nat_numeral of_nat_power)
  with cx have "1 / x \<le> 2 ^ k" by linarith
  with assms have "1 / 2 ^ k \<le> x" by (simp add: field_simps)
  moreover have "pow2 (- int k) = 1 / 2 ^ k" by (simp add: pow2_def)
  ultimately show ?thesis using False by (simp add: floor_log2_def c_def k_def)
qed

lemma round_even_ge: "\<lfloor>t\<rfloor> \<le> round_even t"
  by (simp add: round_even_def Let_def)

lemma round_pos_positive:
  assumes "pow2 (- 1074) \<le> x"
  shows "lt0 (neg (round_pos x))"
proof -
  from assms pow2_pos[of "- 1074"] have x: "0 < x" by linarith
  define e where "e = max (floor_log2 x - 52) (- 1074)"
  have "pow2 e \<le> x"
  proof (cases "floor_log2 x - 52 \<le> - 1074")
    case True
    then have "e = - 1074" by (simp add: e_def)
    with assms show ?thesis by simp
  next
    case False
    then have "e \<le> floor_log2 x" by (simp add: e_def)
    from pow2_mono[OF this] floor_log2_le[OF x] show ?thesis by linarith
  qed
  with pow2_pos[of e] have "1 \<le> x / pow2 e" by (simp add: field_simps)
  then have "1 \<le> \<lfloor>x / pow2 e\<rfloor>" by linarith
  with round_even_ge[of "x / pow2 e"] have m: "0 < round_even (x / pow2 e)" by linarith
  then have "0 < (of_int (round_even (x / pow2 e)) :: rat) * pow2 e"
    using pow2_pos[of e] by simp
  then show ?thesis
    unfolding round_pos_def Let_def e_def[symmetric] by simp
qed

text \<open>
  The rounded number is within half a unit of the last place of the exact one.
\<close>

lemma round_even_near: "\<bar>of_int (round_even t) - t\<bar> \<le> 1 / 2"
proof -
  have "of_int \<lfloor>t\<rfloor> \<le> t" "t < of_int \<lfloor>t\<rfloor> + 1" by linarith+
  then show ?thesis
    by (auto simp: round_even_def Let_def abs_le_iff)
qed

lemma round_pos_near:
  assumes "round_pos x = Fin v"
  shows "\<bar>v - x\<bar> \<le> pow2 (max (floor_log2 x - 52) (- 1074)) / 2"
proof -
  define e where "e = max (floor_log2 x - 52) (- 1074)"
  define p where "p = pow2 e"
  have p: "0 < p" by (simp add: p_def pow2_pos)
  from assms have v: "v = of_int (round_even (x / p)) * p"
    unfolding round_pos_def Let_def e_def[symmetric] p_def[symmetric]
    by (simp split: if_splits)
  have "v - x = (of_int (round_even (x / p)) - x / p) * p"
    using p by (simp add: v field_simps)
  then have "\<bar>v - x\<bar> = \<bar>of_int (round_even (x / p)) - x / p\<bar> * p"
    using p by (simp add: abs_mult)
  also have "\<dots> \<le> (1 / 2) * p"
    using round_even_near[of "x / p"] p by (intro mult_right_mono) simp_all
  finally show ?thesis by (simp add: p_def e_def)
qed

lemma sub_overpaid: "pow2 (- 1074) \<le> b - a \<Longrightarrow> lt0 (sub (Fin a) (Fin b))"
  using round_pos_positive[of "b - a"] pow2_pos[of "- 1074"]
  by (simp add: round_double_def)

section \<open>Evaluation\<close>

text \<open>The defining equations, by group, for running the handlers on given inputs.\<close>

lemmas io_defs = ret_def throw_def bnd_def query_def begin_tx_def commit_tx_def rollback_tx_def
  restore_def with_client_def with_pool_def
lemmas sql_defs = select_seat_def select_schedule_def select_assignment_def
  select_assignment_other_def insert_student_def insert_seat_assignment_def insert_history_def
  select_student_def update_student_def delete_seat_assignments_def select_latest_history_def
  update_history_def delete_history_def delete_student_def
lemmas js_defs = or_js_def isNaN_def truthy_str_def truthy_int_def truthy_date_def or_null_def
  or_empty_def zero_js_def int_or_null_def shift_list_def num0_def present_def supplied_def
  money_or_stored_def iso_date_def coalesce_def write_status_def ms_per_day_def history_of_def
lemma floor_rat_numeral: "\<lfloor>numeral a / numeral b :: rat\<rfloor> = numeral a div numeral b"
  by (metis floor_divide_of_int_eq of_int_numeral)

lemma ceiling_rat_numeral: "\<lceil>numeral a / numeral b :: rat\<rceil> = - (- numeral a div numeral b)"
  using ceiling_divide_eq_div[of "numeral a" "numeral b"] by simp

lemmas double_defs = round_double_def round_pos_def round_even_def floor_log2_def pow2_def
  bitlen.simps floor_rat_numeral ceiling_rat_numeral
lemmas parse_defs = parseFloat_str_def parse_unsigned_def is_ws_def is_digit_def digit_val_def
  digits_val_def exponent_def scale10_def units_def double_defs
lemmas create_defs = post_students_def create_try_def create_checks_def create_writes_def
  create_values_def create_assignments_def
lemmas sample_defs = sample_student_def sample_db_def sample_body_def fraction_body_def
  unpriced_db_def lapsed_student_def lapsed_db_def
lemmas update_defs = put_student_def update_try_def update_current_def update_checks_def
  update_writes_def update_set_def update_history_set_def update_assignments_def
lemmas renew_defs = renew_student_def renew_try_def renew_current_def renew_checks_def
  renew_writes_def renew_set_def renew_assignments_def
lemmas delete_defs = delete_student_route_def delete_try_def
lemmas eval_defs = io_defs sql_defs js_defs parse_defs sample_defs Let_def

section \<open>Create: the due amount and the rejected conflict\<close>

text \<open>\<^verbatim>\<open>0.3 - 0.1\<close> is 0.19999999999999998, which is not the double of 0.2.\<close>

lemma three_tenths_minus_one_tenth:
  "sub (round_double (3 / 10)) (round_double (1 / 10)) = Fin (7205759403792793 / 36028797018963968)
   \<and> round_double (1 / 5) = Fin (3602879701896397 / 18014398509481984)"
  by (simp add: double_defs)

text \<open>
  Claim C5 fails as it is stated, with an exact difference. The difference that create
  stores is the one of the doubles, rounded: for the fee
  \<^verbatim>\<open>'100.1'\<close> and the payment \<^verbatim>\<open>'0.2'\<close> the handler answers 201 and stores the doubles
  nearest to 100.1 and to 0.2 and, as \<^verbatim>\<open>due_amount\<close>, a double that is neither their
  exact difference nor the double nearest to 99.9 (it prints as 99.89999999999999).
\<close>

theorem create_due_amount_rounded:
  "status_of (fst (post_students 5 None fraction_body sample_db)) = 201
   \<and> map s_total_fee (students (fst (snd (post_students 5 None fraction_body sample_db))))
       = [Some (Fin 500), Some (Fin (3521955646092083 / 35184372088832))]
   \<and> map s_amount_paid (students (fst (snd (post_students 5 None fraction_body sample_db))))
       = [Some (Fin 300), Some (Fin (3602879701896397 / 18014398509481984))]
   \<and> map s_due_amount (students (fst (snd (post_students 5 None fraction_body sample_db))))
       = [Some (Fin 200), Some (Fin (7029837543348633 / 70368744177664))]
   \<and> (7029837543348633 / 70368744177664 :: rat)
       \<noteq> 3521955646092083 / 35184372088832 - 3602879701896397 / 18014398509481984
   \<and> Fin (7029837543348633 / 70368744177664) \<noteq> round_double (999 / 10)"
  by (simp add: create_defs io_defs sql_defs js_defs parse_defs sample_defs Let_def)

text \<open>
  Claim C5, as the code has it. For every create request that passes validation (the
  handler answers 201), the stored \<^verbatim>\<open>due_amount\<close> is \<^verbatim>\<open>total_fee\<close> minus
  \<^verbatim>\<open>amount_paid\<close> as the doubles are subtracted, both as read from the body and as
  stored: for finite amounts the exact difference rounded to the nearest double (and
  \<^verbatim>\<open>NaN\<close> for \<^verbatim>\<open>Infinity - Infinity\<close>, which passes the validation). There is no floor
  at zero: an overpayment gives a negative \<^verbatim>\<open>due_amount\<close>. The payment exceeds the fee
  by at least \<open>2 ^ - 1074\<close> there, as two doubles that differ do.
\<close>

theorem create_due_amount:
  assumes "post_students now flt b d = (Response 201 m, d', lg)"
  shows "\<exists>row. students d' = students d @ [row]
           \<and> s_total_fee row = Some (parseFloat (or_js (total_fee b) zero_js))
           \<and> s_amount_paid row = Some (parseFloat (or_js (amount_paid b) zero_js))
           \<and> s_due_amount row = Some (sub (parseFloat (or_js (total_fee b) zero_js))
                                          (parseFloat (or_js (amount_paid b) zero_js)))
           \<and> (\<forall>fee paid. s_total_fee row = Some (Fin fee) \<and> s_amount_paid row = Some (Fin paid)
                \<longrightarrow> s_due_amount row = Some (round_double (fee - paid))
                    \<and> (pow2 (- 1074) \<le> paid - fee
                         \<longrightarrow> (\<exists>due. s_due_amount row = Some due \<and> lt0 due)))"
proof -
  from post_students_cases[OF assms] have c: "created now b d d'" by auto
  define feeValue where "feeValue = parseFloat (or_js (total_fee b) zero_js)"
  define paidValue where "paidValue = parseFloat (or_js (amount_paid b) zero_js)"
  from c obtain row where rows: "students d' = students d @ [row]"
      "s_total_fee row = Some feeValue" "s_amount_paid row = Some paidValue"
      "s_due_amount row = Some (sub feeValue paidValue)"
    unfolding created_def Let_def feeValue_def paidValue_def
    by (auto simp: create_values_def Let_def)
  have "s_due_amount row = Some (round_double (fee - paid))
        \<and> (pow2 (- 1074) \<le> paid - fee \<longrightarrow> (\<exists>due. s_due_amount row = Some due \<and> lt0 due))"
    if "s_total_fee row = Some (Fin fee)" "s_amount_paid row = Some (Fin paid)" for fee paid
  proof -
    from that rows have "feeValue = Fin fee" "paidValue = Fin paid" by simp_all
    with rows(4) have due: "s_due_amount row = Some (sub (Fin fee) (Fin paid))" by simp
    with sub_overpaid[of paid fee] show ?thesis by simp
  qed
  with rows show ?thesis
    unfolding feeValue_def paidValue_def by blast
qed

text \<open>A fee of 500 paid with 600.50 is stored with the due amount -100.50.\<close>

theorem create_due_amount_witness:
  "(\<exists>m d' lg. post_students 5 None sample_body sample_db = (Response 201 m, d', lg))
   \<and> (\<exists>row. students (fst (snd (post_students 5 None sample_body sample_db)))
               = students sample_db @ [row]
            \<and> s_total_fee row = Some (Fin 500) \<and> s_amount_paid row = Some (Fin (1201 / 2))
            \<and> s_due_amount row = Some (Fin (- (201 / 2)))
            \<and> (\<exists>due. s_due_amount row = Some due \<and> lt0 due))"
proof -
  have e: "\<exists>m d' lg. post_students 5 None sample_body sample_db = (Response 201 m, d', lg)"
    by (simp add: create_defs io_defs sql_defs js_defs parse_defs sample_defs Let_def)
  then obtain m d' lg where r: "post_students 5 None sample_body sample_db = (Response 201 m, d', lg)"
    by blast
  have fee: "parseFloat (or_js (total_fee sample_body) zero_js) = Fin 500"
    by (simp add: js_defs sample_defs)
  have paid: "parseFloat (or_js (amount_paid sample_body) zero_js) = Fin (1201 / 2)"
    by (simp add: js_defs parse_defs sample_defs)
  have due: "round_double (500 - 1201 / 2) = Fin (- (201 / 2))"
    by (simp add: double_defs)
  have small: "pow2 (- 1074) \<le> 1201 / 2 - 500"
    by (simp add: pow2_def)
  from create_due_amount[OF r] obtain row where row:
      "students d' = students sample_db @ [row]"
      "s_total_fee row = Some (Fin 500)" "s_amount_paid row = Some (Fin (1201 / 2))"
      "\<forall>fee paid. s_total_fee row = Some (Fin fee) \<and> s_amount_paid row = Some (Fin paid)
         \<longrightarrow> s_due_amount row = Some (round_double (fee - paid))
             \<and> (pow2 (- 1074) \<le> paid - fee \<longrightarrow> (\<exists>due. s_due_amount row = Some due \<and> lt0 due))"
    unfolding fee paid by (elim exE conjE) (rule that, assumption+)
  from row(4)[rule_format, of 500 "1201 / 2"] row(2,3) due small
  have "s_due_amount row = Some (Fin (- (201 / 2)))" "\<exists>due. s_due_amount row = Some due \<and> lt0 due"
    by simp_all
  with row r e show ?thesis by auto
qed

text \<open>
  Claim C6. A create request that names a seat and a shift for which a seat assignment
  exists already is answered with 400 (with the conflict message whenever the request is
  valid otherwise and the seat and the shifts exist) and leaves every table with the rows
  it had; a fault of the database on the way gives 500 and the same rows.
\<close>

theorem create_conflict_rejected:
  assumes "seat_id b = Some seat" and "seat \<noteq> 0" and "shift_ids b = Some shifts"
    and "shift \<in> set shifts" and "a \<in> set (seat_assignments d)"
    and "sa_seat_id a = seat" and "sa_shift_id a = shift"
    and "post_students now flt b d = (resp, d', lg)"
  shows "same_rows d d'
       \<and> (flt = None \<longrightarrow> (\<exists>m. resp = Response 400 m))
       \<and> (flt = None \<and> create_valid b \<and> seat \<in> set (seats d) \<and> set shifts \<subseteq> set (schedules d)
            \<longrightarrow> (\<exists>x \<in> set shifts. resp = Response 400 (SeatAssigned x)))"
proof -
  from assms have sn: "int_or_null (seat_id b) = Some seat" "shift_list (shift_ids b) = shifts"
    "shifts \<noteq> []"
    by (auto simp: int_or_null_def truthy_int_def shift_list_def)
  from post_students_cases[OF assms(8)] consider
    (rej) m where "resp = Response 400 m" "d' = d"
       "create_valid b \<longrightarrow> check_failure d (Some seat) shifts (\<lambda>a. True) m"
  | (err) "resp = Response 500 ServerError" "flt \<noteq> None" "same_rows d d'"
  | (ok) "created now b d d'"
    unfolding sn by blast
  then show ?thesis
  proof cases
    case rej
    then show ?thesis
      by (auto simp: same_rows_def check_failure_def)
  next
    case err
    then show ?thesis by simp
  next
    case ok
    with sn assms(4-7) have False
      unfolding created_def Let_def by blast
    then show ?thesis ..
  qed
qed

theorem create_conflict_rejected_witness:
  "seat_id (sample_body\<lparr>shift_ids := Some [11, 10]\<rparr>) = Some 1 \<and> (1::int) \<noteq> 0
   \<and> shift_ids (sample_body\<lparr>shift_ids := Some [11, 10]\<rparr>) = Some [11, 10]
   \<and> (10::int) \<in> set [11, 10]
   \<and> \<lparr>sa_seat_id = 1, sa_shift_id = 10, sa_student_id = 1\<rparr> \<in> set (seat_assignments sample_db)
   \<and> create_valid (sample_body\<lparr>shift_ids := Some [11, 10]\<rparr>)
   \<and> 1 \<in> set (seats sample_db) \<and> set [11, 10] \<subseteq> set (schedules sample_db)
   \<and> fst (post_students 5 None (sample_body\<lparr>shift_ids := Some [11, 10]\<rparr>) sample_db)
       = Response 400 (SeatAssigned 10)
   \<and> same_rows sample_db (fst (snd (post_students 5 None (sample_body\<lparr>shift_ids := Some [11, 10]\<rparr>) sample_db)))"
proof -
  let ?b = "sample_body\<lparr>shift_ids := Some [11, 10]\<rparr>"
  obtain resp d' lg where r: "post_students 5 None ?b sample_db = (resp, d', lg)"
    by (cases "post_students 5 None ?b sample_db")
  have h: "seat_id ?b = Some 1" "(1::int) \<noteq> 0" "shift_ids ?b = Some [11, 10]"
    "(10::int) \<in> set [11, 10]"
    "\<lparr>sa_seat_id = 1, sa_shift_id = 10, sa_student_id = 1\<rparr> \<in> set (seat_assignments sample_db)"
    "sa_seat_id \<lparr>sa_seat_id = 1, sa_shift_id = 10, sa_student_id = 1\<rparr> = 1"
    "sa_shift_id \<lparr>sa_seat_id = 1, sa_shift_id = 10, sa_student_id = 1\<rparr> = 10"
    by (simp_all add: sample_defs)
  have v: "create_valid ?b" "1 \<in> set (seats sample_db)" "set [11, 10] \<subseteq> set (schedules sample_db)"
    by (simp_all add: create_valid_def js_defs parse_defs sample_defs Let_def)
  have ev: "fst (post_students 5 None ?b sample_db) = Response 400 (SeatAssigned 10)"
    by (simp add: create_defs io_defs sql_defs js_defs parse_defs sample_defs Let_def)
  from create_conflict_rejected[OF h r] r h v ev show ?thesis
    by simp
qed

section \<open>Update: money, seat assignments, history\<close>

lemma stored_read_back: "parseFloat (or_js (col_js (Some v)) zero_js) = v"
proof (cases v)
  case NaN
  then show ?thesis
    by (simp add: or_js_def parseFloat_str_def parse_unsigned_def is_ws_def is_digit_def units_def)
next
  case NegInf
  then show ?thesis
    by (simp add: or_js_def parseFloat_str_def parse_unsigned_def is_ws_def is_digit_def units_def)
next
  case (Fin r)
  then show ?thesis by (simp add: or_js_def zero_js_def)
next
  case PosInf
  then show ?thesis
    by (simp add: or_js_def parseFloat_str_def parse_unsigned_def is_ws_def is_digit_def units_def)
qed

lemma money_or_stored_kept:
  "x \<in> {Undefined, Null, Str []} \<Longrightarrow> money_or_stored x (Some v) = v"
  by (auto simp: money_or_stored_def supplied_def stored_read_back)

lemma find_map_same_id:
  assumes "\<And>r. s_id (f r) = s_id r"
  shows "find (\<lambda>r. s_id r = sid) (map (\<lambda>r. if s_id r = sid then f r else r) xs)
         = map_option f (find (\<lambda>r. s_id r = sid) xs)"
  by (induction xs) (auto simp: assms)

lemma same_rows_student_row: "same_rows d d' \<Longrightarrow> student_row d' sid = student_row d sid"
  by (simp add: same_rows_def student_row_def)

lemma updated_student_row:
  assumes "updated now sid b d d'"
  shows "\<exists>cur. student_row d sid = Some cur \<and> update_valid b cur \<and>
     student_row d' sid =
       Some (update_set now b (int_or_null (branch_id b))
               (money_or_stored (total_fee b) (s_total_fee cur))
               (money_or_stored (amount_paid b) (s_amount_paid cur))
               (sub (money_or_stored (total_fee b) (s_total_fee cur))
                    (money_or_stored (amount_paid b) (s_amount_paid cur)))
               (money_or_stored (cash b) (s_cash cur))
               (money_or_stored (online b) (s_online cur))
               (money_or_stored (security_money b) (s_security_money cur)) cur)"
proof -
  from assms obtain cur where cur: "student_row d sid = Some cur" "update_valid b cur"
    and w: "update_written now sid b (int_or_null (branch_id b)) (int_or_null (seat_id b))
                 (shift_list (shift_ids b)) (money_or_stored (total_fee b) (s_total_fee cur))
                 (money_or_stored (amount_paid b) (s_amount_paid cur))
                 (sub (money_or_stored (total_fee b) (s_total_fee cur))
                    (money_or_stored (amount_paid b) (s_amount_paid cur)))
                 (money_or_stored (cash b) (s_cash cur))
                 (money_or_stored (online b) (s_online cur))
                 (money_or_stored (security_money b) (s_security_money cur)) d d'"
    unfolding updated_def Let_def by blast
  have id: "\<And>r. s_id (update_set now b (int_or_null (branch_id b))
               (money_or_stored (total_fee b) (s_total_fee cur))
               (money_or_stored (amount_paid b) (s_amount_paid cur))
               (sub (money_or_stored (total_fee b) (s_total_fee cur))
                    (money_or_stored (amount_paid b) (s_amount_paid cur)))
               (money_or_stored (cash b) (s_cash cur))
               (money_or_stored (online b) (s_online cur))
               (money_or_stored (security_money b) (s_security_money cur)) r) = s_id r"
    by (simp add: update_set_def Let_def)
  from w have "students d' = map (\<lambda>r. if s_id r = sid
                  then update_set now b (int_or_null (branch_id b))
               (money_or_stored (total_fee b) (s_total_fee cur))
               (money_or_stored (amount_paid b) (s_amount_paid cur))
               (sub (money_or_stored (total_fee b) (s_total_fee cur))
                    (money_or_stored (amount_paid b) (s_amount_paid cur)))
               (money_or_stored (cash b) (s_cash cur))
               (money_or_stored (online b) (s_online cur))
               (money_or_stored (security_money b) (s_security_money cur)) r
                  else r) (students d)"
    by (simp add: update_written_def)
  with cur show ?thesis
    unfolding student_row_def by (simp add: find_map_same_id[OF id])
qed

lemma money_or_stored_null:
  "x \<in> {Undefined, Null, Str []} \<Longrightarrow> money_or_stored x None = Fin 0"
  by (auto simp: money_or_stored_def supplied_def or_js_def zero_js_def)

text \<open>
  Claim C4 fails as it is stated, for a column without a value. The \<^verbatim>\<open>total_fee\<close> of the
  student is \<^verbatim>\<open>NULL\<close> and the request leaves \<^verbatim>\<open>total_fee\<close> out: the update answers 200
  and the row holds 0, by \<^verbatim>\<open>parseFloat(currentStudent.total_fee || 0)\<close>, not the
  \<^verbatim>\<open>NULL\<close> that was stored.
\<close>

theorem update_null_money_becomes_zero:
  "total_fee (sample_body\<lparr>total_fee := Undefined\<rparr>) = Undefined
   \<and> map s_total_fee (students unpriced_db) = [None]
   \<and> status_of (fst (put_student 5 None 1 (sample_body\<lparr>total_fee := Undefined\<rparr>) unpriced_db))
       = 200
   \<and> map s_total_fee (students (fst (snd (put_student 5 None 1
         (sample_body\<lparr>total_fee := Undefined\<rparr>) unpriced_db)))) = [Some (Fin 0)]"
  by (simp add: update_defs eval_defs)

text \<open>
  Claim C4, as the code has it. An update in which a monetary field (\<^verbatim>\<open>total_fee\<close>,
  \<^verbatim>\<open>amount_paid\<close>, \<^verbatim>\<open>cash\<close>, \<^verbatim>\<open>online\<close>, \<^verbatim>\<open>security_money\<close>) is \<^verbatim>\<open>undefined\<close>,
  \<^verbatim>\<open>null\<close> or the empty string leaves the row of the student with exactly the value that
  was stored for that field, whenever the column holds a value and whatever the handler
  answers; a column that holds \<^verbatim>\<open>NULL\<close> is written as 0 by a successful update.
\<close>

theorem update_keeps_unsupplied_money:
  assumes "put_student now flt sid b d = (resp, d', lg)" and "student_row d sid = Some old"
  shows "\<exists>new. student_row d' sid = Some new
     \<and> (total_fee b \<in> {Undefined, Null, Str []} \<longrightarrow>
          (\<forall>v. s_total_fee old = Some v \<longrightarrow> s_total_fee new = Some v)
          \<and> (s_total_fee old = None \<and> status_of resp = 200 \<longrightarrow> s_total_fee new = Some (Fin 0)))
     \<and> (amount_paid b \<in> {Undefined, Null, Str []} \<longrightarrow>
          (\<forall>v. s_amount_paid old = Some v \<longrightarrow> s_amount_paid new = Some v)
          \<and> (s_amount_paid old = None \<and> status_of resp = 200
                \<longrightarrow> s_amount_paid new = Some (Fin 0)))
     \<and> (cash b \<in> {Undefined, Null, Str []} \<longrightarrow>
          (\<forall>v. s_cash old = Some v \<longrightarrow> s_cash new = Some v)
          \<and> (s_cash old = None \<and> status_of resp = 200 \<longrightarrow> s_cash new = Some (Fin 0)))
     \<and> (online b \<in> {Undefined, Null, Str []} \<longrightarrow>
          (\<forall>v. s_online old = Some v \<longrightarrow> s_online new = Some v)
          \<and> (s_online old = None \<and> status_of resp = 200 \<longrightarrow> s_online new = Some (Fin 0)))
     \<and> (security_money b \<in> {Undefined, Null, Str []} \<longrightarrow>
          (\<forall>v. s_security_money old = Some v \<longrightarrow> s_security_money new = Some v)
          \<and> (s_security_money old = None \<and> status_of resp = 200
                \<longrightarrow> s_security_money new = Some (Fin 0)))"
proof -
  from put_student_cases[OF assms(1)] consider
    (same) "same_rows d d'" "status_of resp \<noteq> 200" | (ok) "updated now sid b d d'"
    by (auto simp: same_rows_refl)
  then show ?thesis
  proof cases
    case same
    from same_rows_student_row[OF same(1)] assms(2) same(2) show ?thesis by simp
  next
    case ok
    from updated_student_row[OF ok] assms(2) show ?thesis
      by (auto simp: update_set_def Let_def money_or_stored_kept money_or_stored_null)
  qed
qed

text \<open>
  An update of the sample student that leaves all five fields out keeps 500, 300, 300, 0
  and 100.
\<close>

theorem update_keeps_unsupplied_money_witness:
  "student_row sample_db 1 = Some sample_student
   \<and> (\<exists>m. fst (put_student 5 None 1
          (sample_body\<lparr>total_fee := Undefined, amount_paid := Null, cash := Str [],
                       online := Undefined, security_money := Null\<rparr>) sample_db) = Response 200 m)
   \<and> (\<exists>new. student_row (fst (snd (put_student 5 None 1
          (sample_body\<lparr>total_fee := Undefined, amount_paid := Null, cash := Str [],
                       online := Undefined, security_money := Null\<rparr>) sample_db))) 1 = Some new
        \<and> s_total_fee new = Some (Fin 500) \<and> s_amount_paid new = Some (Fin 300)
        \<and> s_cash new = Some (Fin 300) \<and> s_online new = Some (Fin 0)
        \<and> s_security_money new = Some (Fin 100))"
proof -
  let ?b = "sample_body\<lparr>total_fee := Undefined, amount_paid := Null, cash := Str [],
                       online := Undefined, security_money := Null\<rparr>"
  obtain resp d' lg where r: "put_student 5 None 1 ?b sample_db = (resp, d', lg)"
    by (cases "put_student 5 None 1 ?b sample_db")
  have h: "student_row sample_db 1 = Some sample_student"
    by (simp add: student_row_def sample_defs)
  have ok: "\<exists>m. fst (put_student 5 None 1 ?b sample_db) = Response 200 m"
    by (simp add: update_defs eval_defs)
  from update_keeps_unsupplied_money[OF r h] r h ok show ?thesis
    by (auto simp: sample_defs)
qed

lemma latest_None: "latest hs = None \<longleftrightarrow> hs = []"
  by (induction hs) (auto split: option.splits)

lemma latest_greatest:
  "latest hs = Some g \<Longrightarrow> g \<in> set hs \<and> (\<forall>h \<in> set hs. h_changed_at h \<le> h_changed_at g)"
proof (induction hs arbitrary: g)
  case Nil
  then show ?case by simp
next
  case (Cons h hs)
  show ?case
  proof (cases "latest hs")
    case None
    with Cons.prems have "g = h" "hs = []" by (auto simp: latest_None)
    then show ?thesis by simp
  next
    case (Some g')
    from Cons.IH[OF Some] Cons.prems Some show ?thesis
      by (auto split: if_splits)
  qed
qed

text \<open>
  Claim C7. Every successful update deletes all seat assignments of the student and puts
  one assignment per shift back only when a seat and a non-empty list of shifts are given:
  with the seat \<^verbatim>\<open>seat_id\<close> and the array \<^verbatim>\<open>shift_ids\<close> of the body, the student has
  exactly one assignment of that seat for each shift of the array, in its order; with an
  empty \<^verbatim>\<open>shift_ids\<close> or none, or with no seat (none or 0), the student is left with no
  seat assignment. The assignments of the other students are not touched.
\<close>

theorem update_replaces_assignments:
  assumes "put_student now flt sid b d = (Response 200 m, d', lg)"
  shows "filter (\<lambda>a. sa_student_id a \<noteq> sid) (seat_assignments d')
           = filter (\<lambda>a. sa_student_id a \<noteq> sid) (seat_assignments d)
     \<and> (\<forall>seat xs. seat_id b = Some seat \<and> seat \<noteq> 0 \<and> shift_ids b = Some xs \<longrightarrow>
          filter (\<lambda>a. sa_student_id a = sid) (seat_assignments d')
            = map (\<lambda>x. \<lparr>sa_seat_id = seat, sa_shift_id = x, sa_student_id = sid\<rparr>) xs)
     \<and> (seat_id b = None \<or> seat_id b = Some 0 \<or> shift_ids b = None \<or> shift_ids b = Some [] \<longrightarrow>
          filter (\<lambda>a. sa_student_id a = sid) (seat_assignments d') = [])"
proof -
  from put_student_cases[OF assms] have "updated now sid b d d'" by auto
  then have sa: "seat_assignments d' =
          filter (\<lambda>a. sa_student_id a \<noteq> sid) (seat_assignments d) @
          new_assignments sid (int_or_null (seat_id b)) (shift_list (shift_ids b))"
    unfolding updated_def Let_def update_written_def by blast
  have mine: "filter (\<lambda>a. sa_student_id a = sid) (new_assignments sid x xs) = new_assignments sid x xs"
    and others: "filter (\<lambda>a. sa_student_id a \<noteq> sid) (new_assignments sid x xs) = []" for x xs
    by (auto simp: new_assignments_def filter_empty_conv split: option.splits)
  have none: "filter (\<lambda>a. sa_student_id a = sid) (filter (\<lambda>a. sa_student_id a \<noteq> sid) ys) = []" for ys
    by (simp add: filter_empty_conv)
  from sa show ?thesis
    by (auto simp: mine others none new_assignments_def int_or_null_def truthy_int_def
             shift_list_def split: option.splits)
qed

text \<open>
  The sample student has seat 1 for shift 10. An update with seat 1 and the shifts 11 and
  10 answers 200 and leaves the student with seat 1 for shift 11 and for shift 10, in this
  order; an update with an empty \<^verbatim>\<open>shift_ids\<close> answers 200 and leaves the student
  without a seat.
\<close>

theorem update_replaces_assignments_witness:
  "filter (\<lambda>a. sa_student_id a = 1) (seat_assignments sample_db)
     = [\<lparr>sa_seat_id = 1, sa_shift_id = 10, sa_student_id = 1\<rparr>]
   \<and> (\<exists>m d' lg. put_student 5 None 1 (sample_body\<lparr>shift_ids := Some [11, 10]\<rparr>) sample_db
       = (Response 200 m, d', lg))
   \<and> filter (\<lambda>a. sa_student_id a = 1)
       (seat_assignments (fst (snd (put_student 5 None 1
          (sample_body\<lparr>shift_ids := Some [11, 10]\<rparr>) sample_db))))
     = [\<lparr>sa_seat_id = 1, sa_shift_id = 11, sa_student_id = 1\<rparr>,
        \<lparr>sa_seat_id = 1, sa_shift_id = 10, sa_student_id = 1\<rparr>]
   \<and> (\<exists>m d' lg. put_student 5 None 1 (sample_body\<lparr>shift_ids := Some []\<rparr>) sample_db
       = (Response 200 m, d', lg))
   \<and> filter (\<lambda>a. sa_student_id a = 1)
       (seat_assignments (fst (snd (put_student 5 None 1 (sample_body\<lparr>shift_ids := Some []\<rparr>)
          sample_db)))) = []"
proof -
  let ?b = "sample_body\<lparr>shift_ids := Some [11, 10]\<rparr>"
  let ?c = "sample_body\<lparr>shift_ids := Some []\<rparr>"
  have e: "\<exists>m d' lg. put_student 5 None 1 ?b sample_db = (Response 200 m, d', lg)"
    by (simp add: update_defs eval_defs)
  then obtain m d' lg where r: "put_student 5 None 1 ?b sample_db = (Response 200 m, d', lg)"
    by blast
  have f: "\<exists>m d' lg. put_student 5 None 1 ?c sample_db = (Response 200 m, d', lg)"
    by (simp add: update_defs eval_defs)
  then obtain m2 d2 lg2 where r2: "put_student 5 None 1 ?c sample_db = (Response 200 m2, d2, lg2)"
    by blast
  have seat: "seat_id ?b = Some 1" "shift_ids ?b = Some [11, 10]" "shift_ids ?c = Some []"
    by (simp_all add: sample_defs)
  have before: "filter (\<lambda>a. sa_student_id a = 1) (seat_assignments sample_db)
     = [\<lparr>sa_seat_id = 1, sa_shift_id = 10, sa_student_id = 1\<rparr>]"
    by (simp add: sample_defs)
  from update_replaces_assignments[OF r] seat(1,2)
  have two: "filter (\<lambda>a. sa_student_id a = 1) (seat_assignments d')
     = [\<lparr>sa_seat_id = 1, sa_shift_id = 11, sa_student_id = 1\<rparr>,
        \<lparr>sa_seat_id = 1, sa_shift_id = 10, sa_student_id = 1\<rparr>]"
    by simp
  from update_replaces_assignments[OF r2] seat(3)
  have zero: "filter (\<lambda>a. sa_student_id a = 1) (seat_assignments d2) = []"
    by simp
  from before e f two zero r r2 show ?thesis
    by simp
qed

text \<open>
  Claim C8. The update finds the most recent history row of the student (the greatest
  \<^verbatim>\<open>changed_at\<close>) and overwrites that row in place with the new values. It answers 404
  for the missing history only when the student has no history row, and then the database
  is as before; and an update that gets as far as the history (no fault, the student
  exists, the body and the seat block pass their checks) answers this 404 exactly when the
  student has no history row.
\<close>

theorem update_history_latest:
  assumes "put_student now flt sid b d = (resp, d', lg)"
  shows "(resp = Response 404 NoHistory \<longrightarrow> history_rows d sid = [] \<and> d' = d)
     \<and> ((\<exists>m. resp = Response 200 m) \<longrightarrow>
          (\<exists>cur hrow firstShiftId.
             student_row d sid = Some cur
             \<and> hrow \<in> set (history_rows d sid)
             \<and> (\<forall>h \<in> set (history_rows d sid). h_changed_at h \<le> h_changed_at hrow)
             \<and> student_membership_history d' =
                 map (\<lambda>h. if h_id h = h_id hrow
                           then update_history_set now b (int_or_null (branch_id b))
                                  (int_or_null (seat_id b)) firstShiftId
                                  (money_or_stored (total_fee b) (s_total_fee cur))
                                  (money_or_stored (amount_paid b) (s_amount_paid cur))
                                  (sub (money_or_stored (total_fee b) (s_total_fee cur))
                                       (money_or_stored (amount_paid b) (s_amount_paid cur)))
                                  (money_or_stored (cash b) (s_cash cur))
                                  (money_or_stored (online b) (s_online cur))
                                  (money_or_stored (security_money b) (s_security_money cur)) h
                           else h) (student_membership_history d)))
     \<and> (\<forall>cur. flt = None \<and> student_row d sid = Some cur \<and> update_valid b cur
            \<and> (\<forall>m. \<not> check_failure d (int_or_null (seat_id b)) (shift_list (shift_ids b))
                       (\<lambda>a. sa_student_id a \<noteq> sid) m)
          \<longrightarrow> (resp = Response 404 NoHistory \<longleftrightarrow> history_rows d sid = []))"
proof -
  from put_student_cases[OF assms] consider
    (rej) m where "resp = Response 400 m"
      "\<forall>cur. student_row d sid = Some cur \<longrightarrow> update_valid b cur \<longrightarrow>
         check_failure d (int_or_null (seat_id b)) (shift_list (shift_ids b))
           (\<lambda>a. sa_student_id a \<noteq> sid) m"
  | (nostudent) "resp = Response 404 StudentNotFound" "student_row d sid = None"
  | (nohistory) "resp = Response 404 NoHistory" "d' = d" "latest (history_rows d sid) = None"
  | (err) "resp = Response 500 ServerError" "flt \<noteq> None"
  | (ok) m where "resp = Response 200 m" "updated now sid b d d'"
    by (elim disjE conjE exE) blast+
  then show ?thesis
  proof cases
    case rej
    then show ?thesis by auto
  next
    case nostudent
    then show ?thesis by auto
  next
    case nohistory
    then show ?thesis by (auto simp: latest_None)
  next
    case err
    then show ?thesis by auto
  next
    case ok
    from ok(2) obtain cur hrow firstShiftId where cur: "student_row d sid = Some cur"
      and l: "latest (history_rows d sid) = Some hrow"
      and h: "student_membership_history d' =
                 map (\<lambda>h. if h_id h = h_id hrow
                           then update_history_set now b (int_or_null (branch_id b))
                                  (int_or_null (seat_id b)) firstShiftId
                                  (money_or_stored (total_fee b) (s_total_fee cur))
                                  (money_or_stored (amount_paid b) (s_amount_paid cur))
                                  (sub (money_or_stored (total_fee b) (s_total_fee cur))
                                       (money_or_stored (amount_paid b) (s_amount_paid cur)))
                                  (money_or_stored (cash b) (s_cash cur))
                                  (money_or_stored (online b) (s_online cur))
                                  (money_or_stored (security_money b) (s_security_money cur)) h
                           else h) (student_membership_history d)"
      unfolding updated_def Let_def update_written_def by blast
    from latest_greatest[OF l] have g: "hrow \<in> set (history_rows d sid)"
      "\<forall>h \<in> set (history_rows d sid). h_changed_at h \<le> h_changed_at hrow" by auto
    then have ne: "history_rows d sid \<noteq> []" by auto
    from cur g h have "\<exists>cur hrow firstShiftId.
             student_row d sid = Some cur
             \<and> hrow \<in> set (history_rows d sid)
             \<and> (\<forall>h \<in> set (history_rows d sid). h_changed_at h \<le> h_changed_at hrow)
             \<and> student_membership_history d' =
                 map (\<lambda>h. if h_id h = h_id hrow
                           then update_history_set now b (int_or_null (branch_id b))
                                  (int_or_null (seat_id b)) firstShiftId
                                  (money_or_stored (total_fee b) (s_total_fee cur))
                                  (money_or_stored (amount_paid b) (s_amount_paid cur))
                                  (sub (money_or_stored (total_fee b) (s_total_fee cur))
                                       (money_or_stored (amount_paid b) (s_amount_paid cur)))
                                  (money_or_stored (cash b) (s_cash cur))
                                  (money_or_stored (online b) (s_online cur))
                                  (money_or_stored (security_money b) (s_security_money cur)) h
                           else h) (student_membership_history d)"
      by blast
    with ok(1) ne show ?thesis by auto
  qed
qed

text \<open>
  The sample student without a history row: the update answers 404 and changes nothing.
  With the history row: 200, and the row carries the new name and the instant of the
  update.
\<close>

theorem update_history_latest_witness:
  "student_row (sample_db\<lparr>student_membership_history := []\<rparr>) 1 = Some sample_student
   \<and> update_valid sample_body sample_student
   \<and> (\<forall>m. \<not> check_failure (sample_db\<lparr>student_membership_history := []\<rparr>)
              (int_or_null (seat_id sample_body)) (shift_list (shift_ids sample_body))
              (\<lambda>a. sa_student_id a \<noteq> 1) m)
   \<and> history_rows (sample_db\<lparr>student_membership_history := []\<rparr>) 1 = []
   \<and> fst (put_student 5 None 1 sample_body (sample_db\<lparr>student_membership_history := []\<rparr>))
       = Response 404 NoHistory
   \<and> fst (snd (put_student 5 None 1 sample_body (sample_db\<lparr>student_membership_history := []\<rparr>)))
       = sample_db\<lparr>student_membership_history := []\<rparr>
   \<and> (\<exists>m. fst (put_student 5 None 1 sample_body sample_db) = Response 200 m)
   \<and> map (\<lambda>h. (h_id h, h_name h, h_changed_at h))
        (student_membership_history (fst (snd (put_student 5 None 1 sample_body sample_db))))
       = [(1, Some ''Ravi'', 5)]"
proof -
  let ?d = "sample_db\<lparr>student_membership_history := []\<rparr>"
  obtain resp d' lg where r: "put_student 5 None 1 sample_body ?d = (resp, d', lg)"
    by (cases "put_student 5 None 1 sample_body ?d")
  have h: "student_row ?d 1 = Some sample_student"
    by (simp add: student_row_def sample_defs)
  have v: "update_valid sample_body sample_student"
    by (simp add: update_valid_def eval_defs)
  have c: "\<forall>m. \<not> check_failure ?d (int_or_null (seat_id sample_body))
              (shift_list (shift_ids sample_body)) (\<lambda>a. sa_student_id a \<noteq> 1) m"
    by (simp add: check_failure_def eval_defs)
  have n: "history_rows ?d 1 = []" by (simp add: history_rows_def)
  have ok: "\<exists>m. fst (put_student 5 None 1 sample_body sample_db) = Response 200 m"
    "map (\<lambda>h. (h_id h, h_name h, h_changed_at h))
        (student_membership_history (fst (snd (put_student 5 None 1 sample_body sample_db))))
       = [(1, Some ''Ravi'', 5)]"
    by (simp_all add: update_defs eval_defs)
  from update_history_latest[OF r] h v c n have "resp = Response 404 NoHistory" by blast
  with update_history_latest[OF r] r h v c n ok show ?thesis by simp
qed

section \<open>Renew: the status and the falsy amounts\<close>

lemma renewed_student_row:
  assumes "renewed now sid b d d'"
  shows "\<exists>old. student_row d sid = Some old \<and>
     student_row d' sid =
       Some (renew_set b (int_or_null (branch_id b))
               (parseFloat (or_js (or_js (total_fee b) (col_js (s_total_fee old))) zero_js))
               (add (parseFloat (or_js (cash b) zero_js)) (parseFloat (or_js (online b) zero_js)))
               (sub (parseFloat (or_js (or_js (total_fee b) (col_js (s_total_fee old))) zero_js))
                    (add (parseFloat (or_js (cash b) zero_js))
                         (parseFloat (or_js (online b) zero_js))))
               (parseFloat (or_js (cash b) zero_js)) (parseFloat (or_js (online b) zero_js))
               (parseFloat (or_js (or_js (security_money b) (col_js (s_security_money old)))
                              zero_js)) old)"
proof -
  from assms obtain old where old: "student_row d sid = Some old"
    and st: "students d' =
                 map (\<lambda>r. if s_id r = sid
                           then renew_set b (int_or_null (branch_id b))
               (parseFloat (or_js (or_js (total_fee b) (col_js (s_total_fee old))) zero_js))
               (add (parseFloat (or_js (cash b) zero_js)) (parseFloat (or_js (online b) zero_js)))
               (sub (parseFloat (or_js (or_js (total_fee b) (col_js (s_total_fee old))) zero_js))
                    (add (parseFloat (or_js (cash b) zero_js))
                         (parseFloat (or_js (online b) zero_js))))
               (parseFloat (or_js (cash b) zero_js)) (parseFloat (or_js (online b) zero_js))
               (parseFloat (or_js (or_js (security_money b) (col_js (s_security_money old)))
                              zero_js)) r
                           else r) (students d)"
    unfolding renewed_def Let_def by (elim exE conjE) (rule that, assumption+)
  have id: "\<And>r. s_id (renew_set b x1 x2 x3 x4 x5 x6 x7 r) = s_id r" for x1 x2 x3 x4 x5 x6 x7
    by (simp add: renew_set_def)
  from old st show ?thesis
    unfolding student_row_def by (simp add: find_map_same_id[OF id])
qed


lemma map_if_all:
  assumes "\<And>r. P (f r)" and "\<And>r. s_id (f r) = s_id r"
  shows "\<forall>r \<in> set (map (\<lambda>r. if s_id r = sid then f r else r) xs). s_id r = sid \<longrightarrow> P r"
  by (induction xs) (auto simp: assms)

text \<open>
  Claim C3. Every successful renew stores the status \<^verbatim>\<open>active\<close> for the student,
  whatever \<^verbatim>\<open>membership_end\<close> it stores with it, a date in the past included.
\<close>

theorem renew_sets_active:
  assumes "renew_student now flt sid b d = (Response 200 m, d', lg)"
  shows "(\<exists>new. student_row d' sid = Some new \<and> s_status new = Some Active
            \<and> s_membership_end new = membership_end b)
       \<and> (\<forall>r \<in> set (students d'). s_id r = sid \<longrightarrow> s_status r = Some Active)"
proof -
  from renew_student_cases[OF assms] have r: "renewed now sid b d d'" by auto
  from renewed_student_row[OF r] have first: "\<exists>new. student_row d' sid = Some new
      \<and> s_status new = Some Active \<and> s_membership_end new = membership_end b"
    by (auto simp: renew_set_def)
  from r obtain old where "student_row d sid = Some old" and st: "students d' =
                 map (\<lambda>r. if s_id r = sid
                           then renew_set b (int_or_null (branch_id b))
               (parseFloat (or_js (or_js (total_fee b) (col_js (s_total_fee old))) zero_js))
               (add (parseFloat (or_js (cash b) zero_js)) (parseFloat (or_js (online b) zero_js)))
               (sub (parseFloat (or_js (or_js (total_fee b) (col_js (s_total_fee old))) zero_js))
                    (add (parseFloat (or_js (cash b) zero_js))
                         (parseFloat (or_js (online b) zero_js))))
               (parseFloat (or_js (cash b) zero_js)) (parseFloat (or_js (online b) zero_js))
               (parseFloat (or_js (or_js (security_money b) (col_js (s_security_money old)))
                              zero_js)) r
                           else r) (students d)"
    unfolding renewed_def Let_def by (elim exE conjE) (rule that, assumption+)
  have "\<forall>r \<in> set (students d'). s_id r = sid \<longrightarrow> s_status r = Some Active"
    by (subst st, rule map_if_all) (simp_all add: renew_set_def)
  with first show ?thesis by simp
qed

text \<open>
  The membership of the student ended on day 18000 and the stored status is \<^verbatim>\<open>expired\<close>.
  A renew on day 19040 with an end on day 19030, still in the past, answers 200: a status
  derived from the date would be \<^verbatim>\<open>expired\<close>, the stored one is \<^verbatim>\<open>active\<close>, with the new
  end.
\<close>

theorem renew_sets_active_witness:
  "(\<exists>old. student_row lapsed_db 1 = Some old \<and> s_status old = Some Expired
         \<and> s_membership_end old = Some 18000)
   \<and> write_status (19040 * ms_per_day) (membership_end sample_body) = Expired
   \<and> (\<exists>m d' lg. renew_student (19040 * ms_per_day) None 1 sample_body lapsed_db
         = (Response 200 m, d', lg))
   \<and> (\<exists>new. student_row (fst (snd (renew_student (19040 * ms_per_day) None 1 sample_body
                 lapsed_db))) 1 = Some new
         \<and> s_status new = Some Active \<and> s_membership_end new = Some 19030)
   \<and> map s_status (students (fst (snd (renew_student (19040 * ms_per_day) None 1 sample_body
                 lapsed_db)))) = [Some Active]"
proof -
  have old: "\<exists>old. student_row lapsed_db 1 = Some old \<and> s_status old = Some Expired
         \<and> s_membership_end old = Some 18000"
    by (simp add: student_row_def sample_defs)
  have e: "\<exists>m d' lg. renew_student (19040 * ms_per_day) None 1 sample_body lapsed_db
         = (Response 200 m, d', lg)"
    by (simp add: renew_defs eval_defs)
  then obtain m d' lg where r: "renew_student (19040 * ms_per_day) None 1 sample_body lapsed_db
         = (Response 200 m, d', lg)" by blast
  have w: "write_status (19040 * ms_per_day) (membership_end sample_body) = Expired"
    by (simp add: write_status_def ms_per_day_def sample_defs)
  have me: "membership_end sample_body = Some 19030" by (simp add: sample_defs)
  have "map s_id (students (fst (snd (renew_student (19040 * ms_per_day) None 1 sample_body
            lapsed_db)))) = [1]"
    by (simp add: renew_defs eval_defs)
  with r have one: "map s_id (students d') = [1]" by simp
  from renew_sets_active[OF r] one have all: "map s_status (students d') = [Some Active]"
    by (cases "students d'") auto
  from renew_sets_active[OF r] r e w me old all show ?thesis by auto
qed

text \<open>
  Claim C9. In renew, a falsy \<^verbatim>\<open>total_fee\<close> (0, the empty string, \<^verbatim>\<open>null\<close>,
  \<^verbatim>\<open>undefined\<close>) for a student whose stored fee is positive does not set the fee to zero:
  the stored fee is written back. The same holds for \<^verbatim>\<open>security_money\<close>.
\<close>

theorem renew_falsy_money_falls_back:
  assumes "renew_student now flt sid b d = (Response 200 m, d', lg)"
    and "student_row d sid = Some old"
  shows "\<exists>new. student_row d' sid = Some new
       \<and> (\<not> truthy (total_fee b) \<longrightarrow>
            (\<forall>v. s_total_fee old = Some (Fin v) \<and> 0 < v \<longrightarrow> s_total_fee new = Some (Fin v)))
       \<and> (\<not> truthy (security_money b) \<longrightarrow>
            (\<forall>v. s_security_money old = Some (Fin v) \<and> 0 < v \<longrightarrow>
                 s_security_money new = Some (Fin v)))"
proof -
  from renew_student_cases[OF assms(1)] have r: "renewed now sid b d d'" by auto
  have fall: "parseFloat (or_js (or_js x (Num (Fin v))) zero_js) = Fin v"
    if "\<not> truthy x" "0 < v" for x v
    using that by (simp add: or_js_def)
  from renewed_student_row[OF r] assms(2) show ?thesis
    by (auto simp: renew_set_def fall)
qed

text \<open>The sample student, fee 500 and security money 100, renewed with 0 for both.\<close>

theorem renew_falsy_money_falls_back_witness:
  "student_row sample_db 1 = Some sample_student
   \<and> \<not> truthy (total_fee (sample_body\<lparr>total_fee := Num (Fin 0), security_money := Num (Fin 0)\<rparr>))
   \<and> (\<exists>m d' lg. renew_student 5 None 1
         (sample_body\<lparr>total_fee := Num (Fin 0), security_money := Num (Fin 0)\<rparr>) sample_db
         = (Response 200 m, d', lg))
   \<and> (\<exists>new. student_row (fst (snd (renew_student 5 None 1
         (sample_body\<lparr>total_fee := Num (Fin 0), security_money := Num (Fin 0)\<rparr>) sample_db))) 1
           = Some new
         \<and> s_total_fee new = Some (Fin 500) \<and> s_security_money new = Some (Fin 100))"
proof -
  let ?b = "sample_body\<lparr>total_fee := Num (Fin 0), security_money := Num (Fin 0)\<rparr>"
  have e: "\<exists>m d' lg. renew_student 5 None 1 ?b sample_db = (Response 200 m, d', lg)"
    by (simp add: renew_defs eval_defs)
  then obtain m d' lg where r: "renew_student 5 None 1 ?b sample_db = (Response 200 m, d', lg)"
    by blast
  have h: "student_row sample_db 1 = Some sample_student"
    by (simp add: student_row_def sample_defs)
  have f: "\<not> truthy (total_fee ?b)" "\<not> truthy (security_money ?b)" by simp_all
  have old: "s_total_fee sample_student = Some (Fin 500)"
    "s_security_money sample_student = Some (Fin 100)"
    by (simp_all add: sample_defs)
  from renew_falsy_money_falls_back[OF r h] f old r e h show ?thesis
    by auto
qed

section \<open>Status on the last day of a membership\<close>

lemma midnight_before_now:
  assumes "now mod ms_per_day \<noteq> 0"
  shows "current_date now * ms_per_day < now"
proof -
  have "0 < ms_per_day" by (simp add: ms_per_day_def)
  then have "0 \<le> now mod ms_per_day" by simp
  with assms have "0 < now mod ms_per_day" by simp
  moreover have "now = now div ms_per_day * ms_per_day + now mod ms_per_day" by simp
  ultimately show ?thesis unfolding current_date_def by linarith
qed

text \<open>
  Claim C10. The status that create and update store and the status that the read queries
  calculate differ on the last day of a membership: with \<^verbatim>\<open>membership_end\<close> equal to
  the current date and a write after midnight, create and update store \<^verbatim>\<open>expired\<close>,
  while \<^verbatim>\<open>CASE WHEN membership_end < CURRENT_DATE\<close> gives \<^verbatim>\<open>active\<close> for the same row.
\<close>

theorem boundary_day_status:
  assumes "membership_end b = Some (current_date now)" and "now mod ms_per_day \<noteq> 0"
  shows "write_status now (membership_end b) = Expired
     \<and> (\<forall>flt d m d' lg. post_students now flt b d = (Response 201 m, d', lg) \<longrightarrow>
          (\<exists>row. students d' = students d @ [row] \<and> s_status row = Some Expired
                \<and> calculated_status now row = Active))
     \<and> (\<forall>flt sid d m d' lg. put_student now flt sid b d = (Response 200 m, d', lg) \<longrightarrow>
          (\<exists>row. student_row d' sid = Some row \<and> s_status row = Some Expired
                \<and> calculated_status now row = Active))"
proof -
  from midnight_before_now[OF assms(2)] assms(1)
  have w: "write_status now (membership_end b) = Expired"
    by (simp add: write_status_def)
  have create: "\<exists>row. students d' = students d @ [row] \<and> s_status row = Some Expired
                \<and> calculated_status now row = Active"
    if "post_students now flt b d = (Response 201 m, d', lg)" for flt d m d' lg
  proof -
    from post_students_cases[OF that] have "created now b d d'" by auto
    then obtain row where "students d' = students d @ [row]"
      "s_status row = Some (write_status now (membership_end b))"
      "s_membership_end row = membership_end b"
      unfolding created_def Let_def by (auto simp: create_values_def Let_def)
    with w assms(1) show ?thesis by (auto simp: calculated_status_def)
  qed
  have update: "\<exists>row. student_row d' sid = Some row \<and> s_status row = Some Expired
                \<and> calculated_status now row = Active"
    if "put_student now flt sid b d = (Response 200 m, d', lg)" for flt sid d m d' lg
  proof -
    from put_student_cases[OF that] have "updated now sid b d d'" by auto
    from updated_student_row[OF this] obtain row where "student_row d' sid = Some row"
      "s_status row = Some (write_status now (membership_end b))"
      "s_membership_end row = membership_end b"
      by (auto simp: update_set_def Let_def)
    with w assms(1) show ?thesis by (auto simp: calculated_status_def)
  qed
  from w create update show ?thesis by blast
qed

text \<open>
  One hour after midnight of day 19030, the last day of the sample membership: create and
  update store \<^verbatim>\<open>expired\<close>, and the read query shows the new row as \<^verbatim>\<open>active\<close>.
\<close>

theorem boundary_day_status_witness:
  "membership_end sample_body = Some (current_date 1644195600000)
   \<and> 1644195600000 mod ms_per_day \<noteq> 0
   \<and> (\<exists>m d' lg. post_students 1644195600000 None sample_body sample_db = (Response 201 m, d', lg))
   \<and> (\<exists>m d' lg. put_student 1644195600000 None 1 sample_body sample_db = (Response 200 m, d', lg))
   \<and> map s_status (students (fst (snd (post_students 1644195600000 None sample_body sample_db))))
       = [Some Active, Some Expired]
   \<and> map s_status (withCalculatedStatus 1644195600000
        (fst (snd (post_students 1644195600000 None sample_body sample_db))))
       = [Some Active, Some Active]
   \<and> (\<exists>row. student_row (fst (snd (put_student 1644195600000 None 1 sample_body sample_db))) 1
               = Some row
          \<and> s_status row = Some Expired \<and> calculated_status 1644195600000 row = Active)"
proof -
  let ?now = "1644195600000 :: int"
  have h: "membership_end sample_body = Some (current_date ?now)" "?now mod ms_per_day \<noteq> 0"
    by (simp_all add: current_date_def ms_per_day_def sample_defs)
  have c: "\<exists>m d' lg. post_students ?now None sample_body sample_db = (Response 201 m, d', lg)"
    by (simp add: create_defs eval_defs)
  have u: "\<exists>m d' lg. put_student ?now None 1 sample_body sample_db = (Response 200 m, d', lg)"
    by (simp add: update_defs eval_defs)
  from c obtain m d' lg where rc: "post_students ?now None sample_body sample_db = (Response 201 m, d', lg)"
    by blast
  from u obtain m2 d2 lg2 where ru: "put_student ?now None 1 sample_body sample_db = (Response 200 m2, d2, lg2)"
    by blast
  have ev: "map s_status (students (fst (snd (post_students ?now None sample_body sample_db))))
       = [Some Active, Some Expired]"
    "map s_status (withCalculatedStatus ?now
        (fst (snd (post_students ?now None sample_body sample_db))))
       = [Some Active, Some Active]"
    by (simp_all add: create_defs eval_defs withCalculatedStatus_def calculated_status_def
          current_date_def)
  from boundary_day_status[OF h] ru have
    "\<exists>row. student_row d2 1 = Some row \<and> s_status row = Some Expired
          \<and> calculated_status ?now row = Active" by blast
  with h c u ev ru show ?thesis by simp
qed

section \<open>Transactions: which handlers have one\<close>

text \<open>
  Create and update are atomic: whatever they answer, short of success, and whichever
  step of theirs the database rejects, every table has the rows it had before, and an
  answer is sent.
\<close>

lemma post_students_atomic:
  assumes "post_students now flt b d = (resp, d', lg)"
  shows "resp \<noteq> Unanswered \<and> ((\<forall>m. resp \<noteq> Response 201 m) \<longrightarrow> same_rows d d')"
  using post_students_cases[OF assms] by (auto simp: same_rows_refl)

lemma put_student_atomic:
  assumes "put_student now flt sid b d = (resp, d', lg)"
  shows "resp \<noteq> Unanswered \<and> ((\<forall>m. resp \<noteq> Response 200 m) \<longrightarrow> same_rows d d')"
  using put_student_cases[OF assms] by (auto simp: same_rows_refl)

text \<open>
  Claim C1 says that every write path (create, update, renew, delete) takes a connection
  of its own, wraps its statements in \<^verbatim>\<open>BEGIN\<close> ... \<^verbatim>\<open>COMMIT\<close>/\<^verbatim>\<open>ROLLBACK\<close> and
  rolls back before it answers a failure, so that no partial write is visible. Create and
  update do (the two lemmas above); renew and delete do not. Here the database rejects
  the last \<^verbatim>\<open>INSERT\<close> of a renew of the sample student: the answer is 500, the row of
  the student and the seat assignments are changed already and stay changed, no history
  row is written, and the log shows neither a connection nor a \<^verbatim>\<open>BEGIN\<close> nor a
  \<^verbatim>\<open>ROLLBACK\<close>. A delete whose last statement is rejected has deleted the seat
  assignments and the history of a student who is still there. The update of the same
  student with a rejected statement after its writes answers 500 with all rows as before.
\<close>

theorem renew_delete_not_atomic:
  "fst (renew_student 5 (Some 5) 1 sample_body sample_db) = Response 500 ServerError
   \<and> \<not> same_rows sample_db (fst (snd (renew_student 5 (Some 5) 1 sample_body sample_db)))
   \<and> map s_email (students (fst (snd (renew_student 5 (Some 5) 1 sample_body sample_db))))
       = [Some ''ravi@example.org'']
   \<and> seat_assignments (fst (snd (renew_student 5 (Some 5) 1 sample_body sample_db)))
       = [\<lparr>sa_seat_id = 1, sa_shift_id = 11, sa_student_id = 1\<rparr>]
   \<and> student_membership_history (fst (snd (renew_student 5 (Some 5) 1 sample_body sample_db)))
       = student_membership_history sample_db
   \<and> snd (snd (renew_student 5 (Some 5) 1 sample_body sample_db))
       = [Sql Pool SELECT, Sql Pool SELECT, Sql Pool UPDATE, Sql Pool DELETE, Sql Pool INSERT,
          Sql Pool INSERT]
   \<and> fst (delete_student_route (Some 2) 1 sample_db) = Response 500 ServerError
   \<and> students (fst (snd (delete_student_route (Some 2) 1 sample_db))) = students sample_db
   \<and> seat_assignments (fst (snd (delete_student_route (Some 2) 1 sample_db))) = []
   \<and> student_membership_history (fst (snd (delete_student_route (Some 2) 1 sample_db))) = []
   \<and> snd (snd (delete_student_route (Some 2) 1 sample_db))
       = [Sql Pool DELETE, Sql Pool DELETE, Sql Pool DELETE]
   \<and> fst (put_student 5 (Some 9) 1 sample_body sample_db) = Response 500 ServerError
   \<and> same_rows sample_db (fst (snd (put_student 5 (Some 9) 1 sample_body sample_db)))
   \<and> snd (snd (put_student 5 (Some 9) 1 sample_body sample_db))
       = [Connect, Sql Client BEGIN, Sql Client SELECT, Sql Client SELECT, Sql Client SELECT,
          Sql Client SELECT, Sql Client UPDATE, Sql Client DELETE, Sql Client INSERT,
          Sql Client SELECT, Sql Client UPDATE, Sql Client ROLLBACK, Release]"
proof -
  have renew: "fst (renew_student 5 (Some 5) 1 sample_body sample_db) = Response 500 ServerError"
    "\<not> same_rows sample_db (fst (snd (renew_student 5 (Some 5) 1 sample_body sample_db)))"
    "map s_email (students (fst (snd (renew_student 5 (Some 5) 1 sample_body sample_db))))
       = [Some ''ravi@example.org'']"
    "seat_assignments (fst (snd (renew_student 5 (Some 5) 1 sample_body sample_db)))
       = [\<lparr>sa_seat_id = 1, sa_shift_id = 11, sa_student_id = 1\<rparr>]"
    "student_membership_history (fst (snd (renew_student 5 (Some 5) 1 sample_body sample_db)))
       = student_membership_history sample_db"
    "snd (snd (renew_student 5 (Some 5) 1 sample_body sample_db))
       = [Sql Pool SELECT, Sql Pool SELECT, Sql Pool UPDATE, Sql Pool DELETE, Sql Pool INSERT,
          Sql Pool INSERT]"
    by (simp_all add: renew_defs eval_defs same_rows_def)
  have delete: "fst (delete_student_route (Some 2) 1 sample_db) = Response 500 ServerError"
    "students (fst (snd (delete_student_route (Some 2) 1 sample_db))) = students sample_db"
    "seat_assignments (fst (snd (delete_student_route (Some 2) 1 sample_db))) = []"
    "student_membership_history (fst (snd (delete_student_route (Some 2) 1 sample_db))) = []"
    "snd (snd (delete_student_route (Some 2) 1 sample_db))
       = [Sql Pool DELETE, Sql Pool DELETE, Sql Pool DELETE]"
    by (simp_all add: delete_defs eval_defs)
  have update: "fst (put_student 5 (Some 9) 1 sample_body sample_db) = Response 500 ServerError"
    "same_rows sample_db (fst (snd (put_student 5 (Some 9) 1 sample_body sample_db)))"
    "snd (snd (put_student 5 (Some 9) 1 sample_body sample_db))
       = [Connect, Sql Client BEGIN, Sql Client SELECT, Sql Client SELECT, Sql Client SELECT,
          Sql Client SELECT, Sql Client UPDATE, Sql Client DELETE, Sql Client INSERT,
          Sql Client SELECT, Sql Client UPDATE, Sql Client ROLLBACK, Release]"
    by (simp_all add: update_defs eval_defs same_rows_def)
  from renew delete update show ?thesis by simp
qed

text \<open>
  Claim C2 says that renew validates a seat and its shifts as update does: the seat
  exists, every shift exists, no pair of seat and shift belongs to another student. Renew
  makes the third check only. With a seat 99 or a shift 77 that do not exist, update
  answers 400 and renew answers 200 and stores the assignment; with a seat that another
  student holds for the shift, both answer 400.
\<close>

theorem renew_skips_existence_checks:
  "99 \<notin> set (seats sample_db) \<and> 77 \<notin> set (schedules sample_db)
   \<and> (\<exists>m. fst (renew_student 5 None 1 (sample_body\<lparr>seat_id := Some 99\<rparr>) sample_db)
            = Response 200 m)
   \<and> seat_assignments (fst (snd (renew_student 5 None 1 (sample_body\<lparr>seat_id := Some 99\<rparr>)
        sample_db)))
       = [\<lparr>sa_seat_id = 99, sa_shift_id = 11, sa_student_id = 1\<rparr>]
   \<and> fst (put_student 5 None 1 (sample_body\<lparr>seat_id := Some 99\<rparr>) sample_db)
       = Response 400 (SeatNotExist 99)
   \<and> (\<exists>m. fst (renew_student 5 None 1 (sample_body\<lparr>shift_ids := Some [77]\<rparr>) sample_db)
            = Response 200 m)
   \<and> seat_assignments (fst (snd (renew_student 5 None 1 (sample_body\<lparr>shift_ids := Some [77]\<rparr>)
        sample_db)))
       = [\<lparr>sa_seat_id = 1, sa_shift_id = 77, sa_student_id = 1\<rparr>]
   \<and> fst (put_student 5 None 1 (sample_body\<lparr>shift_ids := Some [77]\<rparr>) sample_db)
       = Response 400 (ShiftNotExist 77)
   \<and> fst (renew_student 5 None 1 (sample_body\<lparr>shift_ids := Some [10]\<rparr>)
        (sample_db\<lparr>seat_assignments :=
           [\<lparr>sa_seat_id = 1, sa_shift_id = 10, sa_student_id = 2\<rparr>]\<rparr>))
       = Response 400 (SeatAssigned 10)
   \<and> fst (put_student 5 None 1 (sample_body\<lparr>shift_ids := Some [10]\<rparr>)
        (sample_db\<lparr>seat_assignments :=
           [\<lparr>sa_seat_id = 1, sa_shift_id = 10, sa_student_id = 2\<rparr>]\<rparr>))
       = Response 400 (SeatAssigned 10)"
proof -
  have seat: "99 \<notin> set (seats sample_db)" "77 \<notin> set (schedules sample_db)"
    by (simp_all add: sample_defs)
  have renew: "\<exists>m. fst (renew_student 5 None 1 (sample_body\<lparr>seat_id := Some 99\<rparr>) sample_db)
            = Response 200 m"
    "seat_assignments (fst (snd (renew_student 5 None 1 (sample_body\<lparr>seat_id := Some 99\<rparr>)
        sample_db)))
       = [\<lparr>sa_seat_id = 99, sa_shift_id = 11, sa_student_id = 1\<rparr>]"
    "\<exists>m. fst (renew_student 5 None 1 (sample_body\<lparr>shift_ids := Some [77]\<rparr>) sample_db)
            = Response 200 m"
    "seat_assignments (fst (snd (renew_student 5 None 1 (sample_body\<lparr>shift_ids := Some [77]\<rparr>)
        sample_db)))
       = [\<lparr>sa_seat_id = 1, sa_shift_id = 77, sa_student_id = 1\<rparr>]"
    "fst (renew_student 5 None 1 (sample_body\<lparr>shift_ids := Some [10]\<rparr>)
        (sample_db\<lparr>seat_assignments :=
           [\<lparr>sa_seat_id = 1, sa_shift_id = 10, sa_student_id = 2\<rparr>]\<rparr>))
       = Response 400 (SeatAssigned 10)"
    by (simp_all add: renew_defs eval_defs)
  have update: "fst (put_student 5 None 1 (sample_body\<lparr>seat_id := Some 99\<rparr>) sample_db)
       = Response 400 (SeatNotExist 99)"
    "fst (put_student 5 None 1 (sample_body\<lparr>shift_ids := Some [77]\<rparr>) sample_db)
       = Response 400 (ShiftNotExist 77)"
    "fst (put_student 5 None 1 (sample_body\<lparr>shift_ids := Some [10]\<rparr>)
        (sample_db\<lparr>seat_assignments :=
           [\<lparr>sa_seat_id = 1, sa_shift_id = 10, sa_student_id = 2\<rparr>]\<rparr>))
       = Response 400 (SeatAssigned 10)"
    by (simp_all add: update_defs eval_defs)
  from seat renew update show ?thesis by simp
qed

end
